(* ===== verification/Prelude.thy ===== *)
theory Prelude
  imports Main "HOL-Library.Sublist"
begin

text \<open>
  Shared vocabulary of the development: the fact collections that carry the
  component proofs, the result type of fallible code, and generic lemmas on
  sums and lists that the component theories use.

  \<^item> \<open>prog_simps\<close> collects the evaluation rules of the effect combinators of
    theory \<open>Effects\<close>; \<open>simp add: prog_simps\<close> runs a handler symbolically.
  \<^item> \<open>py_simps\<close> collects the characteristic equations of the modelled Python
    builtins (string and dictionary operations).
\<close>

named_theorems prog_simps "evaluation rules of the effect combinators"
named_theorems py_simps "characteristic equations of the modelled Python builtins"

section \<open>Results of fallible code\<close>

text \<open>
  Code that can raise returns a sum: \<open>Inl e\<close> is the raised exception,
  \<open>Inr x\<close> the returned value. \<open>is_ok\<close> names the second case.
\<close>

type_synonym ('e, 'a) result = "'e + 'a"

definition is_ok :: "('e, 'a) result \<Rightarrow> bool" where
  "is_ok r = (case r of Inl _ \<Rightarrow> False | Inr _ \<Rightarrow> True)"

lemma is_ok_simps [simp]: "is_ok (Inr x)" "\<not> is_ok (Inl e)"
  by (simp_all add: is_ok_def)

lemma is_ok_iff: "is_ok r \<longleftrightarrow> (\<exists>x. r = Inr x)"
  by (cases r) simp_all

section \<open>Lists\<close>

text \<open>
  Trailing-whitespace stripping is \<open>dropWhile\<close> on the reversed string; the
  lemmas below are the facts about that shape. \<open>prefix\<close> (from
  \<open>HOL-Library.Sublist\<close>) is what \<open>startswith\<close> tests.
\<close>

lemma rev_dropWhile_rev_append:
  "rev (dropWhile P (rev xs)) @ rev (takeWhile P (rev xs)) = xs"
proof -
  have "rev (takeWhile P (rev xs) @ dropWhile P (rev xs)) = xs"
    by simp
  then show ?thesis
    by (simp only: rev_append)
qed

lemma last_rev_dropWhile_rev:
  assumes "rev (dropWhile P (rev xs)) \<noteq> []"
  shows "\<not> P (last (rev (dropWhile P (rev xs))))"
proof -
  from assms have ne: "dropWhile P (rev xs) \<noteq> []"
    by simp
  then have "\<not> P (hd (dropWhile P (rev xs)))"
    by (rule hd_dropWhile)
  with ne show ?thesis
    by (simp add: last_rev)
qed

section \<open>The oldest element of a list\<close>

text \<open>
  The element with the least time stamp, the first of them in the list when
  several have it; \<open>None\<close> for the empty list.
\<close>

fun oldest_by :: "('a \<Rightarrow> nat) \<Rightarrow> 'a list \<Rightarrow> 'a option" where
  "oldest_by f [] = None"
| "oldest_by f (x # xs) =
     (case oldest_by f xs of
        None \<Rightarrow> Some x
      | Some y \<Rightarrow> if f x \<le> f y then Some x else Some y)"

lemma oldest_by_None [simp]: "oldest_by f xs = None \<longleftrightarrow> xs = []"
  by (induction xs) (auto split: option.splits)

lemma oldest_by_mem: "oldest_by f xs = Some x \<Longrightarrow> x \<in> set xs"
  by (induction xs arbitrary: x) (auto split: option.splits if_splits)

lemma oldest_by_le: "oldest_by f xs = Some x \<Longrightarrow> y \<in> set xs \<Longrightarrow> f x \<le> f y"
  by (induction xs arbitrary: x) (auto split: option.splits if_splits)

end
