(* ===== verification/PyStr.thy ===== *)
theory PyStr
  imports Prelude
begin

text \<open>
  The Python string builtins the sources call, over \<open>string\<close> (a list of 8-bit
  characters, read as the code points 0..255): \<open>str.isspace\<close>, \<open>str.rstrip\<close>,
  \<open>str.lstrip\<close>, \<open>str.strip\<close>, \<open>str.startswith\<close>, and \<open>str\<close> of a
  non-negative or signed integer (decimal digits), with its inverse for the
  round trip. Code points above 255 are outside the model.
\<close>

section \<open>Whitespace and stripping\<close>

text \<open>
  \<open>str.isspace\<close> on one character: the code points below 256 that Python
  classifies as whitespace are TAB, LF, VT, FF, CR, the four separators
  0x1C..0x1F, SPACE, NEL (0x85) and NBSP (0xA0). \<open>rstrip()\<close>, \<open>lstrip()\<close> and
  \<open>strip()\<close> without argument remove exactly these at the end, the start, and
  both.
\<close>

definition py_isspace :: "char \<Rightarrow> bool" where
  "py_isspace c = ((of_char c :: nat) \<in> set [9, 10, 11, 12, 13, 28, 29, 30, 31, 32, 133, 160])"

definition rstrip :: "string \<Rightarrow> string" where
  "rstrip s = rev (dropWhile py_isspace (rev s))"

definition lstrip :: "string \<Rightarrow> string" where
  "lstrip s = dropWhile py_isspace s"

definition strip :: "string \<Rightarrow> string" where
  "strip s = lstrip (rstrip s)"

definition startswith :: "string \<Rightarrow> string \<Rightarrow> bool" where
  "startswith s p = prefix p s"

lemma py_isspace_newline [py_simps]: "py_isspace CHR 0x0A"
  by (simp add: py_isspace_def)

lemma py_isspace_space [py_simps]: "py_isspace CHR '' ''"
  by (simp add: py_isspace_def)

lemma rstrip_Nil [py_simps]: "rstrip [] = []"
  by (simp add: rstrip_def)

lemma lstrip_Nil [py_simps]: "lstrip [] = []"
  by (simp add: lstrip_def)

lemma rstrip_snoc [py_simps]:
  "rstrip (s @ [c]) = (if py_isspace c then rstrip s else s @ [c])"
  by (simp add: rstrip_def)

lemma lstrip_Cons [py_simps]:
  "lstrip (c # s) = (if py_isspace c then lstrip s else c # s)"
  by (simp add: lstrip_def)

lemma rstrip_append_space: "\<forall>c \<in> set t. py_isspace c \<Longrightarrow> rstrip (s @ t) = rstrip s"
  by (induction t rule: rev_induct) (simp_all add: rstrip_snoc flip: append_assoc)

lemma rstrip_decomp: "\<exists>t. s = rstrip s @ t \<and> (\<forall>c \<in> set t. py_isspace c)"
proof (intro exI conjI)
  show "s = rstrip s @ rev (takeWhile py_isspace (rev s))"
    by (simp add: rstrip_def rev_dropWhile_rev_append)
  show "\<forall>c \<in> set (rev (takeWhile py_isspace (rev s))). py_isspace c"
    by (auto dest: set_takeWhileD)
qed

lemma rstrip_last: "rstrip s \<noteq> [] \<Longrightarrow> \<not> py_isspace (last (rstrip s))"
  unfolding rstrip_def by (rule last_rev_dropWhile_rev)

lemma rstrip_idem [simp]: "rstrip (rstrip s) = rstrip s"
  by (simp add: rstrip_def)

lemma lstrip_idem [simp]: "lstrip (lstrip s) = lstrip s"
  by (simp add: lstrip_def)

lemma lstrip_hd: "lstrip s \<noteq> [] \<Longrightarrow> \<not> py_isspace (hd (lstrip s))"
  unfolding lstrip_def by (rule hd_dropWhile)

lemma lstrip_append_keep: "lstrip s \<noteq> [] \<Longrightarrow> lstrip (s @ t) = lstrip s @ t"
  by (induction s) (auto simp: lstrip_Nil lstrip_Cons)

lemma lstrip_all_space: "lstrip s = [] \<longleftrightarrow> (\<forall>c \<in> set s. py_isspace c)"
  by (simp add: lstrip_def)

lemma rstrip_all_space: "rstrip s = [] \<longleftrightarrow> (\<forall>c \<in> set s. py_isspace c)"
  by (simp add: rstrip_def)

lemma startswith_Nil [py_simps]: "startswith s []"
  by (simp add: startswith_def)

lemma startswith_Cons [py_simps]:
  "startswith (c # s) (d # p) \<longleftrightarrow> c = d \<and> startswith s p"
  by (auto simp: startswith_def)

lemma startswith_Nil_left [py_simps]: "startswith [] p \<longleftrightarrow> p = []"
  by (simp add: startswith_def)

lemma startswith_append: "startswith s p \<Longrightarrow> startswith (s @ t) p"
  by (auto simp: startswith_def)

lemma rstrip_prefix: "prefix (rstrip s) s"
  using rstrip_decomp [of s] by (metis prefixI)

text \<open>
  Whitespace appended to a non-empty string does not change whether it starts
  with a pattern that ends in a non-space; hence \<open>strip\<close> before
  \<open>startswith\<close> is \<open>lstrip\<close> before \<open>startswith\<close> for such a pattern.
\<close>

lemma startswith_append_space:
  assumes "p \<noteq> []" and "\<not> py_isspace (last p)" and "\<forall>c \<in> set u. py_isspace c"
    and "x \<noteq> []"
  shows "startswith (x @ u) p \<longleftrightarrow> startswith x p"
proof
  assume "startswith (x @ u) p"
  then have "prefix p x \<or> (\<exists>us. p = x @ us \<and> prefix us u)"
    by (simp add: startswith_def prefix_append)
  then show "startswith x p"
  proof (elim disjE exE conjE)
    assume "prefix p x"
    then show ?thesis by (simp add: startswith_def)
  next
    fix us
    assume p: "p = x @ us" and us: "prefix us u"
    show ?thesis
    proof (cases "us = []")
      case True
      with p show ?thesis by (simp add: startswith_def)
    next
      case False
      with p have "last p = last us" by simp
      moreover from False us have "last us \<in> set u"
        using set_mono_prefix [of us u] last_in_set [of us] by auto
      ultimately show ?thesis
        using assms(2,3) by simp
    qed
  qed
qed (rule startswith_append)

lemma startswith_strip:
  assumes "p \<noteq> []" and "\<not> py_isspace (last p)"
  shows "startswith (strip s) p \<longleftrightarrow> startswith (lstrip s) p"
proof (cases "\<forall>c \<in> set s. py_isspace c")
  case True
  then have "rstrip s = []" and "lstrip s = []"
    by (simp_all add: rstrip_all_space lstrip_all_space)
  then show ?thesis
    by (simp add: strip_def py_simps)
next
  case False
  obtain u where s: "s = rstrip s @ u" and u: "\<forall>c \<in> set u. py_isspace c"
    using rstrip_decomp [of s] by blast
  from False s u have "\<not> (\<forall>c \<in> set (rstrip s). py_isspace c)"
    by (metis Un_iff set_append)
  then have ne: "lstrip (rstrip s) \<noteq> []"
    by (simp add: lstrip_all_space)
  then have "lstrip s = lstrip (rstrip s) @ u"
    using s lstrip_append_keep [of "rstrip s" u] by simp
  with startswith_append_space [OF assms u ne] show ?thesis
    by (simp add: strip_def)
qed

section \<open>Joining\<close>

text \<open>\<open>sep.join(xs)\<close>: the strings of \<open>xs\<close> with \<open>sep\<close> between neighbours.\<close>

fun py_join :: "string \<Rightarrow> string list \<Rightarrow> string" where
  "py_join sep [] = []"
| "py_join sep [x] = x"
| "py_join sep (x # y # ys) = x @ sep @ py_join sep (y # ys)"

lemma set_py_join: "set (py_join sep xs) \<subseteq> set sep \<union> \<Union>(set ` set xs)"
  by (induction sep xs rule: py_join.induct) auto

lemma py_join_all:
  assumes "\<forall>c \<in> set sep. P c" and "\<forall>x \<in> set xs. \<forall>c \<in> set x. P c"
  shows "\<forall>c \<in> set (py_join sep xs). P c"
  using assms set_py_join [of sep xs] by blast

lemma length_py_join:
  "length (py_join sep xs) = sum_list (map length xs) + (length xs - 1) * length sep"
  by (induction sep xs rule: py_join.induct) simp_all

section \<open>Printable ASCII\<close>

text \<open>
  The characters \<open>json.dumps\<close> (with its default \<open>ensure_ascii\<close>) and
  \<open>repr\<close> leave unescaped: the code points 32..126.
\<close>

definition ascii_printable :: "char \<Rightarrow> bool" where
  "ascii_printable c = (32 \<le> (of_char c :: nat) \<and> (of_char c :: nat) \<le> 126)"

lemma ascii_printableI:
  "32 \<le> (of_char c :: nat) \<Longrightarrow> (of_char c :: nat) \<le> 126 \<Longrightarrow> ascii_printable c"
  by (simp add: ascii_printable_def)

definition hex_digit :: "nat \<Rightarrow> char" where
  "hex_digit d = ''0123456789abcdef'' ! d"

lemma hex_digit_printable: "d < 16 \<Longrightarrow> ascii_printable (hex_digit d)"
proof -
  assume "d < 16"
  then have "d = 0 \<or> d = 1 \<or> d = 2 \<or> d = 3 \<or> d = 4 \<or> d = 5 \<or> d = 6 \<or> d = 7 \<or> d = 8
      \<or> d = 9 \<or> d = 10 \<or> d = 11 \<or> d = 12 \<or> d = 13 \<or> d = 14 \<or> d = 15"
    by arith
  then show ?thesis
    by (elim disjE) (simp_all add: hex_digit_def ascii_printable_def)
qed

lemma hex_digit_mod_printable [simp]: "ascii_printable (hex_digit (n mod 16))"
  by (rule hex_digit_printable) simp

lemma hex_digit_div_printable [simp]: "ascii_printable (hex_digit (of_char c div 16))"
proof (rule hex_digit_printable)
  have "(of_char c :: nat) < 256"
    by simp
  then show "(of_char c :: nat) div 16 < 16"
    by arith
qed

section \<open>Decimal numerals\<close>

text \<open>
  \<open>str(n)\<close> for a Python int, as the f-strings of the sources format counts
  and status codes: the decimal digits, most significant first, with a minus
  sign for a negative number. \<open>nat_of_str\<close> reads the digits back.
\<close>

definition digit_char :: "nat \<Rightarrow> char" where
  "digit_char d = ''0123456789'' ! d"

fun str_nat :: "nat \<Rightarrow> string" where
  "str_nat n = (if n < 10 then [digit_char n] else str_nat (n div 10) @ [digit_char (n mod 10)])"

declare str_nat.simps [simp del]

definition str_int :: "int \<Rightarrow> string" where
  "str_int i = (if i < 0 then CHR ''-'' # str_nat (nat (- i)) else str_nat (nat i))"

definition digit_val :: "char \<Rightarrow> nat" where
  "digit_val c = of_char c - 48"

definition is_digit :: "char \<Rightarrow> bool" where
  "is_digit c = (48 \<le> (of_char c :: nat) \<and> (of_char c :: nat) \<le> 57)"

definition nat_of_str :: "string \<Rightarrow> nat" where
  "nat_of_str s = foldl (\<lambda>acc c. 10 * acc + digit_val c) 0 s"

lemma digit_val_digit_char [simp]: "d < 10 \<Longrightarrow> digit_val (digit_char d) = d"
proof -
  assume "d < 10"
  then have "d \<in> {0, 1, 2, 3, 4, 5, 6, 7, 8, 9}"
    by auto
  then show ?thesis
    by (auto simp: digit_val_def digit_char_def)
qed

lemma is_digit_digit_char [simp]: "d < 10 \<Longrightarrow> is_digit (digit_char d)"
proof -
  assume "d < 10"
  then have "d \<in> {0, 1, 2, 3, 4, 5, 6, 7, 8, 9}"
    by auto
  then show ?thesis
    by (auto simp: is_digit_def digit_char_def)
qed

lemma is_digit_not_space: "is_digit c \<Longrightarrow> \<not> py_isspace c"
  by (auto simp: is_digit_def py_isspace_def)

lemma str_nat_small [py_simps]: "n < 10 \<Longrightarrow> str_nat n = [digit_char n]"
  by (simp add: str_nat.simps)

lemma str_nat_large [py_simps]:
  "\<not> n < 10 \<Longrightarrow> str_nat n = str_nat (n div 10) @ [digit_char (n mod 10)]"
  by (subst str_nat.simps) simp

lemma str_nat_nonempty [simp]: "str_nat n \<noteq> []"
  by (subst str_nat.simps) simp

lemma str_nat_digits: "\<forall>c \<in> set (str_nat n). is_digit c"
proof (induction n rule: str_nat.induct)
  case (1 n)
  show ?case
  proof (cases "n < 10")
    case True
    then show ?thesis by (simp add: str_nat_small)
  next
    case False
    with "1.IH" show ?thesis by (simp add: str_nat_large)
  qed
qed

lemma nat_of_str_snoc [simp]: "nat_of_str (s @ [c]) = 10 * nat_of_str s + digit_val c"
  by (simp add: nat_of_str_def)

lemma nat_of_str_str_nat: "nat_of_str (str_nat n) = n"
proof (induction n rule: str_nat.induct)
  case (1 n)
  show ?case
  proof (cases "n < 10")
    case True
    then show ?thesis by (simp add: str_nat_small nat_of_str_def)
  next
    case False
    with "1.IH" show ?thesis by (simp add: str_nat_large)
  qed
qed

lemma str_nat_inj: "str_nat m = str_nat n \<Longrightarrow> m = n"
  by (metis nat_of_str_str_nat)

lemma is_digit_printable: "is_digit c \<Longrightarrow> ascii_printable c"
  by (simp add: is_digit_def ascii_printable_def)

lemma str_nat_printable: "\<forall>c \<in> set (str_nat n). ascii_printable c"
  using str_nat_digits is_digit_printable by blast

lemma str_int_printable: "\<forall>c \<in> set (str_int i). ascii_printable c"
proof -
  have "ascii_printable CHR ''-''"
    by (simp add: ascii_printable_def)
  then show ?thesis
    using str_nat_printable by (simp add: str_int_def)
qed

lemma str_int_nat [py_simps]: "str_int (int n) = str_nat n"
  by (simp add: str_int_def)

end
