(* ===== verification/Effects.thy ===== *)
theory Effects
  imports PyStr
begin

text \<open>
  The embedding of the handlers' control flow and effects.

  \<^item> \<open>exn\<close> is the datatype of the exceptions the sources raise and catch;
    \<open>is_Exception\<close> tells the subclasses of \<open>Exception\<close> (what
    \<open>except Exception\<close> catches) from the \<open>BaseException\<close>-only ones;
    \<open>str_exn\<close> is \<open>str(e)\<close>.
  \<^item> \<open>world\<close> is what a handler can observe and change: the process
    environment (\<open>os.getenv\<close>), the log records handed to the logger, the
    lines printed, and the state \<open>ext\<close> of the external collaborators
    (database, websockets, file system), whose type is a parameter.
  \<^item> A handler is a \<open>prog\<close>: a function from the world to a result (an
    exception or a value) and the world after. \<open>ret\<close>, \<open>raise\<close>, \<open>bnd\<close>,
    \<open>try_except\<close> and \<open>try_finally\<close> are return, raise, statement sequencing,
    \<open>try/except\<close> and \<open>try/finally\<close>; \<open>logger_log\<close>, \<open>getenv\<close>,
    \<open>print_line\<close> and \<open>call\<close> are the primitive effects.
  \<^item> \<open>raises_only P m\<close> bounds the exceptions \<open>m\<close> can raise;
    \<open>ensures Q m\<close> is a postcondition of the values \<open>m\<close> returns. Both are
    closed under the combinators, which is what the component proofs use.
\<close>

section \<open>Exceptions\<close>

datatype exn =
    HTTPException nat string
  | KeyError string
  | IndexError
  | AttributeError string string
  | TimeoutExpired string nat
  | OtherError string
  | CancelledError

fun is_Exception :: "exn \<Rightarrow> bool" where
  "is_Exception CancelledError = False"
| "is_Exception _ = True"

fun is_HTTPException :: "exn \<Rightarrow> bool" where
  "is_HTTPException (HTTPException _ _) = True"
| "is_HTTPException _ = False"

fun status_code :: "exn \<Rightarrow> nat option" where
  "status_code (HTTPException c _) = Some c"
| "status_code _ = None"

fun str_exn :: "exn \<Rightarrow> string" where
  "str_exn (HTTPException c detail) = str_nat c @ '': '' @ detail"
| "str_exn (KeyError k) = [CHR 0x27] @ k @ [CHR 0x27]"
| "str_exn IndexError = ''list index out of range''"
| "str_exn (AttributeError ty attr) =
     [CHR 0x27] @ ty @ [CHR 0x27] @ '' object has no attribute '' @ [CHR 0x27] @ attr @ [CHR 0x27]"
| "str_exn (TimeoutExpired cmd t) =
     ''Command '' @ [CHR 0x27] @ cmd @ [CHR 0x27] @ '' timed out after '' @ str_nat t @ '' seconds''"
| "str_exn (OtherError m) = m"
| "str_exn CancelledError = []"

lemma is_HTTPException_imp_Exception: "is_HTTPException e \<Longrightarrow> is_Exception e"
  by (cases e) simp_all

lemma is_HTTPException_iff: "is_HTTPException e \<longleftrightarrow> (\<exists>c d. e = HTTPException c d)"
  by (cases e) simp_all

lemma not_is_Exception_iff: "\<not> is_Exception e \<longleftrightarrow> e = CancelledError"
  by (cases e) simp_all

section \<open>The world\<close>

datatype log_level = DEBUG | INFO | WARNING | ERROR | CRITICAL

record 'b world =
  environ :: "string \<rightharpoonup> string"
  logs :: "(log_level \<times> string) list"
  stdout :: "string list"
  ext :: 'b

definition init_world :: "(string \<rightharpoonup> string) \<Rightarrow> 'b \<Rightarrow> 'b world" where
  "init_world env b = \<lparr>environ = env, logs = [], stdout = [], ext = b\<rparr>"

lemma init_world_sel [simp]:
  "environ (init_world env b) = env"
  "logs (init_world env b) = []"
  "stdout (init_world env b) = []"
  "ext (init_world env b) = b"
  by (simp_all add: init_world_def)

section \<open>Programs\<close>

type_synonym ('w, 'a) prog = "'w \<Rightarrow> (exn, 'a) result \<times> 'w"

type_synonym ('b, 'a) extcall = "'b \<Rightarrow> (exn, 'a) result \<times> 'b"

definition ret :: "'a \<Rightarrow> ('w, 'a) prog" where
  "ret x w = (Inr x, w)"

definition raise :: "exn \<Rightarrow> ('w, 'a) prog" where
  "raise e w = (Inl e, w)"

definition bnd :: "('w, 'a) prog \<Rightarrow> ('a \<Rightarrow> ('w, 'b) prog) \<Rightarrow> ('w, 'b) prog" where
  "bnd m f w = (case m w of (Inl e, w') \<Rightarrow> (Inl e, w') | (Inr x, w') \<Rightarrow> f x w')"

definition try_except ::
  "('w, 'a) prog \<Rightarrow> (exn \<Rightarrow> bool) \<Rightarrow> (exn \<Rightarrow> ('w, 'a) prog) \<Rightarrow> ('w, 'a) prog" where
  "try_except m catches h w =
     (case m w of
        (Inl e, w') \<Rightarrow> if catches e then h e w' else (Inl e, w')
      | (Inr x, w') \<Rightarrow> (Inr x, w'))"

definition try_finally :: "('w, 'a) prog \<Rightarrow> ('w, unit) prog \<Rightarrow> ('w, 'a) prog" where
  "try_finally m fin w =
     (case m w of (r, w') \<Rightarrow>
        (case fin w' of (Inl e, w'') \<Rightarrow> (Inl e, w'') | (Inr _, w'') \<Rightarrow> (r, w'')))"

definition logger_log :: "log_level \<Rightarrow> string \<Rightarrow> ('b world, unit) prog" where
  "logger_log l m w = (Inr (), w\<lparr>logs := logs w @ [(l, m)]\<rparr>)"

definition getenv :: "string \<Rightarrow> ('b world, string option) prog" where
  "getenv k w = (Inr (environ w k), w)"

definition print_line :: "string \<Rightarrow> ('b world, unit) prog" where
  "print_line s w = (Inr (), w\<lparr>stdout := stdout w @ [s]\<rparr>)"

definition call :: "('b, 'a) extcall \<Rightarrow> ('b world, 'a) prog" where
  "call f w = (case f (ext w) of (r, b) \<Rightarrow> (r, w\<lparr>ext := b\<rparr>))"

lemmas [prog_simps] =
  ret_def raise_def bnd_def try_except_def try_finally_def
  logger_log_def getenv_def print_line_def call_def

subsection \<open>Laws of the combinators\<close>

lemma bnd_ret_left [simp]: "bnd (ret x) f = f x"
  by (rule ext) (simp add: prog_simps)

lemma bnd_ret_right [simp]: "bnd m ret = m"
  by (rule ext) (simp add: prog_simps split: prod.splits sum.splits)

lemma bnd_raise [simp]: "bnd (raise e) f = raise e"
  by (rule ext) (simp add: prog_simps)

lemma bnd_assoc: "bnd (bnd m f) g = bnd m (\<lambda>x. bnd (f x) g)"
  by (rule ext) (simp add: prog_simps split: prod.splits sum.splits)

lemma try_except_ret [simp]: "try_except (ret x) c h = ret x"
  by (rule ext) (simp add: prog_simps)

lemma try_except_raise [simp]: "try_except (raise e) c h = (if c e then h e else raise e)"
  by (rule ext) (simp add: prog_simps)

lemma try_except_ok: "fst (m w) = Inr x \<Longrightarrow> try_except m c h w = m w"
  by (cases "m w") (simp add: prog_simps)

lemma try_except_caught:
  "m w = (Inl e, w') \<Longrightarrow> c e \<Longrightarrow> try_except m c h w = h e w'"
  by (simp add: prog_simps)

lemma try_except_passed:
  "m w = (Inl e, w') \<Longrightarrow> \<not> c e \<Longrightarrow> try_except m c h w = (Inl e, w')"
  by (simp add: prog_simps)

lemma call_result: "f (ext w) = (r, b) \<Longrightarrow> call f w = (r, w\<lparr>ext := b\<rparr>)"
  by (simp add: prog_simps)

section \<open>Which exceptions a program can raise\<close>

definition raises_only :: "(exn \<Rightarrow> bool) \<Rightarrow> ('w, 'a) prog \<Rightarrow> bool" where
  "raises_only P m = (\<forall>w. case fst (m w) of Inl e \<Rightarrow> P e | Inr _ \<Rightarrow> True)"

named_theorems raises_intros "closure rules of raises_only"

lemma raises_onlyD: "raises_only P m \<Longrightarrow> fst (m w) = Inl e \<Longrightarrow> P e"
  by (auto simp: raises_only_def split: sum.splits dest: spec [of _ w])

lemma raises_onlyI: "(\<And>w e. fst (m w) = Inl e \<Longrightarrow> P e) \<Longrightarrow> raises_only P m"
  by (auto simp: raises_only_def split: sum.splits)

lemma raises_only_weaken: "raises_only P m \<Longrightarrow> (\<And>e. P e \<Longrightarrow> Q e) \<Longrightarrow> raises_only Q m"
  by (auto simp: raises_only_def split: sum.splits)

lemma raises_only_top: "raises_only (\<lambda>_. True) m"
  by (simp add: raises_only_def split: sum.splits)

lemma raises_only_ret [raises_intros]: "raises_only P (ret x)"
  by (simp add: raises_only_def prog_simps)

lemma raises_only_raise [raises_intros]: "P e \<Longrightarrow> raises_only P (raise e)"
  by (simp add: raises_only_def prog_simps)

lemma raises_only_log [raises_intros]: "raises_only P (logger_log l s)"
  by (simp add: raises_only_def prog_simps)

lemma raises_only_getenv [raises_intros]: "raises_only P (getenv k)"
  by (simp add: raises_only_def prog_simps)

lemma raises_only_print [raises_intros]: "raises_only P (print_line s)"
  by (simp add: raises_only_def prog_simps)

lemma raises_only_call:
  assumes "\<And>b e. fst (f b) = Inl e \<Longrightarrow> P e"
  shows "raises_only P (call f)"
proof (rule raises_onlyI)
  fix w e
  assume "fst (call f w) = Inl e"
  then have "fst (f (ext w)) = Inl e"
    by (simp add: prog_simps split: prod.splits)
  then show "P e"
    by (rule assms)
qed

lemma raises_only_bnd [raises_intros]:
  assumes "raises_only P m" and "\<And>x. raises_only P (f x)"
  shows "raises_only P (bnd m f)"
proof (rule raises_onlyI)
  fix w e
  assume *: "fst (bnd m f w) = Inl e"
  obtain r w' where mw: "m w = (r, w')"
    by (cases "m w")
  show "P e"
  proof (cases r)
    case (Inl e')
    with * mw have "fst (m w) = Inl e"
      by (simp add: prog_simps)
    with assms(1) show ?thesis
      by (rule raises_onlyD)
  next
    case (Inr x)
    with * mw have "fst (f x w') = Inl e"
      by (simp add: prog_simps)
    with assms(2) show ?thesis
      by (rule raises_onlyD)
  qed
qed

lemma raises_only_try_except [raises_intros]:
  assumes "\<And>e. \<not> c e \<Longrightarrow> P e" and "\<And>e. c e \<Longrightarrow> raises_only P (h e)"
  shows "raises_only P (try_except m c h)"
proof (rule raises_onlyI)
  fix w e
  assume *: "fst (try_except m c h w) = Inl e"
  obtain r w' where mw: "m w = (r, w')"
    by (cases "m w")
  show "P e"
  proof (cases r)
    case (Inl e')
    show ?thesis
    proof (cases "c e'")
      case True
      with * mw Inl have "fst (h e' w') = Inl e"
        by (simp add: prog_simps)
      with assms(2) [OF True] show ?thesis
        by (rule raises_onlyD)
    next
      case False
      with * mw Inl have "e = e'"
        by (simp add: prog_simps)
      with False assms(1) show ?thesis
        by simp
    qed
  next
    case (Inr x)
    with * mw show ?thesis
      by (simp add: prog_simps)
  qed
qed

lemma raises_only_try_finally [raises_intros]:
  assumes "raises_only P m" and "raises_only P fin"
  shows "raises_only P (try_finally m fin)"
proof (rule raises_onlyI)
  fix w e
  assume *: "fst (try_finally m fin w) = Inl e"
  obtain r w' where mw: "m w = (r, w')"
    by (cases "m w")
  obtain r' w'' where fw: "fin w' = (r', w'')"
    by (cases "fin w'")
  show "P e"
  proof (cases r')
    case (Inl e')
    with * mw fw have "fst (fin w') = Inl e"
      by (simp add: prog_simps)
    with assms(2) show ?thesis
      by (rule raises_onlyD)
  next
    case (Inr u)
    with * mw fw have "fst (m w) = Inl e"
      by (simp add: prog_simps)
    with assms(1) show ?thesis
      by (rule raises_onlyD)
  qed
qed

lemma raises_only_if [raises_intros]:
  "(b \<Longrightarrow> raises_only P m) \<Longrightarrow> (\<not> b \<Longrightarrow> raises_only P n) \<Longrightarrow>
   raises_only P (if b then m else n)"
  by simp

lemma raises_only_case_option [raises_intros]:
  "(x = None \<Longrightarrow> raises_only P m) \<Longrightarrow> (\<And>y. x = Some y \<Longrightarrow> raises_only P (f y)) \<Longrightarrow>
   raises_only P (case x of None \<Rightarrow> m | Some y \<Rightarrow> f y)"
  by (cases x) simp_all

lemma raises_only_case_list [raises_intros]:
  "(xs = [] \<Longrightarrow> raises_only P m) \<Longrightarrow> (\<And>y ys. xs = y # ys \<Longrightarrow> raises_only P (f y ys)) \<Longrightarrow>
   raises_only P (case xs of [] \<Rightarrow> m | y # ys \<Rightarrow> f y ys)"
  by (cases xs) simp_all

section \<open>Postconditions\<close>

text \<open>
  \<open>ensures Q m\<close>: every value \<open>m\<close> returns satisfies \<open>Q\<close>.
\<close>

definition ensures :: "('a \<Rightarrow> bool) \<Rightarrow> ('w, 'a) prog \<Rightarrow> bool" where
  "ensures Q m = (\<forall>w. case fst (m w) of Inr x \<Rightarrow> Q x | Inl e \<Rightarrow> True)"

named_theorems ensures_intros "closure rules of ensures"

lemma ensuresD: "ensures Q m \<Longrightarrow> fst (m w) = Inr x \<Longrightarrow> Q x"
  by (auto simp: ensures_def split: sum.splits dest: spec [of _ w])

lemma ensuresI: "(\<And>w x. fst (m w) = Inr x \<Longrightarrow> Q x) \<Longrightarrow> ensures Q m"
  by (auto simp: ensures_def split: sum.splits)

lemma ensures_ret [ensures_intros]: "Q x \<Longrightarrow> ensures Q (ret x)"
  by (simp add: ensures_def prog_simps)

lemma ensures_raise [ensures_intros]: "ensures Q (raise e)"
  by (simp add: ensures_def prog_simps)

lemma ensures_call:
  assumes "\<And>b x. fst (f b) = Inr x \<Longrightarrow> Q x"
  shows "ensures Q (call f)"
proof (rule ensuresI)
  fix w x
  assume "fst (call f w) = Inr x"
  then have "fst (f (ext w)) = Inr x"
    by (simp add: prog_simps split: prod.splits)
  then show "Q x"
    by (rule assms)
qed

lemma ensures_bnd_post:
  assumes "ensures P m" and "\<And>x. P x \<Longrightarrow> ensures Q (f x)"
  shows "ensures Q (bnd m f)"
proof (rule ensuresI)
  fix w y
  assume *: "fst (bnd m f w) = Inr y"
  obtain r w' where mw: "m w = (r, w')"
    by (cases "m w")
  with * obtain x where r: "r = Inr x" and fx: "fst (f x w') = Inr y"
    by (cases r) (simp_all add: prog_simps)
  from assms(1) mw r have "P x"
    by (auto dest: ensuresD [of P m w x])
  from assms(2) [OF this] fx show "Q y"
    by (rule ensuresD)
qed

lemma ensures_bnd [ensures_intros]: "(\<And>x. ensures Q (f x)) \<Longrightarrow> ensures Q (bnd m f)"
  by (rule ensures_bnd_post [where P = "\<lambda>_. True"]) (simp_all add: ensures_def split: sum.splits)

lemma ensures_if [ensures_intros]:
  "(b \<Longrightarrow> ensures Q m) \<Longrightarrow> (\<not> b \<Longrightarrow> ensures Q n) \<Longrightarrow> ensures Q (if b then m else n)"
  by simp

lemma ensures_try_except [ensures_intros]:
  assumes "ensures Q m" and "\<And>e. c e \<Longrightarrow> ensures Q (h e)"
  shows "ensures Q (try_except m c h)"
proof (rule ensuresI)
  fix w y
  assume *: "fst (try_except m c h w) = Inr y"
  obtain r w' where mw: "m w = (r, w')"
    by (cases "m w")
  show "Q y"
  proof (cases r)
    case (Inl e)
    with * mw have "c e" and "fst (h e w') = Inr y"
      by (auto simp: prog_simps split: if_splits)
    with assms(2) show ?thesis
      by (auto dest: ensuresD)
  next
    case (Inr x)
    with * mw have "fst (m w) = Inr y"
      by (simp add: prog_simps)
    with assms(1) show ?thesis
      by (rule ensuresD)
  qed
qed

lemma ensures_bnd_call:
  assumes "\<And>x b. fst (f b) = Inr x \<Longrightarrow> ensures Q (g x)"
  shows "ensures Q (bnd (call f) g)"
proof (rule ensures_bnd_post [where P = "\<lambda>x. \<exists>b. fst (f b) = Inr x"])
  show "ensures (\<lambda>x. \<exists>b. fst (f b) = Inr x) (call f)"
    by (rule ensures_call) blast
  show "ensures Q (g x)" if "\<exists>b. fst (f b) = Inr x" for x
    using that assms by blast
qed

section \<open>The collaborators' state after a \<open>finally\<close> clause\<close>

lemma try_finally_call_ext:
  "ext (snd (try_finally body (call f) w)) = snd (f (ext (snd (body w))))"
  by (simp add: prog_simps split: prod.splits sum.splits)

end
