(* ===== verification/Json.thy ===== *)
theory Json
  imports Effects
begin

text \<open>
  The values the handlers exchange: JSON documents and Python dictionaries.

  \<^item> \<open>json\<close> is the datatype of JSON values; a Python \<open>dict\<close> with string
    keys is \<open>pydict\<close>, an association list in insertion order (the order
    \<open>json.dumps\<close> prints). \<open>None\<close>, \<open>True\<close>/\<open>False\<close>, ints, strs, lists and
    dicts are the constructors; floats are outside the model.
  \<^item> \<open>dict_get\<close> is \<open>d.get(k)\<close> (\<open>None\<close> when missing), \<open>getitem\<close> is
    \<open>d[k]\<close> (raises \<open>KeyError\<close> when missing), \<open>py_truthy\<close> is the truth
    value Python's \<open>if\<close> and \<open>not\<close> give a value.
  \<^item> \<open>py_repr\<close> and \<open>py_str\<close> are \<open>repr(x)\<close> and \<open>str(x)\<close>, which
    f-strings call; \<open>dumps\<close> is \<open>json.dumps(x)\<close> with its defaults
    (\<open>ensure_ascii=True\<close>, separators \<open>", "\<close> and \<open>": "\<close>).
  \<^item> The lemmas: lookup after construction, and \<open>dumps\<close> emits printable
    ASCII only.
\<close>

section \<open>Values\<close>

datatype json =
    JNull
  | JBool bool
  | JInt int
  | JStr string
  | JList "json list"
  | JDict "(string \<times> json) list"

type_synonym pydict = "(string \<times> json) list"

definition dict_get :: "pydict \<Rightarrow> string \<Rightarrow> json" where
  "dict_get d k = (case map_of d k of None \<Rightarrow> JNull | Some v \<Rightarrow> v)"

definition getitem :: "pydict \<Rightarrow> string \<Rightarrow> ('w, json) prog" where
  "getitem d k = (case map_of d k of None \<Rightarrow> raise (KeyError k) | Some v \<Rightarrow> ret v)"

fun py_truthy :: "json \<Rightarrow> bool" where
  "py_truthy JNull = False"
| "py_truthy (JBool b) = b"
| "py_truthy (JInt i) = (i \<noteq> 0)"
| "py_truthy (JStr s) = (s \<noteq> [])"
| "py_truthy (JList xs) = (xs \<noteq> [])"
| "py_truthy (JDict kvs) = (kvs \<noteq> [])"

lemma getitem_found [py_simps]: "map_of d k = Some v \<Longrightarrow> getitem d k = ret v"
  by (simp add: getitem_def)

lemma getitem_missing [py_simps]: "map_of d k = None \<Longrightarrow> getitem d k = raise (KeyError k)"
  by (simp add: getitem_def)

lemma getitem_missing_iff: "fst (getitem d k w) = Inl e \<longleftrightarrow> k \<notin> fst ` set d \<and> e = KeyError k"
  by (cases "map_of d k")
    (auto simp: getitem_def prog_simps simp flip: map_of_eq_None_iff)

lemma getitem_keeps_world [simp]: "snd (getitem d k w) = w"
  by (simp add: getitem_def prog_simps split: option.splits)

lemma raises_only_getitem [raises_intros]: "P (KeyError k) \<Longrightarrow> raises_only P (getitem d k)"
  by (simp add: getitem_def raises_intros split: option.splits)

lemma dict_get_found [py_simps]: "map_of d k = Some v \<Longrightarrow> dict_get d k = v"
  by (simp add: dict_get_def)

lemma dict_get_missing [py_simps]: "map_of d k = None \<Longrightarrow> dict_get d k = JNull"
  by (simp add: dict_get_def)

section \<open>repr and str\<close>

text \<open>
  \<open>repr\<close> of a str picks the quote (double quotes only when the string has a
  single quote and no double quote), escapes the backslash, the quote, TAB,
  LF and CR, and writes every other non-printable code point below 256 as
  \<open>\xhh\<close>.
\<close>

definition py_isprintable :: "char \<Rightarrow> bool" where
  "py_isprintable c =
     (let n = (of_char c :: nat) in (32 \<le> n \<and> n \<le> 126) \<or> (161 \<le> n \<and> n \<noteq> 173))"

definition py_repr_char :: "char \<Rightarrow> char \<Rightarrow> string" where
  "py_repr_char q c =
     (if c = q \<or> c = CHR 0x5C then [CHR 0x5C, c]
      else if c = CHR 0x09 then [CHR 0x5C, CHR ''t'']
      else if c = CHR 0x0A then [CHR 0x5C, CHR ''n'']
      else if c = CHR 0x0D then [CHR 0x5C, CHR ''r'']
      else if py_isprintable c then [c]
      else [CHR 0x5C, CHR ''x'', hex_digit (of_char c div 16), hex_digit (of_char c mod 16)])"

definition py_repr_str :: "string \<Rightarrow> string" where
  "py_repr_str s =
     (let q = (if CHR 0x27 \<in> set s \<and> CHR 0x22 \<notin> set s then CHR 0x22 else CHR 0x27)
      in [q] @ concat (map (py_repr_char q) s) @ [q])"

fun py_repr :: "json \<Rightarrow> string" where
  "py_repr JNull = ''None''"
| "py_repr (JBool b) = (if b then ''True'' else ''False'')"
| "py_repr (JInt i) = str_int i"
| "py_repr (JStr s) = py_repr_str s"
| "py_repr (JList xs) = ''['' @ py_join '', '' (map py_repr xs) @ '']''"
| "py_repr (JDict kvs) =
     ''{'' @ py_join '', '' (map (\<lambda>(k, v). py_repr_str k @ '': '' @ py_repr v) kvs) @ ''}''"

fun py_str :: "json \<Rightarrow> string" where
  "py_str (JStr s) = s"
| "py_str j = py_repr j"

lemma py_repr_str_plain:
  "CHR 0x27 \<notin> set s \<Longrightarrow> \<forall>c \<in> set s. ascii_printable c \<and> c \<noteq> CHR 0x5C \<Longrightarrow>
   py_repr_str s = [CHR 0x27] @ s @ [CHR 0x27]"
proof -
  assume q: "CHR 0x27 \<notin> set s" and p: "\<forall>c \<in> set s. ascii_printable c \<and> c \<noteq> CHR 0x5C"
  have "py_repr_char CHR 0x27 c = [c]" if "c \<in> set s" for c
  proof -
    from that p have a: "ascii_printable c" and b: "c \<noteq> CHR 0x5C"
      by auto
    from that q have c: "c \<noteq> CHR 0x27"
      by auto
    from a have "c \<noteq> CHR 0x09" "c \<noteq> CHR 0x0A" "c \<noteq> CHR 0x0D"
      by (auto simp: ascii_printable_def)
    moreover from a have "py_isprintable c"
      by (simp add: ascii_printable_def py_isprintable_def)
    ultimately show ?thesis
      using b c by (simp add: py_repr_char_def)
  qed
  then have "concat (map (py_repr_char CHR 0x27) s) = s"
    by (induction s) simp_all
  with q show ?thesis
    by (simp add: py_repr_str_def Let_def)
qed

section \<open>json.dumps\<close>

definition json_escape_char :: "char \<Rightarrow> string" where
  "json_escape_char c =
     (let n = (of_char c :: nat) in
      if c = CHR 0x22 then [CHR 0x5C, CHR 0x22]
      else if c = CHR 0x5C then [CHR 0x5C, CHR 0x5C]
      else if n = 10 then [CHR 0x5C, CHR ''n'']
      else if n = 13 then [CHR 0x5C, CHR ''r'']
      else if n = 9 then [CHR 0x5C, CHR ''t'']
      else if n = 8 then [CHR 0x5C, CHR ''b'']
      else if n = 12 then [CHR 0x5C, CHR ''f'']
      else if 32 \<le> n \<and> n \<le> 126 then [c]
      else [CHR 0x5C, CHR ''u'', CHR ''0'', CHR ''0'', hex_digit (n div 16), hex_digit (n mod 16)])"

definition json_string :: "string \<Rightarrow> string" where
  "json_string s = [CHR 0x22] @ concat (map json_escape_char s) @ [CHR 0x22]"

fun dumps :: "json \<Rightarrow> string" where
  "dumps JNull = ''null''"
| "dumps (JBool b) = (if b then ''true'' else ''false'')"
| "dumps (JInt i) = str_int i"
| "dumps (JStr s) = json_string s"
| "dumps (JList xs) = ''['' @ py_join '', '' (map dumps xs) @ '']''"
| "dumps (JDict kvs) =
     ''{'' @ py_join '', '' (map (\<lambda>(k, v). json_string k @ '': '' @ dumps v) kvs) @ ''}''"

text \<open>
  \<open>json.dumps(x, indent=n)\<close>: every item of a non-empty list or dict is on a
  line of its own, indented by \<open>n\<close> spaces per nesting level; the item
  separator is a comma without the space.
\<close>

definition newline_indent :: "nat \<Rightarrow> nat \<Rightarrow> string" where
  "newline_indent n level = CHR 0x0A # replicate (n * level) CHR '' ''"

fun dumps_indent :: "nat \<Rightarrow> nat \<Rightarrow> json \<Rightarrow> string" where
  "dumps_indent n level (JList xs) =
     (if xs = [] then ''[]''
      else ''['' @ newline_indent n (Suc level) @
           py_join ('','' @ newline_indent n (Suc level)) (map (dumps_indent n (Suc level)) xs) @
           newline_indent n level @ '']'')"
| "dumps_indent n level (JDict kvs) =
     (if kvs = [] then ''{}''
      else ''{'' @ newline_indent n (Suc level) @
           py_join ('','' @ newline_indent n (Suc level))
             (map (\<lambda>(k, v). json_string k @ '': '' @ dumps_indent n (Suc level) v) kvs) @
           newline_indent n level @ ''}'')"
| "dumps_indent n level j = dumps j"

declare dumps_indent.simps [simp del]

section \<open>Attribute access\<close>

text \<open>
  A method looked up on a value that is not a dict raises \<open>AttributeError\<close>
  with the name of the value's type.
\<close>

fun py_type_name :: "json \<Rightarrow> string" where
  "py_type_name JNull = ''NoneType''"
| "py_type_name (JBool b) = ''bool''"
| "py_type_name (JInt i) = ''int''"
| "py_type_name (JStr s) = ''str''"
| "py_type_name (JList xs) = ''list''"
| "py_type_name (JDict kvs) = ''dict''"

definition dict_method :: "json \<Rightarrow> string \<Rightarrow> ('w, pydict) prog" where
  "dict_method j attr =
     (case j of JDict d \<Rightarrow> ret d | _ \<Rightarrow> raise (AttributeError (py_type_name j) attr))"

lemma dict_method_JDict [simp]: "dict_method (JDict d) attr = ret d"
  by (simp add: dict_method_def)

lemma dict_method_keeps_world [simp]: "snd (dict_method j attr w) = w"
  by (cases j) (simp_all add: dict_method_def prog_simps)

lemma raises_only_dict_method [raises_intros]:
  "(\<And>ty. P (AttributeError ty attr)) \<Longrightarrow> raises_only P (dict_method j attr)"
  by (cases j) (simp_all add: dict_method_def raises_intros)


lemma ascii_printable_lits:
  "ascii_printable CHR 0x5C" "ascii_printable CHR 0x22" "ascii_printable CHR ''n''"
  "ascii_printable CHR ''r''" "ascii_printable CHR ''t''" "ascii_printable CHR ''b''"
  "ascii_printable CHR ''f''" "ascii_printable CHR ''u''" "ascii_printable CHR ''0''"
  "ascii_printable CHR ''[''" "ascii_printable CHR '']''" "ascii_printable CHR ''{''"
  "ascii_printable CHR ''}''" "ascii_printable CHR '',''" "ascii_printable CHR '' ''"
  "ascii_printable CHR '':''" "ascii_printable CHR ''l''" "ascii_printable CHR ''e''"
  "ascii_printable CHR ''a''" "ascii_printable CHR ''s''"
  by (simp_all add: ascii_printable_def)

lemma json_escape_char_printable: "\<forall>x \<in> set (json_escape_char c). ascii_printable x"
  by (simp add: json_escape_char_def Let_def ascii_printable_lits ascii_printableI)

lemma json_string_printable: "\<forall>x \<in> set (json_string s). ascii_printable x"
  using json_escape_char_printable by (auto simp: json_string_def ascii_printable_lits)

lemma json_string_quoted: "hd (json_string s) = CHR 0x22 \<and> last (json_string s) = CHR 0x22"
  by (simp add: json_string_def)

lemma json_string_plain:
  assumes "\<forall>c \<in> set s. ascii_printable c \<and> c \<noteq> CHR 0x22 \<and> c \<noteq> CHR 0x5C"
  shows "json_string s = [CHR 0x22] @ s @ [CHR 0x22]"
proof -
  have "json_escape_char c = [c]" if "c \<in> set s" for c
  proof -
    from that assms have a: "ascii_printable c" and "c \<noteq> CHR 0x22" and "c \<noteq> CHR 0x5C"
      by auto
    then show ?thesis
      by (auto simp: json_escape_char_def Let_def ascii_printable_def)
  qed
  then have "concat (map json_escape_char s) = s"
    by (induction s) simp_all
  then show ?thesis
    by (simp add: json_string_def)
qed

lemma dumps_list_printable:
  assumes "\<forall>x \<in> set xs. \<forall>c \<in> set x. ascii_printable c"
  shows "\<forall>c \<in> set (py_join '', '' xs). ascii_printable c"
  using _ assms by (rule py_join_all) (simp add: ascii_printable_lits)

text \<open>
  The text \<open>json.dumps\<close> produces consists of printable ASCII characters
  only: every other character of a string is escaped.
\<close>

lemma dumps_printable: "list_all ascii_printable (dumps j)"
proof (induction j)
  case JNull
  show ?case by (simp add: ascii_printable_def)
next
  case (JBool b)
  show ?case by (simp add: ascii_printable_def)
next
  case (JInt i)
  show ?case by (simp add: str_int_printable list_all_iff)
next
  case (JStr s)
  show ?case by (simp add: json_string_printable list_all_iff)
next
  case (JList xs)
  then have "\<forall>x \<in> set (map dumps xs). \<forall>c \<in> set x. ascii_printable c"
    by (simp add: list_all_iff)
  then have "\<forall>c \<in> set (py_join '', '' (map dumps xs)). ascii_printable c"
    by (rule dumps_list_printable)
  then show ?case
    by (simp add: ascii_printable_lits list_all_iff)
next
  case (JDict kvs)
  let ?f = "\<lambda>(k, v). json_string k @ '': '' @ dumps v"
  have "\<forall>x \<in> set (map ?f kvs). \<forall>c \<in> set x. ascii_printable c"
  proof (intro ballI)
    fix x c
    assume "x \<in> set (map ?f kvs)" and c: "c \<in> set x"
    then obtain k v where kv: "(k, v) \<in> set kvs"
      and x: "x = json_string k @ '': '' @ dumps v"
      by auto
    from JDict [OF kv] have "\<forall>x \<in> set (dumps v). ascii_printable x"
      by (simp add: list_all_iff)
    with c x json_string_printable [of k] show "ascii_printable c"
      by (auto simp: ascii_printable_lits)
  qed
  then have "\<forall>c \<in> set (py_join '', '' (map ?f kvs)). ascii_printable c"
    by (rule dumps_list_printable)
  then show ?case
    by (simp add: ascii_printable_lits list_all_iff)
qed

end
