(* ===== verification/Dispatch.thy ===== *)
theory Dispatch
  imports Json
begin

text \<open>
  The websocket handler of the \<open>get-next-evaluation\<close> message
  (\<open>src/api/src/socket/handlers/handle_get_next_evaluation.py\<close>).

  The handler asks the persistence layer for the validator's next evaluation,
  resolves the agent version it refers to, builds the reply, sends it on the
  validator's websocket and returns it; any \<open>Exception\<close> on the way is logged
  and turned into the error reply. The persistence layer and the websocket are
  collaborators outside \<open>src/\<close>: the handler is modelled over a record
  \<open>dispatch_ops\<close> of their operations, each a function on the collaborators'
  state, so every theorem holds for every implementation of them.

  \<^item> \<open>evaluation_message\<close>, \<open>no_evaluation_message\<close>, \<open>error_reply\<close>: the three
    dictionaries the handler builds.
  \<^item> \<open>build_socket_message\<close>: the \<open>if evaluation is None / else\<close> block.
  \<^item> \<open>get_next_evaluation_body\<close>: the body of the \<open>try\<close>;
    \<open>handle_get_next_evaluation\<close>: the whole handler.
  \<^item> The lemmas give the handler's outcome on every path (evaluation found,
    none available, each collaborator failing), bound what it can raise and
    give the shape of every reply.
\<close>

section \<open>Data\<close>

text \<open>
  The fields of an evaluation the handler reads. \<open>evaluation_id\<close> holds the
  text \<open>str(evaluation.evaluation_id)\<close>.
\<close>

record evaluation =
  evaluation_id :: string
  version_id :: string

record ('b, 'ws, 'ag) dispatch_ops =
  get_next_evaluation_for_validator :: "string \<Rightarrow> ('b, evaluation option) extcall"
  get_agent_by_version_id :: "string \<Rightarrow> ('b, 'ag option) extcall"
  model_dump :: "'ag \<Rightarrow> json"
  send_text :: "'ws \<Rightarrow> string \<Rightarrow> ('b, unit) extcall"

section \<open>The handler\<close>

definition no_evaluation_message :: pydict where
  "no_evaluation_message = [(''event'', JStr ''evaluation'')]"

definition evaluation_message ::
  "('b, 'ws, 'ag) dispatch_ops \<Rightarrow> evaluation \<Rightarrow> 'ag option \<Rightarrow> pydict" where
  "evaluation_message ops ev agent_version =
     [(''event'', JStr ''evaluation''),
      (''evaluation_id'', JStr (evaluation_id ev)),
      (''agent_version'', case agent_version of Some a \<Rightarrow> model_dump ops a | None \<Rightarrow> JNull)]"

definition error_reply :: pydict where
  "error_reply = [(''event'', JStr ''error''), (''message'', JStr ''Failed to get next evaluation'')]"

definition build_socket_message ::
  "('b, 'ws, 'ag) dispatch_ops \<Rightarrow> string \<Rightarrow> evaluation option \<Rightarrow> ('b world, pydict) prog" where
  "build_socket_message ops validator_hotkey evaluation =
     (case evaluation of
        None \<Rightarrow>
          bnd (logger_log DEBUG (''No next evaluation found for validator '' @ validator_hotkey @ ''.'')) (\<lambda>_.
          bnd (logger_log INFO (''Informed validator with hotkey '' @ validator_hotkey
                 @ '' that there are no more evaluations available for it.'')) (\<lambda>_.
          ret no_evaluation_message))
      | Some ev \<Rightarrow>
          bnd (call (get_agent_by_version_id ops (version_id ev))) (\<lambda>agent_version.
          bnd (logger_log DEBUG (''Found next evaluation for validator '' @ validator_hotkey
                 @ ''. Evaluation ID: '' @ evaluation_id ev @ ''.'')) (\<lambda>_.
          bnd (getitem (evaluation_message ops ev agent_version) ''evaluation_id'') (\<lambda>eid.
          bnd (logger_log INFO (''Platform socket will send requested evaluation '' @ py_str eid
                 @ '' to validator with hotkey '' @ validator_hotkey)) (\<lambda>_.
          ret (evaluation_message ops ev agent_version))))))"

definition get_next_evaluation_body ::
  "('b, 'ws, 'ag) dispatch_ops \<Rightarrow> 'ws \<Rightarrow> string \<Rightarrow> ('b world, pydict) prog" where
  "get_next_evaluation_body ops websocket validator_hotkey =
     bnd (logger_log DEBUG (''Attempting to get next evaluation for validator '' @ validator_hotkey @ ''.'')) (\<lambda>_.
     bnd (call (get_next_evaluation_for_validator ops validator_hotkey)) (\<lambda>evaluation.
     bnd (build_socket_message ops validator_hotkey evaluation) (\<lambda>socket_message.
     bnd (getitem socket_message ''evaluation_id'') (\<lambda>eid.
     bnd (logger_log DEBUG (''Attempting to send requested evaluation '' @ py_str eid
            @ '' to validator with hotkey '' @ validator_hotkey @ ''.'')) (\<lambda>_.
     bnd (call (send_text ops websocket (dumps (JDict socket_message)))) (\<lambda>_.
     bnd (getitem socket_message ''evaluation_id'') (\<lambda>eid'.
     bnd (logger_log DEBUG (''Successfully sent requested evaluation '' @ py_str eid'
            @ '' to validator with hotkey '' @ validator_hotkey @ ''.'')) (\<lambda>_.
     ret socket_message))))))))"

definition handle_get_next_evaluation ::
  "('b, 'ws, 'ag) dispatch_ops \<Rightarrow> 'ws \<Rightarrow> string \<Rightarrow> pydict \<Rightarrow> ('b world, pydict) prog" where
  "handle_get_next_evaluation ops websocket validator_hotkey response_json =
     try_except (get_next_evaluation_body ops websocket validator_hotkey) is_Exception
       (\<lambda>e. bnd (logger_log ERROR (''Error getting next evaluation for validator '' @ validator_hotkey
                    @ '': '' @ str_exn e)) (\<lambda>_.
            ret error_reply))"

lemmas dispatch_defs =
  handle_get_next_evaluation_def get_next_evaluation_body_def build_socket_message_def

section \<open>A recording collaborator\<close>

text \<open>
  For the closed instances below: collaborators whose state is the list of
  the calls made on them, and whose answers are fixed in advance.
\<close>

definition scripted_ops ::
  "(exn, evaluation option) result \<Rightarrow> (exn, json option) result \<Rightarrow> (exn, unit) result \<Rightarrow>
   (string list, unit, json) dispatch_ops" where
  "scripted_ops r_next r_agent r_send =
     \<lparr>get_next_evaluation_for_validator = (\<lambda>hk b. (r_next, b @ [''next:'' @ hk])),
      get_agent_by_version_id = (\<lambda>v b. (r_agent, b @ [''agent:'' @ v])),
      model_dump = (\<lambda>a. a),
      send_text = (\<lambda>ws t b. (r_send, b @ [''send:'' @ t]))\<rparr>"

lemma scripted_ops_sel [simp]:
  "get_next_evaluation_for_validator (scripted_ops r1 ra rb) hk b = (r1, b @ [''next:'' @ hk])"
  "get_agent_by_version_id (scripted_ops r1 ra rb) v b = (ra, b @ [''agent:'' @ v])"
  "model_dump (scripted_ops r1 ra rb) a = a"
  "send_text (scripted_ops r1 ra rb) ws t b = (rb, b @ [''send:'' @ t])"
  by (simp_all add: scripted_ops_def)

section \<open>The messages\<close>

lemma evaluation_message_id [simp]:
  "map_of (evaluation_message ops ev ag) ''evaluation_id'' = Some (JStr (evaluation_id ev))"
  by (simp add: evaluation_message_def)

lemma evaluation_message_event [simp]:
  "map_of (evaluation_message ops ev ag) ''event'' = Some (JStr ''evaluation'')"
  by (simp add: evaluation_message_def)

lemma evaluation_message_keys [simp]:
  "map fst (evaluation_message ops ev ag) = [''event'', ''evaluation_id'', ''agent_version'']"
  by (simp add: evaluation_message_def)

lemma no_evaluation_message_id [simp]: "map_of no_evaluation_message ''evaluation_id'' = None"
  by (simp add: no_evaluation_message_def)

lemma error_reply_event [simp]: "map_of error_reply ''event'' = Some (JStr ''error'')"
  by (simp add: error_reply_def)

lemma error_reply_neq_evaluation_message [simp]: "error_reply \<noteq> evaluation_message ops ev ag"
  by (simp add: error_reply_def evaluation_message_def)

section \<open>What the \<open>if/else\<close> block returns\<close>

lemma build_socket_message_None:
  "build_socket_message ops hk None w =
     (Inr no_evaluation_message,
      w\<lparr>logs := logs w @
         [(DEBUG, ''No next evaluation found for validator '' @ hk @ ''.''),
          (INFO, ''Informed validator with hotkey '' @ hk
                 @ '' that there are no more evaluations available for it.'')]\<rparr>)"
  by (simp add: build_socket_message_def prog_simps)

lemma build_socket_message_Some:
  assumes "get_agent_by_version_id ops (version_id ev) (ext w) = (Inr ag, b)"
  shows "build_socket_message ops hk (Some ev) w =
     (Inr (evaluation_message ops ev ag),
      w\<lparr>ext := b, logs := logs w @
         [(DEBUG, ''Found next evaluation for validator '' @ hk
                  @ ''. Evaluation ID: '' @ evaluation_id ev @ ''.''),
          (INFO, ''Platform socket will send requested evaluation '' @ evaluation_id ev
                 @ '' to validator with hotkey '' @ hk)]\<rparr>)"
  using assms by (simp add: build_socket_message_def prog_simps getitem_found)

lemma build_socket_message_Some_fails:
  assumes "get_agent_by_version_id ops (version_id ev) (ext w) = (Inl e, b)"
  shows "build_socket_message ops hk (Some ev) w = (Inl e, w\<lparr>ext := b\<rparr>)"
  using assms by (simp add: build_socket_message_def prog_simps)

lemma build_socket_message_shape:
  "fst (build_socket_message ops hk evaluation w) = Inr m \<Longrightarrow>
   m = no_evaluation_message \<and> evaluation = None
   \<or> (\<exists>ev ag. evaluation = Some ev \<and> m = evaluation_message ops ev ag)"
  by (cases evaluation)
    (auto simp: build_socket_message_def prog_simps getitem_found split: prod.splits sum.splits)

section \<open>What the body of the \<open>try\<close> does\<close>

text \<open>
  With no evaluation the message has no \<open>evaluation_id\<close> key, and the lookup
  in the next log line raises \<open>KeyError\<close> before anything is sent.
\<close>

lemma get_next_evaluation_body_None:
  assumes "get_next_evaluation_for_validator ops hk (ext w) = (Inr None, b)"
  shows "get_next_evaluation_body ops ws hk w =
     (Inl (KeyError ''evaluation_id''),
      w\<lparr>ext := b, logs := logs w @
         [(DEBUG, ''Attempting to get next evaluation for validator '' @ hk @ ''.''),
          (DEBUG, ''No next evaluation found for validator '' @ hk @ ''.''),
          (INFO, ''Informed validator with hotkey '' @ hk
                 @ '' that there are no more evaluations available for it.'')]\<rparr>)"
  using assms
  by (simp add: get_next_evaluation_body_def bnd_def logger_log_def call_def
      build_socket_message_None getitem_missing raise_def)

lemma get_next_evaluation_body_next_fails:
  assumes "get_next_evaluation_for_validator ops hk (ext w) = (Inl e, b)"
  shows "get_next_evaluation_body ops ws hk w =
     (Inl e, w\<lparr>ext := b, logs := logs w @
         [(DEBUG, ''Attempting to get next evaluation for validator '' @ hk @ ''.'')]\<rparr>)"
  using assms
  by (simp add: get_next_evaluation_body_def bnd_def logger_log_def call_def)

lemma get_next_evaluation_body_agent_fails:
  assumes "get_next_evaluation_for_validator ops hk (ext w) = (Inr (Some ev), ba)"
    and "get_agent_by_version_id ops (version_id ev) ba = (Inl e, bb)"
  shows "get_next_evaluation_body ops ws hk w =
     (Inl e, w\<lparr>ext := bb, logs := logs w @
         [(DEBUG, ''Attempting to get next evaluation for validator '' @ hk @ ''.'')]\<rparr>)"
  using assms
  by (simp add: get_next_evaluation_body_def bnd_def logger_log_def call_def
      build_socket_message_Some_fails)

definition found_log :: "string \<Rightarrow> evaluation \<Rightarrow> (log_level \<times> string) list" where
  "found_log hk ev =
     [(DEBUG, ''Attempting to get next evaluation for validator '' @ hk @ ''.''),
      (DEBUG, ''Found next evaluation for validator '' @ hk
              @ ''. Evaluation ID: '' @ evaluation_id ev @ ''.''),
      (INFO, ''Platform socket will send requested evaluation '' @ evaluation_id ev
             @ '' to validator with hotkey '' @ hk),
      (DEBUG, ''Attempting to send requested evaluation '' @ evaluation_id ev
             @ '' to validator with hotkey '' @ hk @ ''.'')]"

lemma get_next_evaluation_body_Some:
  assumes "get_next_evaluation_for_validator ops hk (ext w) = (Inr (Some ev), ba)"
    and "get_agent_by_version_id ops (version_id ev) ba = (Inr ag, bb)"
    and "send_text ops ws (dumps (JDict (evaluation_message ops ev ag))) bb = (r, bc)"
  shows "get_next_evaluation_body ops ws hk w =
     (case r of
        Inl e \<Rightarrow> (Inl e, w\<lparr>ext := bc, logs := logs w @ found_log hk ev\<rparr>)
      | Inr _ \<Rightarrow> (Inr (evaluation_message ops ev ag),
          w\<lparr>ext := bc, logs := logs w @ found_log hk ev @
            [(DEBUG, ''Successfully sent requested evaluation '' @ evaluation_id ev
                     @ '' to validator with hotkey '' @ hk @ ''.'')]\<rparr>))"
  using assms
  by (simp add: get_next_evaluation_body_def bnd_def logger_log_def call_def ret_def
      build_socket_message_Some getitem_found found_log_def split: sum.splits)

lemma get_next_evaluation_body_shape:
  assumes "fst (get_next_evaluation_body ops ws hk w) = Inr m"
  shows "\<exists>ev ag. m = evaluation_message ops ev ag"
proof -
  obtain r b where nxt: "get_next_evaluation_for_validator ops hk (ext w) = (r, b)"
    by (cases "get_next_evaluation_for_validator ops hk (ext w)")
  show ?thesis
  proof (cases r)
    case (Inl e)
    with nxt assms show ?thesis
      by (simp add: get_next_evaluation_body_next_fails)
  next
    case (Inr evaluation)
    show ?thesis
    proof (cases evaluation)
      case None
      with nxt Inr assms show ?thesis
        by (simp add: get_next_evaluation_body_None)
    next
      case (Some ev)
      obtain ra bb where agent: "get_agent_by_version_id ops (version_id ev) b = (ra, bb)"
        by (cases "get_agent_by_version_id ops (version_id ev) b")
      show ?thesis
      proof (cases ra)
        case (Inl e)
        with nxt Inr Some agent assms show ?thesis
          by (simp add: get_next_evaluation_body_agent_fails)
      next
        case found: (Inr ag)
        obtain rb bc where
          "send_text ops ws (dumps (JDict (evaluation_message ops ev ag))) bb = (rb, bc)"
          by (cases "send_text ops ws (dumps (JDict (evaluation_message ops ev ag))) bb")
        with nxt Inr Some agent found assms show ?thesis
          by (cases rb) (auto simp: get_next_evaluation_body_Some)
      qed
    qed
  qed
qed

section \<open>The handler: every path\<close>

text \<open>
  Claim C1. When the persistence layer reports that no evaluation is available
  for the validator, the handler does not reply \<open>{"event": "evaluation"}\<close>: the
  log line before the send reads \<open>socket_message['evaluation_id']\<close>, which
  raises \<open>KeyError\<close>; the handler logs the error, returns the error reply and
  never calls \<open>send_text\<close> (the collaborators are left in the state the query
  produced).
\<close>

theorem dispatch_none_available_is_error:
  assumes "get_next_evaluation_for_validator ops hk (ext w) = (Inr None, b)"
  shows "handle_get_next_evaluation ops ws hk rj w =
     (Inr error_reply,
      w\<lparr>ext := b, logs := logs w @
         [(DEBUG, ''Attempting to get next evaluation for validator '' @ hk @ ''.''),
          (DEBUG, ''No next evaluation found for validator '' @ hk @ ''.''),
          (INFO, ''Informed validator with hotkey '' @ hk
                 @ '' that there are no more evaluations available for it.''),
          (ERROR, ''Error getting next evaluation for validator '' @ hk
                 @ '': '' @ [CHR 0x27] @ ''evaluation_id'' @ [CHR 0x27])]\<rparr>)"
  unfolding handle_get_next_evaluation_def
  by (simp add: try_except_def get_next_evaluation_body_None [OF assms]
      bnd_def logger_log_def ret_def)

theorem dispatch_none_available_witness:
  "handle_get_next_evaluation (scripted_ops (Inr None) (Inr None) (Inr ())) () ''v1'' []
     (init_world Map.empty []) =
   (Inr [(''event'', JStr ''error''), (''message'', JStr ''Failed to get next evaluation'')],
    \<lparr>environ = Map.empty,
     logs = [(DEBUG, ''Attempting to get next evaluation for validator v1.''),
             (DEBUG, ''No next evaluation found for validator v1.''),
             (INFO, ''Informed validator with hotkey v1 that there are no more evaluations available for it.''),
             (ERROR, ''Error getting next evaluation for validator v1: '' @ [CHR 0x27]
                     @ ''evaluation_id'' @ [CHR 0x27])],
     stdout = [], ext = [''next:v1'']\<rparr>)"
  using dispatch_none_available_is_error
    [where ops = "scripted_ops (Inr None) (Inr None) (Inr ())" and hk = "''v1''"
       and w = "init_world Map.empty []" and b = "[''next:v1'']" and ws = "()" and rj = "[]"]
  by (simp add: init_world_def error_reply_def)

text \<open>
  Claim C2. When an evaluation is pending, its agent version is looked up and
  the send succeeds, the handler sends exactly the JSON text of the message
  \<open>{"event": "evaluation", "evaluation_id": ..., "agent_version": ...}\<close> (with
  \<open>null\<close> for a missing agent version) once, after the lookup, and returns that
  message; the log holds the five progress lines in order.
\<close>

theorem dispatch_found_sends_and_returns:
  assumes "get_next_evaluation_for_validator ops hk (ext w) = (Inr (Some ev), ba)"
    and "get_agent_by_version_id ops (version_id ev) ba = (Inr ag, bb)"
    and "send_text ops ws (dumps (JDict (evaluation_message ops ev ag))) bb = (Inr (), bc)"
  shows "handle_get_next_evaluation ops ws hk rj w =
     (Inr (evaluation_message ops ev ag),
      w\<lparr>ext := bc, logs := logs w @ found_log hk ev @
        [(DEBUG, ''Successfully sent requested evaluation '' @ evaluation_id ev
                 @ '' to validator with hotkey '' @ hk @ ''.'')]\<rparr>)"
  unfolding handle_get_next_evaluation_def
  by (simp add: try_except_def get_next_evaluation_body_Some [OF assms])

theorem dispatch_found_witness:
  "handle_get_next_evaluation
     (scripted_ops (Inr (Some \<lparr>evaluation_id = ''e7'', version_id = ''a1''\<rparr>)) (Inr None) (Inr ()))
     () ''v1'' [] (init_world Map.empty []) =
   (Inr [(''event'', JStr ''evaluation''), (''evaluation_id'', JStr ''e7''), (''agent_version'', JNull)],
    \<lparr>environ = Map.empty,
     logs = [(DEBUG, ''Attempting to get next evaluation for validator v1.''),
             (DEBUG, ''Found next evaluation for validator v1. Evaluation ID: e7.''),
             (INFO, ''Platform socket will send requested evaluation e7 to validator with hotkey v1''),
             (DEBUG, ''Attempting to send requested evaluation e7 to validator with hotkey v1.''),
             (DEBUG, ''Successfully sent requested evaluation e7 to validator with hotkey v1.'')],
     stdout = [],
     ext = [''next:v1'', ''agent:a1'',
            ''send:{\"event\": \"evaluation\", \"evaluation_id\": \"e7\", \"agent_version\": null}'']\<rparr>)"
  using dispatch_found_sends_and_returns
    [where ops = "scripted_ops (Inr (Some \<lparr>evaluation_id = ''e7'', version_id = ''a1''\<rparr>)) (Inr None) (Inr ())"
       and hk = "''v1''" and w = "init_world Map.empty []" and ws = "()" and rj = "[]"
       and ev = "\<lparr>evaluation_id = ''e7'', version_id = ''a1''\<rparr>" and ag = None
       and ba = "[''next:v1'']" and bb = "[''next:v1'', ''agent:a1'']"
       and bc = "[''next:v1'', ''agent:a1'',
            ''send:{\"event\": \"evaluation\", \"evaluation_id\": \"e7\", \"agent_version\": null}'']"]
  by (simp add: init_world_def evaluation_message_def found_log_def json_string_def
      json_escape_char_def)

subsection \<open>The \<open>except\<close> clause\<close>

lemma handle_caught:
  assumes "get_next_evaluation_body ops ws hk w = (Inl e, w')" and "is_Exception e"
  shows "handle_get_next_evaluation ops ws hk rj w =
     (Inr error_reply, w'\<lparr>logs := logs w' @
        [(ERROR, ''Error getting next evaluation for validator '' @ hk @ '': '' @ str_exn e)]\<rparr>)"
  using assms by (simp add: handle_get_next_evaluation_def prog_simps)

lemma handle_passed:
  assumes "get_next_evaluation_body ops ws hk w = (Inl e, w')" and "\<not> is_Exception e"
  shows "handle_get_next_evaluation ops ws hk rj w = (Inl e, w')"
  using assms by (simp add: handle_get_next_evaluation_def prog_simps)

lemma handle_returned:
  assumes "get_next_evaluation_body ops ws hk w = (Inr m, w')"
  shows "handle_get_next_evaluation ops ws hk rj w = (Inr m, w')"
  using assms by (simp add: handle_get_next_evaluation_def prog_simps)

lemma handle_cases:
  "case fst (handle_get_next_evaluation ops ws hk rj w) of
     Inl e \<Rightarrow> e = CancelledError
   | Inr m \<Rightarrow> m = error_reply \<or> (\<exists>ev ag. m = evaluation_message ops ev ag)"
proof -
  obtain r w' where body: "get_next_evaluation_body ops ws hk w = (r, w')"
    by (cases "get_next_evaluation_body ops ws hk w")
  show ?thesis
  proof (cases r)
    case (Inl e)
    with body show ?thesis
      by (cases "is_Exception e") (simp_all add: handle_caught handle_passed not_is_Exception_iff)
  next
    case (Inr m)
    with body get_next_evaluation_body_shape [of ops ws hk w m] show ?thesis
      by (simp add: handle_returned)
  qed
qed

text \<open>
  Claim C5. Whichever collaborator fails with an \<open>Exception\<close> (the query for
  the next evaluation, the lookup of the agent version, or the send on the
  websocket), the handler catches it: it returns the error reply, its last log
  record is the error line with \<open>str(e)\<close>, and the collaborators are left in
  the state the failing call produced (no call is made after the failure, so
  the error reply itself is not sent).
\<close>

theorem dispatch_failure_is_error:
  assumes "is_Exception e"
    and "get_next_evaluation_for_validator ops hk (ext w) = (Inl e, b)
       \<or> (\<exists>ev ba. get_next_evaluation_for_validator ops hk (ext w) = (Inr (Some ev), ba)
            \<and> (get_agent_by_version_id ops (version_id ev) ba = (Inl e, b)
               \<or> (\<exists>ag bb. get_agent_by_version_id ops (version_id ev) ba = (Inr ag, bb)
                    \<and> send_text ops ws (dumps (JDict (evaluation_message ops ev ag))) bb = (Inl e, b))))"
  shows "fst (handle_get_next_evaluation ops ws hk rj w) = Inr error_reply
     \<and> ext (snd (handle_get_next_evaluation ops ws hk rj w)) = b
     \<and> last (logs (snd (handle_get_next_evaluation ops ws hk rj w))) =
         (ERROR, ''Error getting next evaluation for validator '' @ hk @ '': '' @ str_exn e)"
proof -
  from assms(2) obtain w' where "get_next_evaluation_body ops ws hk w = (Inl e, w')" and "ext w' = b"
    by (auto simp: get_next_evaluation_body_next_fails get_next_evaluation_body_agent_fails
        get_next_evaluation_body_Some)
  with assms(1) show ?thesis
    by (simp add: handle_caught)
qed

theorem dispatch_failure_witness:
  "fst (handle_get_next_evaluation
          (scripted_ops (Inr (Some \<lparr>evaluation_id = ''e7'', version_id = ''a1''\<rparr>)) (Inr None)
             (Inl (OtherError ''socket closed'')))
          () ''v1'' [] (init_world Map.empty [])) = Inr error_reply
   \<and> ext (snd (handle_get_next_evaluation
          (scripted_ops (Inr (Some \<lparr>evaluation_id = ''e7'', version_id = ''a1''\<rparr>)) (Inr None)
             (Inl (OtherError ''socket closed'')))
          () ''v1'' [] (init_world Map.empty []))) =
       [''next:v1'', ''agent:a1'',
        ''send:{\"event\": \"evaluation\", \"evaluation_id\": \"e7\", \"agent_version\": null}'']
   \<and> last (logs (snd (handle_get_next_evaluation
          (scripted_ops (Inr (Some \<lparr>evaluation_id = ''e7'', version_id = ''a1''\<rparr>)) (Inr None)
             (Inl (OtherError ''socket closed'')))
          () ''v1'' [] (init_world Map.empty [])))) =
       (ERROR, ''Error getting next evaluation for validator v1: socket closed'')"
  using dispatch_failure_is_error
    [where ops = "scripted_ops (Inr (Some \<lparr>evaluation_id = ''e7'', version_id = ''a1''\<rparr>)) (Inr None)
             (Inl (OtherError ''socket closed''))"
       and hk = "''v1''" and w = "init_world Map.empty []" and ws = "()" and rj = "[]"
       and e = "OtherError ''socket closed''"
       and b = "[''next:v1'', ''agent:a1'',
        ''send:{\"event\": \"evaluation\", \"evaluation_id\": \"e7\", \"agent_version\": null}'']"]
  by (simp add: evaluation_message_def json_string_def json_escape_char_def)

text \<open>
  Claim C6. The handler never raises an \<open>Exception\<close>: whatever the
  collaborators do, the only exceptions that leave it are those that do not
  derive from \<open>Exception\<close> (cancellation), which its \<open>except Exception\<close> clause
  does not catch.
\<close>

theorem dispatch_never_raises_Exception:
  "raises_only (\<lambda>e. \<not> is_Exception e) (handle_get_next_evaluation ops ws hk rj)"
  unfolding handle_get_next_evaluation_def
  by (intro raises_intros) simp

text \<open>
  Claim C7. Every value the handler returns is either the error reply or an
  evaluation message with the three keys \<open>event\<close>, \<open>evaluation_id\<close> and
  \<open>agent_version\<close>, for some evaluation and optional agent version; the only
  exception it lets through is cancellation.
\<close>

theorem dispatch_reply_shape:
  "case fst (handle_get_next_evaluation ops ws hk rj w) of
     Inl e \<Rightarrow> e = CancelledError
   | Inr m \<Rightarrow> (m = error_reply \<or> (\<exists>ev ag. m = evaluation_message ops ev ag))
        \<and> map_of m ''event'' \<in> {Some (JStr ''evaluation''), Some (JStr ''error'')}"
  using handle_cases [of ops ws hk rj w] by (auto split: sum.splits)

text \<open>
  Claim C9. Cancellation is not swallowed: when the query for the next
  evaluation is cancelled (an exception outside \<open>Exception\<close>), the handler
  propagates it, logs no error line and returns no reply.
\<close>

theorem dispatch_cancellation_propagates:
  assumes "get_next_evaluation_for_validator ops hk (ext w) = (Inl CancelledError, b)"
  shows "handle_get_next_evaluation ops ws hk rj w =
     (Inl CancelledError, w\<lparr>ext := b, logs := logs w @
         [(DEBUG, ''Attempting to get next evaluation for validator '' @ hk @ ''.'')]\<rparr>)"
  by (simp add: handle_passed [OF get_next_evaluation_body_next_fails [OF assms]])

theorem dispatch_cancellation_witness:
  "handle_get_next_evaluation (scripted_ops (Inl CancelledError) (Inr None) (Inr ())) () ''v1'' []
     (init_world Map.empty []) =
   (Inl CancelledError,
    \<lparr>environ = Map.empty,
     logs = [(DEBUG, ''Attempting to get next evaluation for validator v1.'')],
     stdout = [], ext = [''next:v1'']\<rparr>)"
  using dispatch_cancellation_propagates
    [where ops = "scripted_ops (Inl CancelledError) (Inr None) (Inr ())" and hk = "''v1''"
       and w = "init_world Map.empty []" and b = "[''next:v1'']" and ws = "()" and rj = "[]"]
  by (simp add: init_world_def)

end
