(* ===== verification/Routing.thy ===== *)
theory Routing
  imports Prelude
begin

text \<open>
  The part of the web framework's routing tables the sources build, and how
  the framework resolves a request against them.

  A router is the list of its routes in the order they were added;
  \<open>add_api_route\<close> appends one; \<open>include_router\<close> mounts the routes of a
  router under a prefix, with the tags of the mount put before each route's
  own. A route is generic in the type of its endpoint.

  \<open>resolve\<close> is the framework's dispatch: the routes are tried in order, the
  first one whose path is the request's and which answers the request's
  method serves it; when only paths match the answer is "method not
  allowed", and "not found" otherwise. Every path the sources register is a
  literal, so a path matches when it is equal; routes with path parameters
  are outside the model.
\<close>

section \<open>Routers\<close>

datatype http_method = GET | POST

datatype dependency = Verify_request

record 'e api_route =
  route_path :: string
  route_endpoint :: 'e
  route_tags :: "string list"
  route_dependencies :: "dependency list"
  route_methods :: "http_method list"

type_synonym 'e api_router = "'e api_route list"

definition add_api_route ::
  "string \<Rightarrow> 'e \<Rightarrow> string list \<Rightarrow> dependency list \<Rightarrow> http_method list \<Rightarrow>
   'e api_router \<Rightarrow> 'e api_router" where
  "add_api_route path endpoint tags dependencies methods router =
     router @ [\<lparr>route_path = path, route_endpoint = endpoint, route_tags = tags,
                 route_dependencies = dependencies, route_methods = methods\<rparr>]"

definition mount :: "string \<Rightarrow> string list \<Rightarrow> ('e \<Rightarrow> 'f) \<Rightarrow> 'e api_route \<Rightarrow> 'f api_route" where
  "mount pfx tags emb r =
     \<lparr>route_path = pfx @ route_path r, route_endpoint = emb (route_endpoint r),
      route_tags = tags @ route_tags r, route_dependencies = route_dependencies r,
      route_methods = route_methods r\<rparr>"

definition include_router ::
  "'e api_router \<Rightarrow> string \<Rightarrow> string list \<Rightarrow> ('e \<Rightarrow> 'f) \<Rightarrow> 'f api_router \<Rightarrow> 'f api_router" where
  "include_router router pfx tags emb app = app @ map (mount pfx tags emb) router"

definition verified :: "'e api_route \<Rightarrow> bool" where
  "verified r \<longleftrightarrow> Verify_request \<in> set (route_dependencies r)"

section \<open>Resolution of a request\<close>

datatype 'e resolution = Served "'e api_route" | Method_not_allowed | Not_found

definition serves :: "http_method \<Rightarrow> string \<Rightarrow> 'e api_route \<Rightarrow> bool" where
  "serves m p r \<longleftrightarrow> route_path r = p \<and> m \<in> set (route_methods r)"

fun resolve :: "'e api_router \<Rightarrow> http_method \<Rightarrow> string \<Rightarrow> 'e resolution" where
  "resolve [] m p = Not_found"
| "resolve (r # rs) m p =
     (if route_path r = p then
        if m \<in> set (route_methods r) then Served r
        else (case resolve rs m p of Served r' \<Rightarrow> Served r' | _ \<Rightarrow> Method_not_allowed)
      else resolve rs m p)"

text \<open>
  Resolution is a search for the first route that serves the request; the
  two refusals tell whether some route has the path.
\<close>

lemma resolve_find:
  "resolve rs m p =
     (case find (serves m p) rs of
        Some r \<Rightarrow> Served r
      | None \<Rightarrow> if p \<in> route_path ` set rs then Method_not_allowed else Not_found)"
  by (induction rs) (auto simp: serves_def split: option.splits)

lemma find_append:
  "find P (xs @ ys) = (case find P xs of Some x \<Rightarrow> Some x | None \<Rightarrow> find P ys)"
  by (induction xs) simp_all

lemma find_map: "find P (map f xs) = map_option f (find (P \<circ> f) xs)"
  by (induction xs) simp_all

lemma resolve_Served_iff: "resolve rs m p = Served r \<longleftrightarrow> find (serves m p) rs = Some r"
  by (simp add: resolve_find split: option.splits)

lemma serves_mount [simp]:
  "serves m (pfx @ p) (mount pfx tags emb r) = serves m p r"
  by (simp add: serves_def mount_def)

end
