(* ===== verification/Scoring.thy ===== *)
theory Scoring
  imports Json Routing
begin

text \<open>
  The scoring endpoints of the platform API (\<open>src/api/src/endpoints/scoring.py\<close>):
  the weight broadcast (\<open>weight_receiving_agent\<close>,
  \<open>tell_validators_to_set_weights\<close>, \<open>run_weight_setting_loop\<close>,
  \<open>trigger_weight_set\<close>), the administrative operations behind a password
  (\<open>ban_agent\<close>, \<open>approve_version\<close>, \<open>re_eval_approved\<close>) and the route table.

  The consensus query, the websocket manager, the database and the agent
  state machine are collaborators outside \<open>src/\<close>; the endpoints are modelled
  over the record \<open>scoring_ops\<close> of the operations they call, and every
  theorem holds for every implementation of them.

  \<open>run_weight_setting_loop\<close> is a \<open>while True\<close> loop: the model takes fuel (the
  number of iterations observed) and returns \<open>None\<close> while the loop is still
  running, \<open>Some (Inl e)\<close> when an iteration raised \<open>e\<close>. That it has no normal
  exit, that an exception in one iteration ends it for good, and that it keeps
  running as long as the iterations succeed are theorems.
\<close>

section \<open>Collaborators\<close>

record ('b, 'ta, 'ag) scoring_ops =
  get_top_agent :: "('b, 'ta option) extcall"
  top_agent_dump :: "'ta \<Rightarrow> json"
  top_agent_miner_hotkey :: "'ta \<Rightarrow> string"
  send_to_all_validators :: "string \<Rightarrow> json \<Rightarrow> ('b, unit) extcall"
  sleep :: "int \<Rightarrow> ('b, unit) extcall"
  db_ban_agent :: "string \<Rightarrow> ('b, unit) extcall"
  approve_agent_version :: "string \<Rightarrow> ('b, unit) extcall"
  re_evaluate_approved_agents :: "('b, 'ag list) extcall"
  agent_dump :: "'ag \<Rightarrow> json"

section \<open>Weight broadcast\<close>

definition weight_receiving_agent ::
  "('b, 'ta, 'ag) scoring_ops \<Rightarrow> ('b world, 'ta option) prog" where
  "weight_receiving_agent ops = bnd (call (get_top_agent ops)) (\<lambda>top_agent. ret top_agent)"

definition tell_validators_to_set_weights ::
  "('b, 'ta, 'ag) scoring_ops \<Rightarrow> ('b world, unit) prog" where
  "tell_validators_to_set_weights ops =
     bnd (weight_receiving_agent ops) (\<lambda>top_agent.
     case top_agent of
       None \<Rightarrow> bnd (logger_log INFO ''No top agent found, skipping weight update'') (\<lambda>_. ret ())
     | Some ta \<Rightarrow>
         bnd (call (send_to_all_validators ops ''set-weights'' (top_agent_dump ops ta))) (\<lambda>_.
         logger_log INFO (''Sent updated top agent to all validators: ''
           @ top_agent_miner_hotkey ops ta)))"

definition weight_loop_tick :: "('b, 'ta, 'ag) scoring_ops \<Rightarrow> int \<Rightarrow> ('b world, unit) prog" where
  "weight_loop_tick ops minutes =
     bnd (tell_validators_to_set_weights ops) (\<lambda>_. call (sleep ops (minutes * 60)))"

fun run_weight_setting_loop ::
  "nat \<Rightarrow> ('b, 'ta, 'ag) scoring_ops \<Rightarrow> int \<Rightarrow> 'b world \<Rightarrow>
   (exn, unit) result option \<times> 'b world" where
  "run_weight_setting_loop 0 ops minutes w = (None, w)"
| "run_weight_setting_loop (Suc fuel) ops minutes w =
     (case weight_loop_tick ops minutes w of
        (Inl e, w') \<Rightarrow> (Some (Inl e), w')
      | (Inr _, w') \<Rightarrow> run_weight_setting_loop fuel ops minutes w')"

definition trigger_weight_set :: "('b, 'ta, 'ag) scoring_ops \<Rightarrow> ('b world, pydict) prog" where
  "trigger_weight_set ops =
     bnd (tell_validators_to_set_weights ops) (\<lambda>_.
     ret [(''message'', JStr ''Successfully triggered weight update'')])"

section \<open>Administrative endpoints\<close>

definition ban_agent ::
  "('b, 'ta, 'ag) scoring_ops \<Rightarrow> string \<Rightarrow> string \<Rightarrow> ('b world, pydict) prog" where
  "ban_agent ops agent_id ban_password =
     bnd (getenv ''BAN_PASSWORD'') (\<lambda>expected.
     if Some ban_password \<noteq> expected
     then raise (HTTPException 401 ''Invalid ban password. Fuck you.'')
     else try_except
       (bnd (call (db_ban_agent ops agent_id)) (\<lambda>_.
        ret [(''message'', JStr ''Agent banned successfully'')]))
       is_Exception
       (\<lambda>e. bnd (logger_log ERROR (''Error banning agent '' @ agent_id @ '': '' @ str_exn e)) (\<lambda>_.
            raise (HTTPException 500
              ''Failed to ban agent due to internal server error. Please try again later.''))))"

definition approve_version ::
  "('b, 'ta, 'ag) scoring_ops \<Rightarrow> string \<Rightarrow> string \<Rightarrow> ('b world, pydict) prog" where
  "approve_version ops version_id approval_password =
     bnd (getenv ''APPROVAL_PASSWORD'') (\<lambda>expected.
     if Some approval_password \<noteq> expected
     then raise (HTTPException 401 ''Invalid approval password. fucker'')
     else try_except
       (bnd (call (approve_agent_version ops version_id)) (\<lambda>_.
        ret [(''message'', JStr (''Successfully approved '' @ version_id))]))
       is_Exception
       (\<lambda>e. bnd (logger_log ERROR (''Error approving version '' @ version_id @ '': '' @ str_exn e)) (\<lambda>_.
            raise (HTTPException 500
              ''Failed to approve version due to internal server error. Please try again later.''))))"

definition re_eval_message :: "nat \<Rightarrow> string" where
  "re_eval_message n =
     ''Successfully initiated re-evaluation for '' @ str_nat n @ '' approved agents''"

definition re_eval_approved ::
  "('b, 'ta, 'ag) scoring_ops \<Rightarrow> string \<Rightarrow> ('b world, pydict) prog" where
  "re_eval_approved ops approval_password =
     bnd (getenv ''APPROVAL_PASSWORD'') (\<lambda>expected.
     if Some approval_password \<noteq> expected
     then raise (HTTPException 401 ''Invalid approval password'')
     else try_except
       (bnd (logger_log INFO ''Starting re-evaluation of approved agents'') (\<lambda>_.
        bnd (call (re_evaluate_approved_agents ops)) (\<lambda>agents_to_re_evaluate.
        if agents_to_re_evaluate = []
        then bnd (logger_log INFO ''No approved agents found for re-evaluation'') (\<lambda>_.
             ret [(''message'', JStr ''No approved agents found for re-evaluation''),
                  (''agents'', JList [])])
        else bnd (logger_log INFO (re_eval_message (length agents_to_re_evaluate))) (\<lambda>_.
             ret [(''message'', JStr (re_eval_message (length agents_to_re_evaluate))),
                  (''agents'', JList (map (agent_dump ops) agents_to_re_evaluate))]))))
       is_Exception
       (\<lambda>e. bnd (logger_log ERROR (''Error re-evaluating approved agents: '' @ str_exn e)) (\<lambda>_.
            raise (HTTPException 500 ''Error initiating re-evaluation of approved agents''))))"

lemmas scoring_defs =
  weight_receiving_agent_def tell_validators_to_set_weights_def weight_loop_tick_def
  trigger_weight_set_def ban_agent_def approve_version_def re_eval_approved_def

section \<open>The route table\<close>

text \<open>
  The endpoints are named by a datatype; the table \<open>routes\<close> and the loop
  that adds each entry to the router (\<open>add_scoring_routes\<close>, for any table
  and any router to start from) are the module's last statements.
\<close>

datatype scoring_endpoint =
  Weight_receiving_agent | Ban_agent | Approve_version | Trigger_weight_set | Re_eval_approved

definition routes :: "(string \<times> scoring_endpoint \<times> http_method list) list" where
  "routes =
     [(''/check-top-agent'', Weight_receiving_agent, [GET]),
      (''/ban-agent'', Ban_agent, [POST]),
      (''/approve-version'', Approve_version, [POST]),
      (''/trigger-weight-update'', Trigger_weight_set, [POST]),
      (''/re-eval-approved'', Re_eval_approved, [POST])]"

definition add_scoring_routes ::
  "(string \<times> 'e \<times> http_method list) list \<Rightarrow> 'e api_router \<Rightarrow> 'e api_router" where
  "add_scoring_routes table router = foldl (\<lambda>router (path, endpoint, methods).
     add_api_route path endpoint [''scoring''] [Verify_request] methods router) router table"

definition scoring_router :: "scoring_endpoint api_router" where
  "scoring_router = add_scoring_routes routes []"

text \<open>The route the loop adds for one entry of the table.\<close>

definition scoring_route :: "string \<times> 'e \<times> http_method list \<Rightarrow> 'e api_route" where
  "scoring_route entry =
     (case entry of (path, endpoint, methods) \<Rightarrow>
        \<lparr>route_path = path, route_endpoint = endpoint, route_tags = [''scoring''],
         route_dependencies = [Verify_request], route_methods = methods\<rparr>)"

section \<open>A recording collaborator\<close>

text \<open>
  For the closed instances below: the collaborators' state is the list of the
  calls made on them; the answer of the consensus query may depend on it (so
  that it can fail at a later tick), the other answers are fixed.
\<close>

definition scripted_scoring ::
  "(string list \<Rightarrow> (exn, string option) result) \<Rightarrow> (exn, unit) result \<Rightarrow>
   (exn, unit) result \<Rightarrow> (exn, string list) result \<Rightarrow>
   (string list, string, string) scoring_ops" where
  "scripted_scoring f_top r_send r_db r_agents =
     \<lparr>get_top_agent = (\<lambda>b. (f_top b, b @ [''top''])),
      top_agent_dump = (\<lambda>ta. JDict [(''miner_hotkey'', JStr ta)]),
      top_agent_miner_hotkey = (\<lambda>ta. ta),
      send_to_all_validators = (\<lambda>ev j b. (r_send, b @ [''broadcast:'' @ ev @ '':'' @ dumps j])),
      sleep = (\<lambda>s b. (Inr (), b @ [''sleep:'' @ str_int s])),
      db_ban_agent = (\<lambda>a b. (r_db, b @ [''ban:'' @ a])),
      approve_agent_version = (\<lambda>v b. (r_db, b @ [''approve:'' @ v])),
      re_evaluate_approved_agents = (\<lambda>b. (r_agents, b @ [''re-evaluate''])),
      agent_dump = (\<lambda>a. JStr a)\<rparr>"

lemma scripted_scoring_sel [simp]:
  "get_top_agent (scripted_scoring f rs rd ra) b = (f b, b @ [''top''])"
  "top_agent_dump (scripted_scoring f rs rd ra) ta = JDict [(''miner_hotkey'', JStr ta)]"
  "top_agent_miner_hotkey (scripted_scoring f rs rd ra) ta = ta"
  "send_to_all_validators (scripted_scoring f rs rd ra) ev j b =
     (rs, b @ [''broadcast:'' @ ev @ '':'' @ dumps j])"
  "sleep (scripted_scoring f rs rd ra) s b = (Inr (), b @ [''sleep:'' @ str_int s])"
  "db_ban_agent (scripted_scoring f rs rd ra) a b = (rd, b @ [''ban:'' @ a])"
  "approve_agent_version (scripted_scoring f rs rd ra) v b = (rd, b @ [''approve:'' @ v])"
  "re_evaluate_approved_agents (scripted_scoring f rs rd ra) b = (ra, b @ [''re-evaluate''])"
  "agent_dump (scripted_scoring f rs rd ra) a = JStr a"
  by (simp_all add: scripted_scoring_def)

definition fails_after :: "nat \<Rightarrow> string list \<Rightarrow> (exn, string option) result" where
  "fails_after n b = (if length b < n then Inr (Some ''hk'') else Inl (OtherError ''db down''))"

definition no_scoring :: "(string list, string, string) scoring_ops" where
  "no_scoring = scripted_scoring (\<lambda>b. Inr None) (Inr ()) (Inr ()) (Inr [])"

definition admin_error :: "exn \<Rightarrow> bool" where
  "admin_error e \<longleftrightarrow> (\<exists>d. e = HTTPException 401 d \<or> e = HTTPException 500 d) \<or> \<not> is_Exception e"

section \<open>One broadcast\<close>

lemma tell_None:
  assumes "get_top_agent ops (ext w) = (Inr None, b)"
  shows "tell_validators_to_set_weights ops w =
     (Inr (), w\<lparr>ext := b, logs := logs w @ [(INFO, ''No top agent found, skipping weight update'')]\<rparr>)"
  using assms by (simp add: tell_validators_to_set_weights_def weight_receiving_agent_def prog_simps)

lemma tell_Some:
  assumes "get_top_agent ops (ext w) = (Inr (Some ta), b)"
    and "send_to_all_validators ops ''set-weights'' (top_agent_dump ops ta) b = (r, ba)"
  shows "tell_validators_to_set_weights ops w =
     (case r of
        Inl e \<Rightarrow> (Inl e, w\<lparr>ext := ba\<rparr>)
      | Inr _ \<Rightarrow> (Inr (), w\<lparr>ext := ba, logs := logs w @
          [(INFO, ''Sent updated top agent to all validators: '' @ top_agent_miner_hotkey ops ta)]\<rparr>))"
  using assms
  by (simp add: tell_validators_to_set_weights_def weight_receiving_agent_def prog_simps
      split: sum.splits)

lemma tell_fails:
  assumes "get_top_agent ops (ext w) = (Inl e, b)"
  shows "tell_validators_to_set_weights ops w = (Inl e, w\<lparr>ext := b\<rparr>)"
  using assms by (simp add: tell_validators_to_set_weights_def weight_receiving_agent_def prog_simps)

lemma trigger_weight_set_result:
  "trigger_weight_set ops w =
     (case tell_validators_to_set_weights ops w of
        (Inl e, w') \<Rightarrow> (Inl e, w')
      | (Inr _, w') \<Rightarrow> (Inr [(''message'', JStr ''Successfully triggered weight update'')], w'))"
  by (simp add: trigger_weight_set_def prog_simps split: prod.splits sum.splits)

text \<open>
  Claim C10. When the consensus query answers, one broadcast either logs that
  there is no top agent and contacts no validator, or sends the top agent's
  dump as a \<open>set-weights\<close> event to all validators and logs the hotkey only
  after the send has returned; a failing send ends the broadcast with its
  exception and no log line.
\<close>

theorem scoring_tell_validators:
  assumes "get_top_agent ops (ext w) = (Inr top_agent, b)"
  shows "tell_validators_to_set_weights ops w =
     (case top_agent of
        None \<Rightarrow> (Inr (), w\<lparr>ext := b, logs := logs w @
                   [(INFO, ''No top agent found, skipping weight update'')]\<rparr>)
      | Some ta \<Rightarrow>
          (case send_to_all_validators ops ''set-weights'' (top_agent_dump ops ta) b of
             (Inl e, ba) \<Rightarrow> (Inl e, w\<lparr>ext := ba\<rparr>)
           | (Inr _, ba) \<Rightarrow> (Inr (), w\<lparr>ext := ba, logs := logs w @
               [(INFO, ''Sent updated top agent to all validators: ''
                       @ top_agent_miner_hotkey ops ta)]\<rparr>)))"
  using assms
  by (cases top_agent) (auto simp: tell_None tell_Some split: prod.splits sum.splits)

theorem scoring_tell_validators_witness:
  "tell_validators_to_set_weights (scripted_scoring (fails_after 3) (Inr ()) (Inr ()) (Inr []))
     (init_world Map.empty []) =
   (Inr (), \<lparr>environ = Map.empty,
      logs = [(INFO, ''Sent updated top agent to all validators: hk'')], stdout = [],
      ext = [''top'', ''broadcast:set-weights:{\"miner_hotkey\": \"hk\"}'']\<rparr>)"
  using scoring_tell_validators
    [where ops = "scripted_scoring (fails_after 3) (Inr ()) (Inr ()) (Inr [])"
       and w = "init_world Map.empty []" and top_agent = "Some ''hk''" and b = "[''top'']"]
  by (simp add: fails_after_def init_world_def json_string_def json_escape_char_def)

section \<open>The loop\<close>

lemma loop_running_Suc:
  "run_weight_setting_loop (Suc k) ops minutes w = (None, w') \<longleftrightarrow>
   (\<exists>v. weight_loop_tick ops minutes w = (Inr (), v) \<and>
        run_weight_setting_loop k ops minutes v = (None, w'))"
  by (auto split: prod.splits sum.splits)

lemma tick_ok_example:
  "weight_loop_tick (scripted_scoring (fails_after 3) (Inr ()) (Inr ()) (Inr [])) 1
     (init_world Map.empty []) =
   (Inr (), \<lparr>environ = Map.empty,
      logs = [(INFO, ''Sent updated top agent to all validators: hk'')], stdout = [],
      ext = [''top'', ''broadcast:set-weights:{\"miner_hotkey\": \"hk\"}'', ''sleep:60'']\<rparr>)"
  by (simp add: weight_loop_tick_def tell_validators_to_set_weights_def weight_receiving_agent_def
      prog_simps fails_after_def init_world_def json_string_def json_escape_char_def
      str_int_def str_nat.simps digit_char_def)

text \<open>
  Claim C4. The weight loop has no handler around its body: if the loop has
  completed \<open>k\<close> iterations and the next one raises, then from that point on,
  however long it is observed, the loop has ended with that exception and
  the world is the one the failing iteration left. No later broadcast
  happens.
\<close>

theorem scoring_weight_loop_stops_at_first_failure:
  assumes "run_weight_setting_loop k ops minutes w = (None, w')"
    and "weight_loop_tick ops minutes w' = (Inl e, w'')"
  shows "run_weight_setting_loop (Suc k + j) ops minutes w = (Some (Inl e), w'')"
  using assms
proof (induction k arbitrary: w)
  case 0
  then show ?case by simp
next
  case (Suc k)
  from Suc.prems(1) [unfolded loop_running_Suc]
  obtain v where tick: "weight_loop_tick ops minutes w = (Inr (), v)"
    and rest: "run_weight_setting_loop k ops minutes v = (None, w')"
    by blast
  from Suc.IH [OF rest Suc.prems(2)] tick show ?case
    by simp
qed

theorem scoring_weight_loop_witness:
  "run_weight_setting_loop (Suc (Suc 0) + 3)
     (scripted_scoring (fails_after 3) (Inr ()) (Inr ()) (Inr [])) 1 (init_world Map.empty []) =
   (Some (Inl (OtherError ''db down'')),
    \<lparr>environ = Map.empty,
      logs = [(INFO, ''Sent updated top agent to all validators: hk'')], stdout = [],
      ext = [''top'', ''broadcast:set-weights:{\"miner_hotkey\": \"hk\"}'', ''sleep:60'', ''top'']\<rparr>)"
proof (rule scoring_weight_loop_stops_at_first_failure)
  show "run_weight_setting_loop (Suc 0) (scripted_scoring (fails_after 3) (Inr ()) (Inr ()) (Inr [])) 1
      (init_world Map.empty []) =
    (None, \<lparr>environ = Map.empty,
      logs = [(INFO, ''Sent updated top agent to all validators: hk'')], stdout = [],
      ext = [''top'', ''broadcast:set-weights:{\"miner_hotkey\": \"hk\"}'', ''sleep:60'']\<rparr>)"
    by (simp add: tick_ok_example)
  show "weight_loop_tick (scripted_scoring (fails_after 3) (Inr ()) (Inr ()) (Inr [])) 1
      \<lparr>environ = Map.empty,
      logs = [(INFO, ''Sent updated top agent to all validators: hk'')], stdout = [],
      ext = [''top'', ''broadcast:set-weights:{\"miner_hotkey\": \"hk\"}'', ''sleep:60'']\<rparr> =
    (Inl (OtherError ''db down''),
     \<lparr>environ = Map.empty,
      logs = [(INFO, ''Sent updated top agent to all validators: hk'')], stdout = [],
      ext = [''top'', ''broadcast:set-weights:{\"miner_hotkey\": \"hk\"}'', ''sleep:60'', ''top'']\<rparr>)"
    by (simp add: weight_loop_tick_def tell_validators_to_set_weights_def weight_receiving_agent_def
      prog_simps fails_after_def)
qed

text \<open>
  Claim C11. The weight loop never ends normally: whatever the collaborators
  do and however long the loop is observed, it is either still running or has
  ended with an exception.
\<close>

theorem scoring_loop_no_normal_exit:
  "fst (run_weight_setting_loop fuel ops minutes w) \<noteq> Some (Inr ())"
  by (induction fuel arbitrary: w) (auto split: prod.splits sum.splits)

text \<open>
  Claim C12. As long as no iteration raises, the weight loop is still running
  after any number of iterations.
\<close>

theorem scoring_loop_keeps_running:
  assumes "\<And>v. is_ok (fst (weight_loop_tick ops minutes v))"
  shows "fst (run_weight_setting_loop fuel ops minutes w) = None"
proof (induction fuel arbitrary: w)
  case 0
  show ?case by simp
next
  case (Suc fuel)
  obtain r v where tick: "weight_loop_tick ops minutes w = (r, v)"
    by (cases "weight_loop_tick ops minutes w")
  with assms [of w] obtain u where "r = Inr u"
    by (auto simp: is_ok_iff)
  with tick Suc.IH [of v] show ?case
    by simp
qed

theorem scoring_loop_keeps_running_witness:
  "fst (run_weight_setting_loop 1000 no_scoring 5 (init_world Map.empty [])) = None"
  by (rule scoring_loop_keeps_running)
    (simp add: no_scoring_def weight_loop_tick_def tell_validators_to_set_weights_def
      weight_receiving_agent_def prog_simps)

section \<open>Passwords\<close>

lemma ban_agent_rejected:
  "environ w ''BAN_PASSWORD'' \<noteq> Some pw \<Longrightarrow>
   ban_agent ops a pw w = (Inl (HTTPException 401 ''Invalid ban password. Fuck you.''), w)"
  by (auto simp add: ban_agent_def prog_simps)

lemma approve_version_rejected:
  "environ w ''APPROVAL_PASSWORD'' \<noteq> Some pw \<Longrightarrow>
   approve_version ops v pw w = (Inl (HTTPException 401 ''Invalid approval password. fucker''), w)"
  by (auto simp add: approve_version_def prog_simps)

lemma re_eval_approved_rejected:
  "environ w ''APPROVAL_PASSWORD'' \<noteq> Some pw \<Longrightarrow>
   re_eval_approved ops pw w = (Inl (HTTPException 401 ''Invalid approval password''), w)"
  by (auto simp add: re_eval_approved_def prog_simps)

text \<open>
  Claim C3. An administrative request whose password is not the configured
  one (or when none is configured) is refused with status 401 before any
  collaborator is called: the world, the database included, is unchanged and
  nothing is logged. This holds for banning an agent, approving a version and
  re-evaluating the approved agents.
\<close>

theorem scoring_wrong_password_rejected:
  "(environ w ''BAN_PASSWORD'' \<noteq> Some pw \<longrightarrow>
      ban_agent ops a pw w = (Inl (HTTPException 401 ''Invalid ban password. Fuck you.''), w))
   \<and> (environ w ''APPROVAL_PASSWORD'' \<noteq> Some pw \<longrightarrow>
      approve_version ops v pw w = (Inl (HTTPException 401 ''Invalid approval password. fucker''), w)
      \<and> re_eval_approved ops pw w = (Inl (HTTPException 401 ''Invalid approval password''), w))"
  by (simp add: ban_agent_rejected approve_version_rejected re_eval_approved_rejected)

theorem scoring_wrong_password_witness:
  "ban_agent no_scoring ''agent-1'' ''guess'' (init_world [''BAN_PASSWORD'' \<mapsto> ''s3cret''] []) =
     (Inl (HTTPException 401 ''Invalid ban password. Fuck you.''),
      init_world [''BAN_PASSWORD'' \<mapsto> ''s3cret''] [])
   \<and> approve_version no_scoring ''v-1'' ''guess'' (init_world [''BAN_PASSWORD'' \<mapsto> ''s3cret''] []) =
     (Inl (HTTPException 401 ''Invalid approval password. fucker''),
      init_world [''BAN_PASSWORD'' \<mapsto> ''s3cret''] [])
   \<and> re_eval_approved no_scoring ''guess'' (init_world [''BAN_PASSWORD'' \<mapsto> ''s3cret''] []) =
     (Inl (HTTPException 401 ''Invalid approval password''),
      init_world [''BAN_PASSWORD'' \<mapsto> ''s3cret''] [])"
  using scoring_wrong_password_rejected
    [where w = "init_world [''BAN_PASSWORD'' \<mapsto> ''s3cret''] []" and pw = "''guess''"
       and ops = no_scoring and a = "''agent-1''" and v = "''v-1''"]
  by (simp add: init_world_def)

section \<open>The administrative operations once the password is accepted\<close>

text \<open>
  Claim C13. With the right password, banning an agent calls the database
  once; on success it answers \<open>Agent banned successfully\<close>; when the database
  raises an \<open>Exception\<close> the error is logged with the agent id and the caller
  receives status 500 with a fixed text that does not reveal the cause; an
  exception outside \<open>Exception\<close> (a cancellation) propagates unchanged.
\<close>

theorem scoring_ban_agent_outcome:
  assumes "environ w ''BAN_PASSWORD'' = Some pw" and "db_ban_agent ops a (ext w) = (r, b)"
  shows "ban_agent ops a pw w =
    (case r of
       Inr _ \<Rightarrow> (Inr [(''message'', JStr ''Agent banned successfully'')], w\<lparr>ext := b\<rparr>)
     | Inl e \<Rightarrow>
         if is_Exception e
         then (Inl (HTTPException 500
                 ''Failed to ban agent due to internal server error. Please try again later.''),
               w\<lparr>ext := b, logs := logs w @
                 [(ERROR, ''Error banning agent '' @ a @ '': '' @ str_exn e)]\<rparr>)
         else (Inl e, w\<lparr>ext := b\<rparr>))"
  using assms by (simp add: ban_agent_def prog_simps split: sum.splits)

theorem scoring_ban_agent_witness:
  "ban_agent (scripted_scoring (\<lambda>b. Inr None) (Inr ()) (Inl (OtherError ''db down'')) (Inr []))
     ''agent-1'' ''s3cret'' (init_world [''BAN_PASSWORD'' \<mapsto> ''s3cret''] []) =
   (Inl (HTTPException 500
           ''Failed to ban agent due to internal server error. Please try again later.''),
    \<lparr>environ = [''BAN_PASSWORD'' \<mapsto> ''s3cret''],
      logs = [(ERROR, ''Error banning agent agent-1: db down'')], stdout = [],
      ext = [''ban:agent-1'']\<rparr>)"
  using scoring_ban_agent_outcome
    [where ops = "scripted_scoring (\<lambda>b. Inr None) (Inr ()) (Inl (OtherError ''db down'')) (Inr [])"
       and w = "init_world [''BAN_PASSWORD'' \<mapsto> ''s3cret''] []" and pw = "''s3cret''"
       and a = "''agent-1''" and r = "Inl (OtherError ''db down'')" and b = "[''ban:agent-1'']"]
  by (simp add: init_world_def)

text \<open>
  Claim C14. With the right password, approving a version calls the state
  machine once; on success the answer names the version; an \<open>Exception\<close> is
  logged with the version id and becomes status 500 with a fixed text; a
  cancellation propagates unchanged.
\<close>

theorem scoring_approve_version_outcome:
  assumes "environ w ''APPROVAL_PASSWORD'' = Some pw"
    and "approve_agent_version ops v (ext w) = (r, b)"
  shows "approve_version ops v pw w =
    (case r of
       Inr _ \<Rightarrow> (Inr [(''message'', JStr (''Successfully approved '' @ v))], w\<lparr>ext := b\<rparr>)
     | Inl e \<Rightarrow>
         if is_Exception e
         then (Inl (HTTPException 500
                 ''Failed to approve version due to internal server error. Please try again later.''),
               w\<lparr>ext := b, logs := logs w @
                 [(ERROR, ''Error approving version '' @ v @ '': '' @ str_exn e)]\<rparr>)
         else (Inl e, w\<lparr>ext := b\<rparr>))"
  using assms by (simp add: approve_version_def prog_simps split: sum.splits)

theorem scoring_approve_version_witness:
  "approve_version no_scoring ''v-1'' ''s3cret''
     (init_world [''APPROVAL_PASSWORD'' \<mapsto> ''s3cret''] []) =
   (Inr [(''message'', JStr ''Successfully approved v-1'')],
    \<lparr>environ = [''APPROVAL_PASSWORD'' \<mapsto> ''s3cret''], logs = [], stdout = [],
      ext = [''approve:v-1'']\<rparr>)"
  using scoring_approve_version_outcome
    [where ops = no_scoring and w = "init_world [''APPROVAL_PASSWORD'' \<mapsto> ''s3cret''] []"
       and pw = "''s3cret''" and v = "''v-1''" and r = "Inr ()" and b = "[''approve:v-1'']"]
  by (simp add: init_world_def no_scoring_def)

text \<open>
  Claim C15. With the right password, re-evaluating the approved agents logs
  the start, calls the state machine once, and answers with the dumps of the
  agents it returned, in order, and a message that counts them (a fixed
  message and an empty list when there are none); an \<open>Exception\<close> is logged
  and becomes status 500; a cancellation propagates after the start line.
\<close>

theorem scoring_re_eval_outcome:
  assumes "environ w ''APPROVAL_PASSWORD'' = Some pw"
    and "re_evaluate_approved_agents ops (ext w) = (r, b)"
  shows "re_eval_approved ops pw w =
    (case r of
       Inr agents \<Rightarrow>
         if agents = []
         then (Inr [(''message'', JStr ''No approved agents found for re-evaluation''),
                    (''agents'', JList [])],
               w\<lparr>ext := b, logs := logs w @
                 [(INFO, ''Starting re-evaluation of approved agents''),
                  (INFO, ''No approved agents found for re-evaluation'')]\<rparr>)
         else (Inr [(''message'', JStr (re_eval_message (length agents))),
                    (''agents'', JList (map (agent_dump ops) agents))],
               w\<lparr>ext := b, logs := logs w @
                 [(INFO, ''Starting re-evaluation of approved agents''),
                  (INFO, re_eval_message (length agents))]\<rparr>)
     | Inl e \<Rightarrow>
         if is_Exception e
         then (Inl (HTTPException 500 ''Error initiating re-evaluation of approved agents''),
               w\<lparr>ext := b, logs := logs w @
                 [(INFO, ''Starting re-evaluation of approved agents''),
                  (ERROR, ''Error re-evaluating approved agents: '' @ str_exn e)]\<rparr>)
         else (Inl e, w\<lparr>ext := b, logs := logs w @
                 [(INFO, ''Starting re-evaluation of approved agents'')]\<rparr>))"
  using assms by (simp add: re_eval_approved_def prog_simps split: sum.splits)

theorem scoring_re_eval_witness:
  "re_eval_approved (scripted_scoring (\<lambda>b. Inr None) (Inr ()) (Inr ()) (Inr [''a1'', ''a2'']))
     ''s3cret'' (init_world [''APPROVAL_PASSWORD'' \<mapsto> ''s3cret''] []) =
   (Inr [(''message'', JStr ''Successfully initiated re-evaluation for 2 approved agents''),
         (''agents'', JList [JStr ''a1'', JStr ''a2''])],
    \<lparr>environ = [''APPROVAL_PASSWORD'' \<mapsto> ''s3cret''],
      logs = [(INFO, ''Starting re-evaluation of approved agents''),
              (INFO, ''Successfully initiated re-evaluation for 2 approved agents'')],
      stdout = [], ext = [''re-evaluate'']\<rparr>)"
  using scoring_re_eval_outcome
    [where ops = "scripted_scoring (\<lambda>b. Inr None) (Inr ()) (Inr ()) (Inr [''a1'', ''a2''])"
       and w = "init_world [''APPROVAL_PASSWORD'' \<mapsto> ''s3cret''] []" and pw = "''s3cret''"
       and r = "Inr [''a1'', ''a2'']" and b = "[''re-evaluate'']"]
  by (simp add: init_world_def re_eval_message_def str_nat.simps digit_char_def)

text \<open>
  Claim C16. The only \<open>Exception\<close>s the administrative endpoints raise are
  \<open>HTTPException\<close>s with status 401 or 500: no failure of a collaborator
  reaches the caller under another status.
\<close>

theorem scoring_admin_raises:
  "raises_only admin_error (ban_agent ops a pw) \<and>
   raises_only admin_error (approve_version ops v pw) \<and>
   raises_only admin_error (re_eval_approved ops pw)"
  unfolding ban_agent_def approve_version_def re_eval_approved_def
  by (intro conjI raises_intros) (simp_all add: admin_error_def)

section \<open>The route table\<close>

lemma add_scoring_routes_map:
  "add_scoring_routes table router = router @ map scoring_route table"
  unfolding add_scoring_routes_def
  by (induction table arbitrary: router)
    (simp_all add: add_api_route_def scoring_route_def split: prod.splits)

lemma find_serves_scoring_route:
  "find (serves m p) (map scoring_route table) =
     map_option scoring_route (find (\<lambda>(path, endpoint, methods). path = p \<and> m \<in> set methods) table)"
  by (induction table) (auto simp: serves_def scoring_route_def)

lemma scoring_route_paths: "route_path ` scoring_route ` set table = fst ` set table"
  by (force simp: scoring_route_def image_iff split: prod.splits)

text \<open>
  Claim C40. The loop over the route table, for any table: a request is
  served by the route of the first entry that has its path and answers its
  method, and that route carries the tag \<open>scoring\<close> and the request
  verification; when no entry answers the method the request is refused,
  with "method not allowed" if some entry has the path. In the module's own
  table no entry is shadowed by an earlier one: each path and method of the
  table reaches the endpoint of its own entry.
\<close>

theorem scoring_router_resolution:
  "resolve (add_scoring_routes table []) m p =
     (case find (\<lambda>(path, endpoint, methods). path = p \<and> m \<in> set methods) table of
        Some entry \<Rightarrow> Served (scoring_route entry)
      | None \<Rightarrow> if p \<in> fst ` set table then Method_not_allowed else Not_found)
   \<and> list_all verified (add_scoring_routes table [])
   \<and> list_all (\<lambda>entry. list_all (\<lambda>m. resolve scoring_router m (fst entry) =
        Served (scoring_route entry)) (snd (snd entry))) routes"
proof (intro conjI)
  show "resolve (add_scoring_routes table []) m p =
     (case find (\<lambda>(path, endpoint, methods). path = p \<and> m \<in> set methods) table of
        Some entry \<Rightarrow> Served (scoring_route entry)
      | None \<Rightarrow> if p \<in> fst ` set table then Method_not_allowed else Not_found)"
    by (simp add: resolve_find add_scoring_routes_map find_serves_scoring_route
        scoring_route_paths split: option.splits)
  show "list_all verified (add_scoring_routes table [])"
    by (simp add: add_scoring_routes_map list_all_iff verified_def scoring_route_def
        split: prod.splits)
  show "list_all (\<lambda>entry. list_all (\<lambda>m. resolve scoring_router m (fst entry) =
        Served (scoring_route entry)) (snd (snd entry))) routes"
    by (simp add: scoring_router_def add_scoring_routes_map routes_def scoring_route_def)
qed

end
