(* ===== verification/ConnectionRegistry.thy ===== *)
theory ConnectionRegistry
  imports Prelude "HOL-Library.AList"
begin

text \<open>
  The registry of live validator connections, written from the
  specification (sections 3 and 4.1); its code is not under \<open>src/\<close>.

  A channel is open or closed and holds the frames enqueued on it. The
  registry is the association list of the registered channels by validator
  hotkey, together with the channels it closed and the hotkeys of the
  deliveries that failed (the registry logs a failed delivery, it does not
  propagate it). \<open>register\<close>, \<open>deregister\<close>, \<open>send_to\<close> and \<open>broadcast\<close> are
  the four operations of the contract; \<open>deliver\<close> is one send on one channel.
\<close>

section \<open>Channels and the registry\<close>

record channel =
  ch_open :: bool
  ch_queue :: "string list"

record registry =
  live :: "(string \<times> channel) list"
  closed_channels :: "channel list"
  delivery_failures :: "string list"

datatype registry_error = NotConnected

definition no_connections :: registry where
  "no_connections = \<lparr>live = [], closed_channels = [], delivery_failures = []\<rparr>"

definition close :: "channel \<Rightarrow> channel" where
  "close ch = ch\<lparr>ch_open := False\<rparr>"

definition deliver :: "string \<Rightarrow> channel \<Rightarrow> (registry_error, channel) result" where
  "deliver frame ch =
     (if ch_open ch then Inr (ch\<lparr>ch_queue := ch_queue ch @ [frame]\<rparr>) else Inl NotConnected)"

section \<open>The operations\<close>

definition register :: "string \<Rightarrow> channel \<Rightarrow> registry \<Rightarrow> registry" where
  "register hotkey ch r =
     r\<lparr>live := AList.update hotkey ch (live r),
       closed_channels := closed_channels r @
         (case map_of (live r) hotkey of None \<Rightarrow> [] | Some old \<Rightarrow> [close old])\<rparr>"

definition deregister :: "string \<Rightarrow> registry \<Rightarrow> registry" where
  "deregister hotkey r = r\<lparr>live := AList.delete hotkey (live r)\<rparr>"

definition send_to :: "string \<Rightarrow> string \<Rightarrow> registry \<Rightarrow> (registry_error, registry) result" where
  "send_to hotkey frame r =
     (case map_of (live r) hotkey of
        None \<Rightarrow> Inl NotConnected
      | Some ch \<Rightarrow>
          (case deliver frame ch of
             Inl e \<Rightarrow> Inl e
           | Inr ch' \<Rightarrow> Inr (r\<lparr>live := AList.update hotkey ch' (live r)\<rparr>)))"

definition after_delivery :: "string \<Rightarrow> channel \<Rightarrow> channel" where
  "after_delivery frame ch = (case deliver frame ch of Inl e \<Rightarrow> ch | Inr ch' \<Rightarrow> ch')"

definition broadcast :: "string \<Rightarrow> registry \<Rightarrow> registry" where
  "broadcast frame r =
     r\<lparr>live := map (\<lambda>(hotkey, ch). (hotkey, after_delivery frame ch)) (live r),
       delivery_failures := delivery_failures r @
         map fst (filter (\<lambda>(hotkey, ch). \<not> is_ok (deliver frame ch)) (live r))\<rparr>"

section \<open>One connection per validator\<close>

definition wf_registry :: "registry \<Rightarrow> bool" where
  "wf_registry r \<longleftrightarrow> distinct (map fst (live r))"

lemma wf_no_connections: "wf_registry no_connections"
  by (simp add: wf_registry_def no_connections_def)

lemma wf_register: "wf_registry r \<Longrightarrow> wf_registry (register hotkey ch r)"
  by (simp add: wf_registry_def register_def distinct_update)

lemma wf_deregister: "wf_registry r \<Longrightarrow> wf_registry (deregister hotkey r)"
  by (simp add: wf_registry_def deregister_def distinct_delete)

lemma wf_send_to: "wf_registry r \<Longrightarrow> send_to hotkey frame r = Inr r' \<Longrightarrow> wf_registry r'"
  by (auto simp: wf_registry_def send_to_def distinct_update split: option.splits sum.splits)

lemma keys_broadcast [simp]: "map fst (live (broadcast frame r)) = map fst (live r)"
  by (simp add: broadcast_def comp_def case_prod_unfold)

lemma wf_broadcast [simp]: "wf_registry (broadcast frame r) = wf_registry r"
  by (simp add: wf_registry_def)

text \<open>
  A new connection from the same hotkey replaces the old one, which is
  closed: after a reconnection the registry holds exactly one channel for
  the hotkey, the newest.
\<close>

lemma register_lookup:
  "map_of (live (register hotkey ch r)) k = (if k = hotkey then Some ch else map_of (live r) k)"
  by (simp add: register_def update_conv')

lemma distinct_keys_filter:
  "distinct (map fst al) \<Longrightarrow> map_of al k = Some v \<Longrightarrow> filter (\<lambda>(k', c). k' = k) al = [(k, v)]"
proof (induction al)
  case (Cons p ps)
  then show ?case
    by (cases p) (auto simp: filter_empty_conv dest: map_of_SomeD intro: rev_image_eqI)
qed simp

lemma reconnect_holds_newest:
  assumes "wf_registry r"
  shows "filter (\<lambda>(k, c). k = hotkey) (live (register hotkey ch' (register hotkey ch r))) =
     [(hotkey, ch')]"
  using assms wf_register [of "register hotkey ch r" hotkey ch'] wf_register [of r hotkey ch]
  by (intro distinct_keys_filter) (simp_all add: wf_registry_def register_lookup)

lemma deregister_idempotent: "deregister hotkey (deregister hotkey r) = deregister hotkey r"
  by (simp add: deregister_def delete_idem)

section \<open>Sending\<close>

lemma send_to_result:
  "send_to hotkey frame r =
     (case map_of (live r) hotkey of
        None \<Rightarrow> Inl NotConnected
      | Some ch \<Rightarrow>
          if ch_open ch
          then Inr (r\<lparr>live := AList.update hotkey (ch\<lparr>ch_queue := ch_queue ch @ [frame]\<rparr>) (live r)\<rparr>)
          else Inl NotConnected)"
  by (simp add: send_to_def deliver_def split: option.splits)

text \<open>
  A broadcast never fails: every open channel gets the frame at the end of
  its queue, every closed one is left alone and logged as one failure.
\<close>

lemma after_delivery_eq:
  "after_delivery frame ch = (if ch_open ch then ch\<lparr>ch_queue := ch_queue ch @ [frame]\<rparr> else ch)"
  by (simp add: after_delivery_def deliver_def)

lemma broadcast_lookup:
  "map_of (live (broadcast frame r)) k = map_option (after_delivery frame) (map_of (live r) k)"
  by (simp add: broadcast_def map_of_map)

lemma broadcast_failures:
  "delivery_failures (broadcast frame r) =
     delivery_failures r @ map fst (filter (\<lambda>(k, ch). \<not> ch_open ch) (live r))"
  by (simp add: broadcast_def deliver_def case_prod_unfold cong: filter_cong)

end
