(* ===== verification/AgentStateMachine.thy ===== *)
theory AgentStateMachine
  imports Prelude
begin

text \<open>
  The lifecycle state machine of agent versions, written from the
  specification (sections 3, 4.2 and 7); its code is not under \<open>src/\<close>.

  \<^item> \<open>status\<close> and \<open>transition\<close> are the states and the transition table of
    section 4.2; \<open>allowed\<close> is the table as a function, for evaluation.
  \<^item> A \<open>machine\<close> is the list of the agent versions with their status.
    \<open>sm_transition\<close> is a single transition of one version with the failure
    semantics of section 4.2; \<open>sm_approve_version\<close>, \<open>sm_ban_agent\<close> and
    \<open>sm_re_evaluate_approved_agents\<close> are the public operations. The policy
    that says where an approval moves a version is a parameter.
  \<^item> \<open>sm_step\<close> is the step relation of the machine, one rule per operation;
    \<open>moved\<close> relates a machine to a later one whose versions are the same and
    whose statuses have moved along \<open>move\<close>, the transition table extended
    by the edge from \<open>rejected\<close> to \<open>banned\<close> that \<open>sm_ban_agent\<close> takes.
\<close>

section \<open>Statuses and the transition table\<close>

datatype status = Awaiting_screening | Screening | Evaluating | Approved | Rejected | Banned

definition terminal :: "status \<Rightarrow> bool" where
  "terminal s \<longleftrightarrow> s = Rejected \<or> s = Banned"

inductive transition :: "status \<Rightarrow> status \<Rightarrow> bool" where
  picked_up: "transition Awaiting_screening Screening"
| screening_passes: "transition Screening Evaluating"
| screening_fails: "transition Screening Rejected"
| accepted: "transition Evaluating Approved"
| evaluation_fails: "transition Evaluating Rejected"
| re_evaluation: "transition Approved Awaiting_screening"
| banned: "\<not> terminal s \<Longrightarrow> transition s Banned"

inductive_cases transition_from_terminal: "transition Rejected t" "transition Banned t"

inductive_simps transition_to_Banned: "transition s Banned"

fun allowed :: "status \<Rightarrow> status \<Rightarrow> bool" where
  "allowed Awaiting_screening t \<longleftrightarrow> t = Screening \<or> t = Banned"
| "allowed Screening t \<longleftrightarrow> t = Evaluating \<or> t = Rejected \<or> t = Banned"
| "allowed Evaluating t \<longleftrightarrow> t = Approved \<or> t = Rejected \<or> t = Banned"
| "allowed Approved t \<longleftrightarrow> t = Awaiting_screening \<or> t = Banned"
| "allowed Rejected t \<longleftrightarrow> False"
| "allowed Banned t \<longleftrightarrow> False"

lemma transition_iff_allowed: "transition s t \<longleftrightarrow> allowed s t"
proof
  show "transition s t \<Longrightarrow> allowed s t"
  proof (induction rule: transition.induct)
    case (banned s)
    then show ?case by (cases s) (auto simp: terminal_def)
  qed auto
  show "allowed s t \<Longrightarrow> transition s t"
    by (cases s) (auto simp: terminal_def intro: transition.intros)
qed

lemma terminal_no_transition: "terminal s \<Longrightarrow> \<not> transition s t"
  by (auto simp: terminal_def elim: transition_from_terminal)

section \<open>Versions and the machine\<close>

record agent_version =
  av_version_id :: string
  av_miner_hotkey :: string
  av_status :: status
  av_created :: nat

type_synonym machine = "agent_version list"

datatype sm_error = NotFound | InvalidTransition

definition lookup_version :: "string \<Rightarrow> machine \<Rightarrow> agent_version option" where
  "lookup_version v vs = find (\<lambda>a. av_version_id a = v) vs"

definition set_status :: "(agent_version \<Rightarrow> bool) \<Rightarrow> status \<Rightarrow> machine \<Rightarrow> machine" where
  "set_status P s vs = map (\<lambda>a. if P a then a\<lparr>av_status := s\<rparr> else a) vs"

definition sm_transition :: "string \<Rightarrow> status \<Rightarrow> machine \<Rightarrow> (sm_error, machine) result" where
  "sm_transition v t vs =
     (case lookup_version v vs of
        None \<Rightarrow> Inl NotFound
      | Some a \<Rightarrow>
          if allowed (av_status a) t then Inr (set_status (\<lambda>a. av_version_id a = v) t vs)
          else Inl InvalidTransition)"

definition sm_approve_version ::
  "(status \<Rightarrow> status) \<Rightarrow> string \<Rightarrow> machine \<Rightarrow> (sm_error, machine) result" where
  "sm_approve_version policy v vs =
     (case lookup_version v vs of
        None \<Rightarrow> Inl InvalidTransition
      | Some a \<Rightarrow>
          if av_status a = Banned then Inl InvalidTransition
          else sm_transition v (policy (av_status a)) vs)"

definition sm_ban_agent :: "string \<Rightarrow> machine \<Rightarrow> (sm_error, machine) result" where
  "sm_ban_agent agent vs =
     (if agent \<in> set (map av_miner_hotkey vs)
      then Inr (set_status (\<lambda>a. av_miner_hotkey a = agent) Banned vs)
      else Inl NotFound)"

definition sm_re_evaluate_approved_agents :: "machine \<Rightarrow> agent_version list \<times> machine" where
  "sm_re_evaluate_approved_agents vs =
     (map (\<lambda>a. a\<lparr>av_status := Awaiting_screening\<rparr>) (filter (\<lambda>a. av_status a = Approved) vs),
      set_status (\<lambda>a. av_status a = Approved) Awaiting_screening vs)"

section \<open>The step relation\<close>

datatype sm_event =
    Transition string status
  | Approve_version string
  | Ban_agent string
  | Re_evaluate_approved_agents

inductive sm_step :: "(status \<Rightarrow> status) \<Rightarrow> machine \<Rightarrow> sm_event \<Rightarrow> machine \<Rightarrow> bool"
  for policy :: "status \<Rightarrow> status" where
  transition: "sm_transition v t vs = Inr vs' \<Longrightarrow> sm_step policy vs (Transition v t) vs'"
| approve: "sm_approve_version policy v vs = Inr vs' \<Longrightarrow> sm_step policy vs (Approve_version v) vs'"
| ban: "sm_ban_agent agent vs = Inr vs' \<Longrightarrow> sm_step policy vs (Ban_agent agent) vs'"
| re_evaluate:
    "sm_step policy vs Re_evaluate_approved_agents (snd (sm_re_evaluate_approved_agents vs))"

inductive_cases sm_step_cases:
  "sm_step policy vs (Transition v t) vs'"
  "sm_step policy vs (Approve_version v) vs'"
  "sm_step policy vs (Ban_agent agent) vs'"
  "sm_step policy vs Re_evaluate_approved_agents vs'"

section \<open>What a step may change\<close>

text \<open>
  \<open>move\<close> is the transition table together with the edge from \<open>rejected\<close> to
  \<open>banned\<close>: section 4.2 lets \<open>ban_agent\<close> force every version of the agent
  into \<open>banned\<close> "regardless of current state", whereas the table has a ban
  edge from the non-terminal states only.
\<close>

definition move :: "status \<Rightarrow> status \<Rightarrow> bool" where
  "move s t \<longleftrightarrow> transition s t \<or> (s = Rejected \<and> t = Banned)"

definition same_version :: "agent_version \<Rightarrow> agent_version \<Rightarrow> bool" where
  "same_version a a' \<longleftrightarrow>
     av_version_id a' = av_version_id a \<and> av_miner_hotkey a' = av_miner_hotkey a \<and>
     av_created a' = av_created a"

definition moved :: "machine \<Rightarrow> machine \<Rightarrow> bool" where
  "moved vs vs' \<longleftrightarrow>
     list_all2 (\<lambda>a a'. same_version a a' \<and> move\<^sup>*\<^sup>* (av_status a) (av_status a')) vs vs'"

lemma move_to_Banned: "move s Banned \<longleftrightarrow> s \<noteq> Banned"
  by (cases s) (auto simp: move_def transition_to_Banned terminal_def)

lemma not_move_Banned [simp]: "\<not> move Banned t"
  by (simp add: move_def transition_iff_allowed)

lemma moves_from_Banned: "move\<^sup>*\<^sup>* s t \<Longrightarrow> s = Banned \<Longrightarrow> t = Banned"
  by (induction rule: rtranclp_induct) auto

lemma moved_refl [simp]: "moved vs vs"
  by (simp add: moved_def same_version_def list_all2_same)

lemma moved_trans:
  assumes "moved vs vs'" and "moved vs' vs''"
  shows "moved vs vs''"
  using assms unfolding moved_def
  by (rule list_all2_trans [rotated]) (auto simp: same_version_def)

lemma moved_set_status:
  assumes "\<And>a. a \<in> set vs \<Longrightarrow> P a \<Longrightarrow> av_status a = s \<or> move (av_status a) s"
  shows "moved vs (set_status P s vs)"
  using assms
  by (induction vs) (auto simp: moved_def set_status_def same_version_def)

lemma lookup_version_Some:
  "lookup_version v vs = Some a \<Longrightarrow> a \<in> set vs \<and> av_version_id a = v"
  by (auto simp: lookup_version_def find_Some_iff)


section \<open>Well-formed machines\<close>

definition wf_machine :: "machine \<Rightarrow> bool" where
  "wf_machine vs \<longleftrightarrow> distinct (map av_version_id vs)"

lemma map_id_set_status [simp]: "map av_version_id (set_status P s vs) = map av_version_id vs"
  by (simp add: set_status_def comp_def if_distrib)

lemma map_owner_set_status [simp]:
  "map av_miner_hotkey (set_status P s vs) = map av_miner_hotkey vs"
  by (simp add: set_status_def comp_def if_distrib)

lemma wf_set_status [simp]: "wf_machine (set_status P s vs) = wf_machine vs"
  by (simp add: wf_machine_def)

lemma wf_lookup_unique:
  assumes "wf_machine vs" and "lookup_version v vs = Some a" and "b \<in> set vs"
    and "av_version_id b = v"
  shows "b = a"
  using assms lookup_version_Some [of v vs a]
  by (auto simp: wf_machine_def dest: inj_on_eq_iff [OF distinct_map [THEN iffD1, THEN conjunct2]])

section \<open>The operations move along the table\<close>

lemma sm_transition_moved:
  assumes "wf_machine vs" and "sm_transition v t vs = Inr vs'"
  shows "moved vs vs'"
proof -
  from assms(2) obtain a where a: "lookup_version v vs = Some a" "allowed (av_status a) t"
    and vs': "vs' = set_status (\<lambda>a. av_version_id a = v) t vs"
    by (auto simp: sm_transition_def split: option.splits if_splits)
  have "move (av_status b) t" if "b \<in> set vs" "av_version_id b = v" for b
    using wf_lookup_unique [OF assms(1) a(1) that] a(2)
    by (simp add: move_def transition_iff_allowed)
  then show ?thesis
    unfolding vs' by (intro moved_set_status) simp
qed

lemma sm_approve_version_moved:
  assumes "wf_machine vs" and "sm_approve_version policy v vs = Inr vs'"
  shows "moved vs vs'"
  using assms sm_transition_moved
  by (auto simp: sm_approve_version_def split: option.splits if_splits)

lemma sm_ban_agent_moved: "sm_ban_agent agent vs = Inr vs' \<Longrightarrow> moved vs vs'"
  by (auto simp: sm_ban_agent_def move_to_Banned intro!: moved_set_status split: if_splits)

lemma sm_re_evaluate_moved: "moved vs (snd (sm_re_evaluate_approved_agents vs))"
  by (auto simp: sm_re_evaluate_approved_agents_def move_def intro!: moved_set_status
      intro: transition.intros)

lemma sm_step_moved:
  assumes "sm_step policy vs e vs'" and "wf_machine vs"
  shows "moved vs vs' \<and> wf_machine vs'"
  using assms
proof (induction rule: sm_step.induct)
  case (transition v t vs vs')
  then show ?case
    by (auto simp: sm_transition_moved) (auto simp: sm_transition_def split: option.splits if_splits)
next
  case (approve v vs vs')
  then show ?case
    by (auto simp: sm_approve_version_moved)
      (auto simp: sm_approve_version_def sm_transition_def split: option.splits if_splits)
next
  case (ban agent vs vs')
  then show ?case
    by (auto simp: sm_ban_agent_moved) (auto simp: sm_ban_agent_def split: if_splits)
next
  case (re_evaluate vs)
  then show ?case
    using sm_re_evaluate_moved [of vs] by (simp add: sm_re_evaluate_approved_agents_def)
qed

section \<open>What the operations achieve\<close>

lemma moved_Banned_stays:
  "moved vs vs' \<Longrightarrow> list_all2 (\<lambda>a a'. av_status a = Banned \<longrightarrow> av_status a' = Banned) vs vs'"
  unfolding moved_def
  by (erule list_all2_mono) (auto dest: moves_from_Banned)

lemma sm_ban_agent_result:
  "sm_ban_agent agent vs =
     (if agent \<in> av_miner_hotkey ` set vs
      then Inr (map (\<lambda>a. if av_miner_hotkey a = agent then a\<lparr>av_status := Banned\<rparr> else a) vs)
      else Inl NotFound)"
  by (simp add: sm_ban_agent_def set_status_def)

lemma sm_ban_agent_bans_all:
  assumes "sm_ban_agent agent vs = Inr vs'"
  shows "list_all (\<lambda>a. av_status a = Banned) (filter (\<lambda>a. av_miner_hotkey a = agent) vs')"
    and "filter (\<lambda>a. av_miner_hotkey a \<noteq> agent) vs' = filter (\<lambda>a. av_miner_hotkey a \<noteq> agent) vs"
proof -
  from assms have vs': "vs' = set_status (\<lambda>a. av_miner_hotkey a = agent) Banned vs"
    by (simp add: sm_ban_agent_def split: if_splits)
  show "list_all (\<lambda>a. av_status a = Banned) (filter (\<lambda>a. av_miner_hotkey a = agent) vs')"
    unfolding vs' by (induction vs) (simp_all add: set_status_def)
  show "filter (\<lambda>a. av_miner_hotkey a \<noteq> agent) vs' = filter (\<lambda>a. av_miner_hotkey a \<noteq> agent) vs"
    unfolding vs' by (induction vs) (simp_all add: set_status_def)
qed

lemma approved_after_re_evaluate [simp]:
  "filter (\<lambda>a. av_status a = Approved) (snd (sm_re_evaluate_approved_agents vs)) = []"
  by (induction vs) (auto simp: sm_re_evaluate_approved_agents_def set_status_def)

lemma set_status_none: "filter P vs = [] \<Longrightarrow> set_status P s vs = vs"
  by (induction vs) (auto simp: set_status_def split: if_splits)

lemma sm_re_evaluate_idempotent:
  "sm_re_evaluate_approved_agents (snd (sm_re_evaluate_approved_agents vs)) =
     ([], snd (sm_re_evaluate_approved_agents vs))"
  using approved_after_re_evaluate [of vs]
  by (simp add: sm_re_evaluate_approved_agents_def [of "set_status _ _ _"]
      sm_re_evaluate_approved_agents_def [of vs, THEN arg_cong [of _ _ snd]] set_status_none)

lemma sm_re_evaluate_none:
  "fst (sm_re_evaluate_approved_agents vs) = [] \<longleftrightarrow> filter (\<lambda>a. av_status a = Approved) vs = []"
  by (simp add: sm_re_evaluate_approved_agents_def)

end
