(* ===== verification/ConsensusEngine.thy ===== *)
theory ConsensusEngine
  imports Complex_Main AgentStateMachine "HOL-Library.AList"
begin

text \<open>
  The consensus procedure that chooses the top agent, written from the
  specification (sections 3 and 4.4); its code is not under \<open>src/\<close>.

  The scoring store is the list of the scores in the order they were
  recorded. \<open>latest_scores\<close> is step 1 for one version (the latest score of
  each validator), \<open>qualifies\<close> the restriction to approved versions and
  step 2, \<open>aggregate\<close> the aggregate score (the mean, as in the examples of
  section 8), \<open>in_band\<close> step 4, and \<open>top_agent\<close> the whole algorithm with
  the tie-break of step 5. Scores are rational numbers.
\<close>

section \<open>Scores\<close>

record score_entry =
  se_version_id :: string
  se_validator :: string
  se_score :: rat

type_synonym score_store = "score_entry list"

record top_agent_record =
  ta_version_id :: string
  ta_miner_hotkey :: string

definition latest_scores :: "score_store \<Rightarrow> string \<Rightarrow> (string \<times> rat) list" where
  "latest_scores store v =
     AList.clearjunk (rev (map (\<lambda>e. (se_validator e, se_score e))
       (filter (\<lambda>e. se_version_id e = v) store)))"

definition aggregate :: "(string \<times> rat) list \<Rightarrow> rat" where
  "aggregate scores = sum_list (map snd scores) / of_nat (length scores)"

definition version_score :: "score_store \<Rightarrow> agent_version \<Rightarrow> rat" where
  "version_score store a = aggregate (latest_scores store (av_version_id a))"

section \<open>The algorithm\<close>

definition qualifies :: "score_store \<Rightarrow> agent_version \<Rightarrow> bool" where
  "qualifies store a \<longleftrightarrow>
     av_status a = Approved \<and> 2 \<le> length (latest_scores store (av_version_id a))"

fun maximum :: "rat list \<Rightarrow> rat" where
  "maximum [] = 0"
| "maximum [x] = x"
| "maximum (x # y # ys) = max x (maximum (y # ys))"

definition in_band :: "rat \<Rightarrow> rat \<Rightarrow> bool" where
  "in_band s_max s \<longleftrightarrow> s_max * 97 / 100 \<le> s"

definition candidates :: "machine \<Rightarrow> score_store \<Rightarrow> agent_version list" where
  "candidates vs store = filter (qualifies store) vs"

definition best_score :: "machine \<Rightarrow> score_store \<Rightarrow> rat" where
  "best_score vs store = maximum (map (version_score store) (candidates vs store))"

definition band :: "machine \<Rightarrow> score_store \<Rightarrow> agent_version list" where
  "band vs store =
     filter (\<lambda>a. in_band (best_score vs store) (version_score store a)) (candidates vs store)"

definition record_of :: "agent_version \<Rightarrow> top_agent_record" where
  "record_of a = \<lparr>ta_version_id = av_version_id a, ta_miner_hotkey = av_miner_hotkey a\<rparr>"

definition top_agent :: "machine \<Rightarrow> score_store \<Rightarrow> top_agent_record option" where
  "top_agent vs store = map_option record_of (oldest_by av_created (band vs store))"

section \<open>Properties of the parts\<close>

lemma distinct_latest_scores: "distinct (map fst (latest_scores store v))"
  by (simp add: latest_scores_def)

lemma latest_scores_validators:
  "fst ` set (latest_scores store v) = se_validator ` {e \<in> set store. se_version_id e = v}"
  by (simp add: latest_scores_def dom_clearjunk image_image)

lemma maximum_mem: "xs \<noteq> [] \<Longrightarrow> maximum xs \<in> set xs"
  by (induction xs rule: maximum.induct) (auto simp: max_def)

lemma maximum_ge: "x \<in> set xs \<Longrightarrow> x \<le> maximum xs"
  by (induction xs rule: maximum.induct) (auto simp: max_def)

section \<open>Properties of the choice\<close>

text \<open>
  The band of step 4 is relative to the maximum, which makes sense for
  scores that are not negative; \<open>wf_scores\<close> says so of a store.
\<close>

definition wf_scores :: "score_store \<Rightarrow> bool" where
  "wf_scores store \<longleftrightarrow> list_all (\<lambda>e. 0 \<le> se_score e) store"

lemma latest_scores_nonneg:
  assumes "wf_scores store" and "(k, s) \<in> set (latest_scores store v)"
  shows "0 \<le> s"
proof -
  from assms(2) have "map_of (latest_scores store v) k = Some s"
    by (simp add: distinct_latest_scores)
  then have "(k, s) \<in> set (rev (map (\<lambda>e. (se_validator e, se_score e))
       (filter (\<lambda>e. se_version_id e = v) store)))"
    unfolding latest_scores_def map_of_clearjunk by (rule map_of_SomeD)
  with assms(1) show ?thesis
    by (auto simp: wf_scores_def list_all_iff)
qed

lemma aggregate_nonneg: "wf_scores store \<Longrightarrow> 0 \<le> version_score store a"
  unfolding version_score_def aggregate_def
  by (intro divide_nonneg_nonneg sum_list_nonneg) (auto dest: latest_scores_nonneg)

lemma in_band_maximum: "0 \<le> s \<Longrightarrow> in_band s s"
  by (simp add: in_band_def)

text \<open>
  The engine answers \<open>None\<close> exactly when no version survives step 2.
\<close>

lemma band_nonempty:
  assumes "wf_scores store" and "candidates vs store \<noteq> []"
  shows "band vs store \<noteq> []"
proof -
  from assms(2) have "best_score vs store \<in> set (map (version_score store) (candidates vs store))"
    unfolding best_score_def by (intro maximum_mem) simp
  then obtain a where "a \<in> set (candidates vs store)" "version_score store a = best_score vs store"
    by auto
  with aggregate_nonneg [OF assms(1), of a] have "a \<in> set (band vs store)"
    by (simp add: band_def in_band_maximum)
  then show ?thesis by auto
qed

lemma top_agent_None:
  assumes "wf_scores store"
  shows "top_agent vs store = None \<longleftrightarrow> candidates vs store = []"
  using band_nonempty [OF assms, of vs] by (auto simp: top_agent_def band_def)

text \<open>
  Whatever the store holds, a chosen version is approved, has the latest
  scores of at least two distinct validators, lies within the band below the
  best aggregate score, which no qualifying version exceeds, and no version
  of the band is older.
\<close>

lemma candidates_iff:
  "a \<in> set (candidates vs store) \<longleftrightarrow>
     a \<in> set vs \<and> av_status a = Approved \<and>
     2 \<le> card (se_validator ` {e \<in> set store. se_version_id e = av_version_id a})"
  using distinct_card [OF distinct_latest_scores, of store "av_version_id a"]
  by (auto simp: candidates_def qualifies_def latest_scores_validators)

lemma best_score_ge: "b \<in> set (candidates vs store) \<Longrightarrow> version_score store b \<le> best_score vs store"
  unfolding best_score_def by (intro maximum_ge) simp

lemma top_agent_Some:
  assumes "top_agent vs store = Some ta"
  obtains a where "ta = record_of a" and "a \<in> set (candidates vs store)"
    and "in_band (best_score vs store) (version_score store a)"
    and "\<And>b. b \<in> set (band vs store) \<Longrightarrow> av_created a \<le> av_created b"
proof -
  from assms obtain a where a: "oldest_by av_created (band vs store) = Some a" "ta = record_of a"
    by (auto simp: top_agent_def)
  from oldest_by_mem [OF a(1)] have "a \<in> set (candidates vs store)"
    "in_band (best_score vs store) (version_score store a)"
    by (simp_all add: band_def)
  with a oldest_by_le [OF a(1)] that show thesis
    by blast
qed

section \<open>The examples of the specification\<close>

definition example_machine :: "nat \<Rightarrow> nat \<Rightarrow> machine" where
  "example_machine t t' =
     [\<lparr>av_version_id = ''v1'', av_miner_hotkey = ''miner-1'', av_status = Approved, av_created = t\<rparr>,
      \<lparr>av_version_id = ''v2'', av_miner_hotkey = ''miner-2'', av_status = Approved, av_created = t'\<rparr>]"

definition scored :: "string \<Rightarrow> string \<Rightarrow> rat \<Rightarrow> score_entry" where
  "scored v k s = \<lparr>se_version_id = v, se_validator = k, se_score = s\<rparr>"

lemmas consensus_defs =
  top_agent_def band_def best_score_def candidates_def qualifies_def version_score_def
  latest_scores_def aggregate_def in_band_def record_of_def scored_def example_machine_def

lemma example_two_validator_rule:
  "top_agent (example_machine t t')
     [scored ''v1'' ''a'' (90 / 100), scored ''v1'' ''b'' (92 / 100), scored ''v2'' ''a'' (95 / 100)] =
   Some \<lparr>ta_version_id = ''v1'', ta_miner_hotkey = ''miner-1''\<rparr>"
  by (simp add: consensus_defs)

lemma example_oldest_in_band:
  assumes "t < t'"
  shows "top_agent (example_machine t t')
     [scored ''v1'' ''a'' (95 / 100), scored ''v1'' ''b'' (95 / 100),
      scored ''v2'' ''a'' (97 / 100), scored ''v2'' ''b'' (96 / 100)] =
   Some \<lparr>ta_version_id = ''v1'', ta_miner_hotkey = ''miner-1''\<rparr>"
  using assms by (simp add: consensus_defs)

end
