(* ===== verification/Persistence.thy ===== *)
theory Persistence
  imports AgentStateMachine
begin

text \<open>
  The part of the persistence layer the dispatch handler relies on, written
  from the specification (sections 3, 4.3 and 6); its code is not under
  \<open>src/\<close>.

  An evaluation refers to one agent version and is pending, assigned or
  complete. \<open>list_pending_evaluation\<close> is the query of section 6 with its
  atomic assignment: it selects the oldest pending evaluation that is not
  assigned to the validator, marks it assigned to the validator and returns
  it; \<open>None\<close> when there is none. \<open>get_agent_version\<close> resolves a version id.
\<close>

section \<open>Evaluations\<close>

datatype completion = Pending | Assigned | Complete

record eval_item =
  ei_evaluation_id :: string
  ei_version_id :: string
  ei_completion :: completion
  ei_assigned_to :: "string option"
  ei_created :: nat

type_synonym eval_store = "eval_item list"

definition assignable :: "string \<Rightarrow> eval_item \<Rightarrow> bool" where
  "assignable hotkey e \<longleftrightarrow> ei_completion e = Pending \<and> ei_assigned_to e \<noteq> Some hotkey"

definition assign :: "string \<Rightarrow> string \<Rightarrow> eval_store \<Rightarrow> eval_store" where
  "assign hotkey evaluation es =
     map (\<lambda>e. if ei_evaluation_id e = evaluation
               then e\<lparr>ei_completion := Assigned, ei_assigned_to := Some hotkey\<rparr> else e) es"

definition list_pending_evaluation :: "string \<Rightarrow> eval_store \<Rightarrow> eval_item option \<times> eval_store" where
  "list_pending_evaluation hotkey es =
     (case oldest_by ei_created (filter (assignable hotkey) es) of
        None \<Rightarrow> (None, es)
      | Some e \<Rightarrow>
          (Some (e\<lparr>ei_completion := Assigned, ei_assigned_to := Some hotkey\<rparr>),
           assign hotkey (ei_evaluation_id e) es))"

definition get_agent_version :: "string \<Rightarrow> machine \<Rightarrow> agent_version option" where
  "get_agent_version v vs = lookup_version v vs"

section \<open>Assignment is exclusive\<close>

definition wf_evaluations :: "eval_store \<Rightarrow> bool" where
  "wf_evaluations es \<longleftrightarrow> distinct (map ei_evaluation_id es)"

lemma ids_assign [simp]: "map ei_evaluation_id (assign hotkey ev es) = map ei_evaluation_id es"
  by (induction es) (simp_all add: assign_def)

lemma wf_assign [simp]: "wf_evaluations (assign hotkey ev es) = wf_evaluations es"
  by (simp add: wf_evaluations_def)

lemma list_pending_None:
  "fst (list_pending_evaluation hotkey es) = None \<longleftrightarrow> filter (assignable hotkey) es = []"
  using oldest_by_None [of ei_created "filter (assignable hotkey) es"]
  by (cases "oldest_by ei_created (filter (assignable hotkey) es)")
    (simp_all add: list_pending_evaluation_def)

lemma list_pending_Some:
  assumes "list_pending_evaluation hotkey es = (Some e', es')"
  obtains e where "e \<in> set es" and "assignable hotkey e"
    and "e' = e\<lparr>ei_completion := Assigned, ei_assigned_to := Some hotkey\<rparr>"
    and "es' = assign hotkey (ei_evaluation_id e) es"
    and "\<And>d. d \<in> set es \<Longrightarrow> assignable hotkey d \<Longrightarrow> ei_created e \<le> ei_created d"
proof -
  from assms obtain e where e: "oldest_by ei_created (filter (assignable hotkey) es) = Some e"
    and res: "e' = e\<lparr>ei_completion := Assigned, ei_assigned_to := Some hotkey\<rparr>"
      "es' = assign hotkey (ei_evaluation_id e) es"
    by (cases "oldest_by ei_created (filter (assignable hotkey) es)")
      (simp_all add: list_pending_evaluation_def)
  from oldest_by_mem [OF e] have mem: "e \<in> set es" "assignable hotkey e"
    by simp_all
  have "ei_created e \<le> ei_created d" if "d \<in> set es" "assignable hotkey d" for d
    using oldest_by_le [OF e, of d] that by simp
  with mem res show thesis
    by (rule that)
qed

text \<open>
  Once an evaluation has been handed out it is assigned, so no later query
  of any validator selects it again.
\<close>

lemma not_assignable_after_assign:
  assumes "d \<in> set (assign hotkey ev es)" and "ei_evaluation_id d = ev"
  shows "\<not> assignable hotkey' d"
proof -
  from assms(1) obtain e where
    "d = (if ei_evaluation_id e = ev
          then e\<lparr>ei_completion := Assigned, ei_assigned_to := Some hotkey\<rparr> else e)"
    unfolding assign_def set_map by (rule imageE)
  with assms(2) have "ei_completion d = Assigned"
    by (cases "ei_evaluation_id e = ev") simp_all
  then show ?thesis
    by (simp add: assignable_def)
qed

lemma list_pending_exclusive:
  assumes "list_pending_evaluation hotkey es = (Some e, es')"
    and "list_pending_evaluation hotkey' es' = (Some e', es'')"
  shows "ei_evaluation_id e' \<noteq> ei_evaluation_id e"
proof -
  from assms(1) obtain d where d: "e = d\<lparr>ei_completion := Assigned, ei_assigned_to := Some hotkey\<rparr>"
    "es' = assign hotkey (ei_evaluation_id d) es"
    by (rule list_pending_Some)
  from assms(2) obtain d' where d': "d' \<in> set es'" "assignable hotkey' d'"
    "e' = d'\<lparr>ei_completion := Assigned, ei_assigned_to := Some hotkey'\<rparr>"
    by (rule list_pending_Some)
  have "ei_evaluation_id d' \<noteq> ei_evaluation_id d"
    using not_assignable_after_assign [of d' hotkey "ei_evaluation_id d" es hotkey']
      d(2) d'(1,2) by blast
  then show ?thesis
    by (simp add: d(1) d'(3))
qed

lemma list_pending_single:
  assumes "filter (\<lambda>e. ei_completion e = Pending) es = [e]" and "ei_assigned_to e = None"
  shows "list_pending_evaluation hotkey es =
     (Some (e\<lparr>ei_completion := Assigned, ei_assigned_to := Some hotkey\<rparr>),
      assign hotkey (ei_evaluation_id e) es)"
proof -
  have "filter (assignable hotkey) es = filter (assignable hotkey) (filter (\<lambda>e. ei_completion e = Pending) es)"
    by (induction es) (auto simp: assignable_def)
  moreover from assms(1) have "ei_completion e = Pending"
    by (auto dest: filter_eq_ConsD)
  ultimately have "filter (assignable hotkey) es = [e]"
    using assms by (simp add: assignable_def)
  then show ?thesis
    by (simp add: list_pending_evaluation_def)
qed

end
