(* ===== verification/Platform.thy ===== *)
theory Platform
  imports Dispatch Scoring ConnectionRegistry ConsensusEngine Persistence
begin

text \<open>
  The platform API as a whole: the handlers of \<open>Dispatch\<close> and \<open>Scoring\<close>
  (code under \<open>src/\<close>) run on the components the specification describes
  (\<open>AgentStateMachine\<close>, \<open>ConnectionRegistry\<close>, \<open>ConsensusEngine\<close>,
  \<open>Persistence\<close>).

  \<open>platform\<close> is the state of these components. \<open>platform_scoring_ops\<close> and
  \<open>platform_dispatch_ops\<close> are the collaborators of the handlers, implemented
  by the components' operations on that state: the consensus query is
  \<open>top_agent\<close>, the broadcast is \<open>broadcast\<close>, the ban, the approval and the
  re-evaluation are the operations of the state machine, the next evaluation
  is \<open>list_pending_evaluation\<close>, a websocket is the channel registered for the
  validator's hotkey. An error of a component reaches a handler as an
  exception whose text is the error's name.

  \<open>admin_run\<close> is the relation between a world and the worlds that
  administrative requests, served one after the other, lead to.
\<close>

section \<open>The state and the collaborators\<close>

record platform =
  pf_versions :: machine
  pf_registry :: registry
  pf_scores :: score_store
  pf_evaluations :: eval_store

definition status_name :: "status \<Rightarrow> string" where
  "status_name s =
     (case s of
        Awaiting_screening \<Rightarrow> ''awaiting_screening'' | Screening \<Rightarrow> ''screening''
      | Evaluating \<Rightarrow> ''evaluating'' | Approved \<Rightarrow> ''approved''
      | Rejected \<Rightarrow> ''rejected'' | Banned \<Rightarrow> ''banned'')"

definition agent_version_json :: "agent_version \<Rightarrow> json" where
  "agent_version_json a =
     JDict [(''version_id'', JStr (av_version_id a)), (''miner_hotkey'', JStr (av_miner_hotkey a)),
            (''status'', JStr (status_name (av_status a))), (''created_at'', JInt (int (av_created a)))]"

definition top_agent_json :: "top_agent_record \<Rightarrow> json" where
  "top_agent_json ta =
     JDict [(''miner_hotkey'', JStr (ta_miner_hotkey ta)), (''version_id'', JStr (ta_version_id ta))]"

definition event_frame :: "string \<Rightarrow> json \<Rightarrow> string" where
  "event_frame event payload =
     dumps (JDict ((''event'', JStr event) # (case payload of JDict kvs \<Rightarrow> kvs | _ \<Rightarrow> [])))"

definition exn_of_sm_error :: "sm_error \<Rightarrow> exn" where
  "exn_of_sm_error e =
     (case e of NotFound \<Rightarrow> OtherError ''NotFound''
              | InvalidTransition \<Rightarrow> OtherError ''InvalidTransition'')"

definition lift_sm ::
  "(machine \<Rightarrow> (sm_error, machine) result) \<Rightarrow> (platform, unit) extcall" where
  "lift_sm f p =
     (case f (pf_versions p) of
        Inl e \<Rightarrow> (Inl (exn_of_sm_error e), p)
      | Inr vs \<Rightarrow> (Inr (), p\<lparr>pf_versions := vs\<rparr>))"

definition platform_scoring_ops ::
  "(status \<Rightarrow> status) \<Rightarrow> (platform, top_agent_record, agent_version) scoring_ops" where
  "platform_scoring_ops policy =
     \<lparr>get_top_agent = (\<lambda>p. (Inr (top_agent (pf_versions p) (pf_scores p)), p)),
      top_agent_dump = top_agent_json,
      top_agent_miner_hotkey = ta_miner_hotkey,
      send_to_all_validators = (\<lambda>event payload p.
        (Inr (), p\<lparr>pf_registry := broadcast (event_frame event payload) (pf_registry p)\<rparr>)),
      sleep = (\<lambda>seconds p. (Inr (), p)),
      db_ban_agent = (\<lambda>agent. lift_sm (sm_ban_agent agent)),
      approve_agent_version = (\<lambda>v. lift_sm (sm_approve_version policy v)),
      re_evaluate_approved_agents = (\<lambda>p.
        (Inr (fst (sm_re_evaluate_approved_agents (pf_versions p))),
         p\<lparr>pf_versions := snd (sm_re_evaluate_approved_agents (pf_versions p))\<rparr>)),
      agent_dump = agent_version_json\<rparr>"

definition platform_dispatch_ops :: "(platform, string, agent_version) dispatch_ops" where
  "platform_dispatch_ops =
     \<lparr>get_next_evaluation_for_validator = (\<lambda>hotkey p.
        (Inr (map_option (\<lambda>e. \<lparr>evaluation_id = ei_evaluation_id e, version_id = ei_version_id e\<rparr>)
                (fst (list_pending_evaluation hotkey (pf_evaluations p)))),
         p\<lparr>pf_evaluations := snd (list_pending_evaluation hotkey (pf_evaluations p))\<rparr>)),
      get_agent_by_version_id = (\<lambda>v p. (Inr (get_agent_version v (pf_versions p)), p)),
      model_dump = agent_version_json,
      send_text = (\<lambda>hotkey frame p.
        case send_to hotkey frame (pf_registry p) of
          Inl e \<Rightarrow> (Inl (OtherError ''NotConnected''), p)
        | Inr r \<Rightarrow> (Inr (), p\<lparr>pf_registry := r\<rparr>))\<rparr>"

lemma platform_scoring_ops_sel [simp]:
  "get_top_agent (platform_scoring_ops policy) p =
     (Inr (top_agent (pf_versions p) (pf_scores p)), p)"
  "top_agent_dump (platform_scoring_ops policy) = top_agent_json"
  "top_agent_miner_hotkey (platform_scoring_ops policy) = ta_miner_hotkey"
  "send_to_all_validators (platform_scoring_ops policy) event payload p =
     (Inr (), p\<lparr>pf_registry := broadcast (event_frame event payload) (pf_registry p)\<rparr>)"
  "sleep (platform_scoring_ops policy) seconds p = (Inr (), p)"
  "db_ban_agent (platform_scoring_ops policy) agent = lift_sm (sm_ban_agent agent)"
  "approve_agent_version (platform_scoring_ops policy) v = lift_sm (sm_approve_version policy v)"
  "re_evaluate_approved_agents (platform_scoring_ops policy) p =
     (Inr (fst (sm_re_evaluate_approved_agents (pf_versions p))),
      p\<lparr>pf_versions := snd (sm_re_evaluate_approved_agents (pf_versions p))\<rparr>)"
  "agent_dump (platform_scoring_ops policy) = agent_version_json"
  by (simp_all add: platform_scoring_ops_def)

lemma platform_dispatch_ops_sel [simp]:
  "get_next_evaluation_for_validator platform_dispatch_ops hotkey p =
     (Inr (map_option (\<lambda>e. \<lparr>evaluation_id = ei_evaluation_id e, version_id = ei_version_id e\<rparr>)
             (fst (list_pending_evaluation hotkey (pf_evaluations p)))),
      p\<lparr>pf_evaluations := snd (list_pending_evaluation hotkey (pf_evaluations p))\<rparr>)"
  "get_agent_by_version_id platform_dispatch_ops v p = (Inr (get_agent_version v (pf_versions p)), p)"
  "model_dump platform_dispatch_ops = agent_version_json"
  "send_text platform_dispatch_ops hotkey frame p =
     (case send_to hotkey frame (pf_registry p) of
        Inl e \<Rightarrow> (Inl (OtherError ''NotConnected''), p)
      | Inr r \<Rightarrow> (Inr (), p\<lparr>pf_registry := r\<rparr>))"
  by (simp_all add: platform_dispatch_ops_def)

section \<open>An example platform\<close>

text \<open>
  For the closed instances: the two approved versions and the scores of the
  first consensus example of the specification, three registered
  validators of which the second has a closed channel, and one pending
  evaluation.
\<close>

definition example_registry :: registry where
  "example_registry =
     \<lparr>live = [(''val-a'', \<lparr>ch_open = True, ch_queue = []\<rparr>),
              (''val-b'', \<lparr>ch_open = False, ch_queue = []\<rparr>),
              (''val-c'', \<lparr>ch_open = True, ch_queue = []\<rparr>)],
      closed_channels = [], delivery_failures = []\<rparr>"

definition example_platform :: platform where
  "example_platform =
     \<lparr>pf_versions = example_machine 1 2,
      pf_registry = example_registry,
      pf_scores = [scored ''v1'' ''val-a'' (90 / 100), scored ''v1'' ''val-c'' (92 / 100),
                   scored ''v2'' ''val-a'' (95 / 100)],
      pf_evaluations = [\<lparr>ei_evaluation_id = ''e7'', ei_version_id = ''v1'', ei_completion = Pending,
                          ei_assigned_to = None, ei_created = 5\<rparr>]\<rparr>"

definition example_world :: "platform world" where
  "example_world =
     init_world [''BAN_PASSWORD'' \<mapsto> ''b4n'', ''APPROVAL_PASSWORD'' \<mapsto> ''appr0ve''] example_platform"

lemma example_world_sel [simp]:
  "environ example_world ''BAN_PASSWORD'' = Some ''b4n''"
  "environ example_world ''APPROVAL_PASSWORD'' = Some ''appr0ve''"
  "logs example_world = []" "stdout example_world = []" "ext example_world = example_platform"
  by (simp_all add: example_world_def)

lemma example_platform_sel [simp]:
  "pf_versions example_platform = example_machine 1 2"
  "pf_registry example_platform = example_registry"
  "pf_evaluations example_platform =
     [\<lparr>ei_evaluation_id = ''e7'', ei_version_id = ''v1'', ei_completion = Pending,
       ei_assigned_to = None, ei_created = 5\<rparr>]"
  by (simp_all add: example_platform_def)

section \<open>Banning an agent\<close>





section \<open>Re-evaluating the approved agents\<close>

definition re_eval_reply :: "agent_version list \<Rightarrow> pydict" where
  "re_eval_reply agents =
     (if agents = []
      then [(''message'', JStr ''No approved agents found for re-evaluation''), (''agents'', JList [])]
      else [(''message'', JStr (re_eval_message (length agents))),
            (''agents'', JList (map agent_version_json agents))])"

definition re_eval_log :: "agent_version list \<Rightarrow> (log_level \<times> string) list" where
  "re_eval_log agents =
     [(INFO, ''Starting re-evaluation of approved agents''),
      (INFO, if agents = [] then ''No approved agents found for re-evaluation''
             else re_eval_message (length agents))]"

lemma platform_re_eval:
  assumes "environ w ''APPROVAL_PASSWORD'' = Some pw"
  shows "re_eval_approved (platform_scoring_ops policy) pw w =
     (Inr (re_eval_reply (fst (sm_re_evaluate_approved_agents (pf_versions (ext w))))),
      w\<lparr>ext := (ext w)\<lparr>pf_versions := snd (sm_re_evaluate_approved_agents (pf_versions (ext w)))\<rparr>,
        logs := logs w @ re_eval_log (fst (sm_re_evaluate_approved_agents (pf_versions (ext w))))\<rparr>)"
  using assms by (simp add: re_eval_approved_def prog_simps re_eval_reply_def re_eval_log_def)

text \<open>
  Claim C36. The re-evaluation endpoint on the state machine of the
  specification is idempotent: with the right password the first request
  moves exactly the approved versions back to \<open>awaiting_screening\<close> and
  answers with their dumps; a second request straight after it answers "No
  approved agents found for re-evaluation" with an empty list and changes
  nothing of the platform.
\<close>

theorem platform_re_eval_twice:
  assumes "environ w ''APPROVAL_PASSWORD'' = Some pw"
  shows "(case re_eval_approved (platform_scoring_ops policy) pw w of (r, wa) \<Rightarrow>
     r = Inr (re_eval_reply (map (\<lambda>a. a\<lparr>av_status := Awaiting_screening\<rparr>)
               (filter (\<lambda>a. av_status a = Approved) (pf_versions (ext w)))))
     \<and> pf_versions (ext wa) =
         map (\<lambda>a. if av_status a = Approved then a\<lparr>av_status := Awaiting_screening\<rparr> else a)
           (pf_versions (ext w))
     \<and> fst (re_eval_approved (platform_scoring_ops policy) pw wa) = Inr (re_eval_reply [])
     \<and> ext (snd (re_eval_approved (platform_scoring_ops policy) pw wa)) = ext wa)"
proof -
  define wa where "wa = snd (re_eval_approved (platform_scoring_ops policy) pw w)"
  have env: "environ wa ''APPROVAL_PASSWORD'' = Some pw"
    using assms by (simp add: wa_def platform_re_eval [OF assms])
  have vs: "pf_versions (ext wa) = snd (sm_re_evaluate_approved_agents (pf_versions (ext w)))"
    by (simp add: wa_def platform_re_eval [OF assms])
  have "re_eval_approved (platform_scoring_ops policy) pw wa =
      (Inr (re_eval_reply []), wa\<lparr>logs := logs wa @ re_eval_log []\<rparr>)"
    by (simp add: platform_re_eval [OF env] vs sm_re_evaluate_idempotent)
  then show ?thesis
    by (simp add: platform_re_eval [OF assms] wa_def [symmetric])
      (simp add: wa_def platform_re_eval [OF assms] sm_re_evaluate_approved_agents_def
        set_status_def)
qed

theorem platform_re_eval_witness:
  "fst (re_eval_approved (platform_scoring_ops (\<lambda>s. Approved)) ''appr0ve'' example_world) =
     Inr [(''message'', JStr ''Successfully initiated re-evaluation for 2 approved agents''),
          (''agents'', JList
             [agent_version_json \<lparr>av_version_id = ''v1'', av_miner_hotkey = ''miner-1'',
                av_status = Awaiting_screening, av_created = 1\<rparr>,
              agent_version_json \<lparr>av_version_id = ''v2'', av_miner_hotkey = ''miner-2'',
                av_status = Awaiting_screening, av_created = 2\<rparr>])]
   \<and> fst (re_eval_approved (platform_scoring_ops (\<lambda>s. Approved)) ''appr0ve''
        (snd (re_eval_approved (platform_scoring_ops (\<lambda>s. Approved)) ''appr0ve'' example_world))) =
     Inr [(''message'', JStr ''No approved agents found for re-evaluation''), (''agents'', JList [])]"
  using platform_re_eval_twice [of example_world "''appr0ve''" "\<lambda>s. Approved"]
  by (simp add: example_machine_def re_eval_reply_def re_eval_message_def str_nat.simps
      digit_char_def split: prod.splits)

section \<open>The weight broadcast\<close>

lemma platform_tell_validators:
  "tell_validators_to_set_weights (platform_scoring_ops policy) w =
     (Inr (),
      case top_agent (pf_versions (ext w)) (pf_scores (ext w)) of
        None \<Rightarrow> w\<lparr>logs := logs w @ [(INFO, ''No top agent found, skipping weight update'')]\<rparr>
      | Some ta \<Rightarrow>
          w\<lparr>ext := (ext w)\<lparr>pf_registry :=
               broadcast (event_frame ''set-weights'' (top_agent_json ta)) (pf_registry (ext w))\<rparr>,
            logs := logs w @
              [(INFO, ''Sent updated top agent to all validators: '' @ ta_miner_hotkey ta)]\<rparr>)"
  by (simp add: tell_validators_to_set_weights_def weight_receiving_agent_def prog_simps
      split: option.splits)





text \<open>
  The example of the specification: of three registered validators one has
  a closed channel; the two others receive the frame and exactly one failed
  delivery is recorded, for the version the two-validator rule leaves.
\<close>

lemma platform_broadcast_example:
  "pf_registry (ext (snd (tell_validators_to_set_weights (platform_scoring_ops policy) example_world))) =
     \<lparr>live = [(''val-a'', \<lparr>ch_open = True, ch_queue =
                 [''{\"event\": \"set-weights\", \"miner_hotkey\": \"miner-1\", \"version_id\": \"v1\"}'']\<rparr>),
              (''val-b'', \<lparr>ch_open = False, ch_queue = []\<rparr>),
              (''val-c'', \<lparr>ch_open = True, ch_queue =
                 [''{\"event\": \"set-weights\", \"miner_hotkey\": \"miner-1\", \"version_id\": \"v1\"}'']\<rparr>)],
      closed_channels = [], delivery_failures = [''val-b'']\<rparr>"
proof -
  have "top_agent (pf_versions example_platform) (pf_scores example_platform) =
      Some \<lparr>ta_version_id = ''v1'', ta_miner_hotkey = ''miner-1''\<rparr>"
    by (simp add: example_platform_def consensus_defs)
  then show ?thesis
    by (simp add: platform_tell_validators example_registry_def broadcast_def after_delivery_def
        deliver_def event_frame_def top_agent_json_def json_string_def json_escape_char_def)
qed

section \<open>Handing out evaluations\<close>

definition reply_evaluation_id :: "(exn, pydict) result \<Rightarrow> string option" where
  "reply_evaluation_id r =
     (case r of
        Inl e \<Rightarrow> None
      | Inr m \<Rightarrow> (case map_of m ''evaluation_id'' of Some (JStr i) \<Rightarrow> Some i | _ \<Rightarrow> None))"

lemma reply_evaluation_id_simps [simp]:
  "reply_evaluation_id (Inl e) = None"
  "reply_evaluation_id (Inr error_reply) = None"
  "reply_evaluation_id (Inr (evaluation_message ops ev ag)) = Some (evaluation_id ev)"
  by (simp_all add: reply_evaluation_id_def error_reply_def)

text \<open>
  What the handler does on the platform, by the answer of the query: the
  query's assignment is kept whatever happens next, and a reply carries the
  id of the evaluation the query handed out.
\<close>

lemma platform_dispatch_evaluations:
  "pf_evaluations (ext (snd (handle_get_next_evaluation platform_dispatch_ops ws hk rj w))) =
     snd (list_pending_evaluation hk (pf_evaluations (ext w)))"
proof (cases "fst (list_pending_evaluation hk (pf_evaluations (ext w)))")
  case None
  then have "get_next_evaluation_for_validator platform_dispatch_ops hk (ext w) =
      (Inr None, (ext w)\<lparr>pf_evaluations := snd (list_pending_evaluation hk (pf_evaluations (ext w)))\<rparr>)"
    by simp
  then show ?thesis
    by (simp add: handle_caught [OF get_next_evaluation_body_None])
next
  case (Some e)
  let ?ev = "\<lparr>evaluation_id = ei_evaluation_id e, version_id = ei_version_id e\<rparr>"
  let ?p = "(ext w)\<lparr>pf_evaluations := snd (list_pending_evaluation hk (pf_evaluations (ext w)))\<rparr>"
  let ?ag = "get_agent_version (ei_version_id e) (pf_versions (ext w))"
  obtain r b where snd: "send_text platform_dispatch_ops ws
      (dumps (JDict (evaluation_message platform_dispatch_ops ?ev ?ag))) ?p = (r, b)"
    by (cases "send_text platform_dispatch_ops ws
      (dumps (JDict (evaluation_message platform_dispatch_ops ?ev ?ag))) ?p")
  then have b: "pf_evaluations b = pf_evaluations ?p"
    by (auto split: sum.splits)
  have body: "get_next_evaluation_body platform_dispatch_ops ws hk w =
     (case r of
        Inl e \<Rightarrow> (Inl e, w\<lparr>ext := b, logs := logs w @ found_log hk ?ev\<rparr>)
      | Inr _ \<Rightarrow> (Inr (evaluation_message platform_dispatch_ops ?ev ?ag),
          w\<lparr>ext := b, logs := logs w @ found_log hk ?ev @
            [(DEBUG, ''Successfully sent requested evaluation '' @ evaluation_id ?ev
                     @ '' to validator with hotkey '' @ hk @ ''.'')]\<rparr>))"
    using Some snd
    by (intro get_next_evaluation_body_Some [where ba = ?p and bb = ?p]) simp_all
  show ?thesis
  proof (cases r)
    case (Inl x)
    with snd have "is_Exception x"
      by (auto split: sum.splits)
    with body Inl b show ?thesis
      by (simp add: handle_caught [where w' = "w\<lparr>ext := b, logs := logs w @ found_log hk ?ev\<rparr>"])
  next
    case (Inr u)
    with body b show ?thesis
      by (simp add: handle_returned)
  qed
qed

lemma platform_dispatch_reply_id:
  assumes "reply_evaluation_id (fst (handle_get_next_evaluation platform_dispatch_ops ws hk rj w)) =
     Some i"
  shows "\<exists>e. fst (list_pending_evaluation hk (pf_evaluations (ext w))) = Some e \<and>
     ei_evaluation_id e = i"
proof (cases "fst (list_pending_evaluation hk (pf_evaluations (ext w)))")
  case None
  then have "get_next_evaluation_for_validator platform_dispatch_ops hk (ext w) =
      (Inr None, (ext w)\<lparr>pf_evaluations := snd (list_pending_evaluation hk (pf_evaluations (ext w)))\<rparr>)"
    by simp
  with assms show ?thesis
    by (simp add: handle_caught [OF get_next_evaluation_body_None])
next
  case (Some e)
  let ?ev = "\<lparr>evaluation_id = ei_evaluation_id e, version_id = ei_version_id e\<rparr>"
  let ?p = "(ext w)\<lparr>pf_evaluations := snd (list_pending_evaluation hk (pf_evaluations (ext w)))\<rparr>"
  let ?ag = "get_agent_version (ei_version_id e) (pf_versions (ext w))"
  obtain r b where snd: "send_text platform_dispatch_ops ws
      (dumps (JDict (evaluation_message platform_dispatch_ops ?ev ?ag))) ?p = (r, b)"
    by (cases "send_text platform_dispatch_ops ws
      (dumps (JDict (evaluation_message platform_dispatch_ops ?ev ?ag))) ?p")
  have body: "get_next_evaluation_body platform_dispatch_ops ws hk w =
     (case r of
        Inl e \<Rightarrow> (Inl e, w\<lparr>ext := b, logs := logs w @ found_log hk ?ev\<rparr>)
      | Inr _ \<Rightarrow> (Inr (evaluation_message platform_dispatch_ops ?ev ?ag),
          w\<lparr>ext := b, logs := logs w @ found_log hk ?ev @
            [(DEBUG, ''Successfully sent requested evaluation '' @ evaluation_id ?ev
                     @ '' to validator with hotkey '' @ hk @ ''.'')]\<rparr>))"
    using Some snd
    by (intro get_next_evaluation_body_Some [where ba = ?p and bb = ?p]) simp_all
  show ?thesis
  proof (cases r)
    case (Inl x)
    with snd have "is_Exception x"
      by (auto split: sum.splits)
    with body Inl assms show ?thesis
      by (simp add: handle_caught [where w' = "w\<lparr>ext := b, logs := logs w @ found_log hk ?ev\<rparr>"])
  next
    case (Inr u)
    with body assms Some show ?thesis
      by (simp add: handle_returned)
  qed
qed

text \<open>
  Claim C33. Two requests for the next evaluation, served one after the
  other by the handler on the persistence layer of the specification, never
  hand out the same evaluation: whoever the two validators are and whatever
  becomes of the first send, if the first reply carries an evaluation id the
  second reply does not carry that id.
\<close>

theorem platform_dispatch_exclusive:
  "(case handle_get_next_evaluation platform_dispatch_ops ws hk rj w of (r, wa) \<Rightarrow>
      reply_evaluation_id r = None \<or>
      reply_evaluation_id (fst (handle_get_next_evaluation platform_dispatch_ops ws' hk' rj' wa))
        \<noteq> reply_evaluation_id r)"
proof -
  define wa where "wa = snd (handle_get_next_evaluation platform_dispatch_ops ws hk rj w)"
  define r where "r = fst (handle_get_next_evaluation platform_dispatch_ops ws hk rj w)"
  have "reply_evaluation_id (fst (handle_get_next_evaluation platform_dispatch_ops ws' hk' rj' wa))
      \<noteq> Some i" if "reply_evaluation_id r = Some i" for i
  proof
    assume "reply_evaluation_id (fst (handle_get_next_evaluation platform_dispatch_ops ws' hk' rj' wa))
      = Some i"
    then obtain e' where e': "fst (list_pending_evaluation hk' (pf_evaluations (ext wa))) = Some e'"
      "ei_evaluation_id e' = i"
      using platform_dispatch_reply_id by blast
    from that obtain e where e: "fst (list_pending_evaluation hk (pf_evaluations (ext w))) = Some e"
      "ei_evaluation_id e = i"
      unfolding r_def using platform_dispatch_reply_id by blast
    have "list_pending_evaluation hk (pf_evaluations (ext w)) = (Some e, pf_evaluations (ext wa))"
      using e(1) by (simp add: wa_def platform_dispatch_evaluations prod_eq_iff)
    moreover have "list_pending_evaluation hk' (pf_evaluations (ext wa)) =
        (Some e', snd (list_pending_evaluation hk' (pf_evaluations (ext wa))))"
      using e'(1) by (simp add: prod_eq_iff)
    ultimately have "ei_evaluation_id e' \<noteq> ei_evaluation_id e"
      by (rule list_pending_exclusive)
    with e e' show False
      by simp
  qed
  then show ?thesis
    by (cases "reply_evaluation_id r") (auto simp: r_def wa_def split: prod.splits)
qed


theorem platform_dispatch_witness:
  "reply_evaluation_id (fst (handle_get_next_evaluation platform_dispatch_ops ''val-a'' ''val-a'' []
      example_world)) = Some ''e7''
   \<and> reply_evaluation_id (fst (handle_get_next_evaluation platform_dispatch_ops ''val-c'' ''val-c'' []
        (snd (handle_get_next_evaluation platform_dispatch_ops ''val-a'' ''val-a'' []
           example_world)))) \<noteq> Some ''e7''"
proof -
  have "fst (get_next_evaluation_body platform_dispatch_ops ''val-a'' ''val-a'' example_world) =
      Inr (evaluation_message platform_dispatch_ops \<lparr>evaluation_id = ''e7'', version_id = ''v1''\<rparr>
            (get_agent_version ''v1'' (example_machine 1 2)))"
    by (simp add: get_next_evaluation_body_def build_socket_message_def prog_simps getitem_found
        list_pending_evaluation_def assignable_def assign_def send_to_result example_registry_def
        del: dumps.simps)
  then have "reply_evaluation_id (fst (handle_get_next_evaluation platform_dispatch_ops ''val-a''
      ''val-a'' [] example_world)) = Some ''e7''"
    by (cases "get_next_evaluation_body platform_dispatch_ops ''val-a'' ''val-a'' example_world")
      (simp add: handle_returned)
  with platform_dispatch_exclusive [where ws = "''val-a''" and hk = "''val-a''" and rj = "[]"
      and w = example_world and ws' = "''val-c''" and hk' = "''val-c''" and rj' = "[]"]
  show ?thesis
    by (simp split: prod.splits)
qed

section \<open>Runs of administrative requests\<close>

datatype admin_request =
    Check_top_agent
  | Ban string string
  | Approve string string
  | Trigger_weight_update
  | Re_eval string

definition serve ::
  "('b, 'ta, 'ag) scoring_ops \<Rightarrow> admin_request \<Rightarrow> 'b world \<Rightarrow> 'b world" where
  "serve ops rq w =
     (case rq of
        Check_top_agent \<Rightarrow> snd (weight_receiving_agent ops w)
      | Ban agent_id ban_password \<Rightarrow> snd (ban_agent ops agent_id ban_password w)
      | Approve version approval_password \<Rightarrow> snd (approve_version ops version approval_password w)
      | Trigger_weight_update \<Rightarrow> snd (trigger_weight_set ops w)
      | Re_eval approval_password \<Rightarrow> snd (re_eval_approved ops approval_password w))"

inductive admin_run :: "('b, 'ta, 'ag) scoring_ops \<Rightarrow> 'b world \<Rightarrow> 'b world \<Rightarrow> bool"
  for ops :: "('b, 'ta, 'ag) scoring_ops" where
  start: "admin_run ops w w"
| request: "admin_run ops w w' \<Longrightarrow> admin_run ops w (serve ops rq w')"

text \<open>
  What one request may do to the versions: an endpoint either leaves them
  alone or changes them by one step of the state machine.
\<close>

lemma lift_sm_versions:
  "pf_versions (snd (lift_sm f p)) = (case f (pf_versions p) of Inl e \<Rightarrow> pf_versions p | Inr vs \<Rightarrow> vs)"
  by (simp add: lift_sm_def split: sum.splits)

lemma serve_platform_versions:
  "pf_versions (ext (serve (platform_scoring_ops policy) rq w)) = pf_versions (ext w) \<or>
   (\<exists>e. sm_step policy (pf_versions (ext w)) e (pf_versions (ext (serve (platform_scoring_ops policy) rq w))))"
proof (cases rq)
  case Check_top_agent
  then show ?thesis
    by (simp add: serve_def weight_receiving_agent_def prog_simps)
next
  case (Ban agent pw)
  show ?thesis
  proof (cases "sm_ban_agent agent (pf_versions (ext w))")
    case (Inl e)
    with Ban show ?thesis
      by (simp add: serve_def ban_agent_def prog_simps lift_sm_def)
  next
    case (Inr vs)
    then have "sm_step policy (pf_versions (ext w)) (Ban_agent agent) vs"
      by (rule sm_step.ban)
    with Ban Inr show ?thesis
      by (auto simp: serve_def ban_agent_def prog_simps lift_sm_def)
  qed
next
  case (Approve v pw)
  show ?thesis
  proof (cases "sm_approve_version policy v (pf_versions (ext w))")
    case (Inl e)
    with Approve show ?thesis
      by (simp add: serve_def approve_version_def prog_simps lift_sm_def)
  next
    case (Inr vs)
    then have "sm_step policy (pf_versions (ext w)) (Approve_version v) vs"
      by (rule sm_step.approve)
    with Approve Inr show ?thesis
      by (auto simp: serve_def approve_version_def prog_simps lift_sm_def)
  qed
next
  case Trigger_weight_update
  then show ?thesis
    by (simp add: serve_def trigger_weight_set_def bnd_def ret_def platform_tell_validators
        split: option.splits)
next
  case (Re_eval pw)
  have "sm_step policy (pf_versions (ext w)) Re_evaluate_approved_agents
      (snd (sm_re_evaluate_approved_agents (pf_versions (ext w))))"
    by (rule sm_step.re_evaluate)
  with Re_eval show ?thesis
    by (auto simp: serve_def re_eval_approved_def prog_simps)
qed

lemma serve_platform_moved:
  assumes "wf_machine (pf_versions (ext w))"
  shows "moved (pf_versions (ext w)) (pf_versions (ext (serve (platform_scoring_ops policy) rq w)))
     \<and> wf_machine (pf_versions (ext (serve (platform_scoring_ops policy) rq w)))"
  using serve_platform_versions [of policy rq w] assms sm_step_moved
  by (elim disjE exE) auto

text \<open>
  Claim C34. Through any sequence of administrative requests, whatever
  their passwords and arguments, the versions of the platform stay the same
  versions (ids, owners and creation times), with distinct ids, and the
  status of each has moved along the transition table of the specification,
  extended by the edge from \<open>rejected\<close> to \<open>banned\<close> that a ban takes; in
  particular a version that is \<open>banned\<close> stays \<open>banned\<close>.
\<close>

theorem platform_admin_run_moves:
  assumes "admin_run (platform_scoring_ops policy) w w'"
    and "wf_machine (pf_versions (ext w))"
  shows "moved (pf_versions (ext w)) (pf_versions (ext w'))
     \<and> wf_machine (pf_versions (ext w'))
     \<and> list_all2 (\<lambda>a a'. av_status a = Banned \<longrightarrow> av_status a' = Banned)
         (pf_versions (ext w)) (pf_versions (ext w'))"
proof -
  from assms have "moved (pf_versions (ext w)) (pf_versions (ext w'))
     \<and> wf_machine (pf_versions (ext w'))"
  proof (induction rule: admin_run.induct)
    case (start w)
    then show ?case by simp
  next
    case (request w w' rq)
    with serve_platform_moved [of w' policy rq] show ?case
      by (blast intro: moved_trans)
  qed
  then show ?thesis
    by (simp add: moved_Banned_stays)
qed



end
