(* ===== verification/Llm.thy ===== *)
theory Llm
  imports Json
begin

text \<open>
  The miner's call to the language model (\<open>src/miner/utils/llm.py\<close>,
  \<open>generate_solution_with_openai\<close>): build the prompt from the problem
  statement, ask the chat-completion service for one answer, and return the
  text of the first choice.

  The client library is a collaborator: \<open>llm_ops\<close> holds the constructor of
  the client, the request, and the projection of a response to the contents
  of its choices. A content is optional, as the service may answer with none.
\<close>

section \<open>Collaborators\<close>

record ('b, 'cl, 'rs) llm_ops =
  OpenAI :: "string \<Rightarrow> ('b, 'cl) extcall"
  chat_completions_create :: "'cl \<Rightarrow> string \<Rightarrow> pydict list \<Rightarrow> ('b, 'rs) extcall"
  choices_content :: "'rs \<Rightarrow> string option list"

section \<open>The prompt\<close>

definition instructions :: string where
  "instructions =
     ''Output ONLY the raw unified git diff (patch) code that implements the solution. '' @
     ''Do NOT include any explanations, markdown, code blocks, or any extra text. '' @
     ''Do NOT use triple backticks or any formatting. '' @
     ''Do NOT say anything before or after the diff. '' @
     ''Return ONLY the code for the patch, starting with 'diff --git'. '' @
     ''If you include anything else, the solution will be rejected. '' @
     ''If you need to create a new file, use the correct unified diff format for new files, including '--- /dev/null', '+++ b/<filename>', and 'new file mode 100644'. '' @
     ''Ensure the patch is valid and can be applied with 'git apply' without errors. The patch must end with a single newline and have no extra blank lines or trailing whitespace.''"

definition user_prompt :: "json \<Rightarrow> string" where
  "user_prompt problem_statement = py_str problem_statement @ ''\<newline>\<newline>'' @ instructions"

definition chat_messages :: "json \<Rightarrow> pydict list" where
  "chat_messages problem_statement =
     [[(''role'', JStr ''system''), (''content'', JStr ''You are a helpful coding assistant.'')],
      [(''role'', JStr ''user''), (''content'', JStr (user_prompt problem_statement))]]"

section \<open>The call\<close>

definition generate_solution_with_openai ::
  "('b, 'cl, 'rs) llm_ops \<Rightarrow> json \<Rightarrow> string \<Rightarrow> ('b world, string option) prog" where
  "generate_solution_with_openai ops problem_statement api_key =
     bnd (call (OpenAI ops api_key)) (\<lambda>client.
     bnd (call (chat_completions_create ops client ''gpt-4'' (chat_messages problem_statement)))
       (\<lambda>response.
     case choices_content ops response of
       [] \<Rightarrow> raise IndexError
     | content # _ \<Rightarrow> ret content))"

section \<open>A recording collaborator\<close>

text \<open>
  For the closed instances: the client is its key, a response is the list of
  its contents, and the state records the model and the number of messages of
  every request.
\<close>

definition scripted_llm ::
  "(exn, string option list) result \<Rightarrow> (string list, string, string option list) llm_ops" where
  "scripted_llm r =
     \<lparr>OpenAI = (\<lambda>key b. (Inr key, b)),
      chat_completions_create =
        (\<lambda>client model messages b.
           (r, b @ [''chat:'' @ model @ '':'' @ str_nat (length messages)])),
      choices_content = (\<lambda>response. response)\<rparr>"

lemma scripted_llm_sel [simp]:
  "OpenAI (scripted_llm r) key b = (Inr key, b)"
  "chat_completions_create (scripted_llm r) client model messages b =
     (r, b @ [''chat:'' @ model @ '':'' @ str_nat (length messages)])"
  "choices_content (scripted_llm r) response = response"
  by (simp_all add: scripted_llm_def)

section \<open>Properties\<close>

lemma user_prompt_starts_with_problem:
  "startswith (user_prompt (JStr problem_statement)) problem_statement"
  by (simp add: user_prompt_def startswith_def)

lemma chat_messages_roles:
  "map (\<lambda>m. dict_get m ''role'') (chat_messages ps) = [JStr ''system'', JStr ''user'']"
  by (simp add: chat_messages_def dict_get_def)

lemma generate_solution_client_fails:
  assumes "OpenAI ops api_key (ext w) = (Inl e, b)"
  shows "generate_solution_with_openai ops ps api_key w = (Inl e, w\<lparr>ext := b\<rparr>)"
  using assms by (simp add: generate_solution_with_openai_def prog_simps)

text \<open>
  Claim C17. Once the client is built, the miner sends exactly one request,
  to the model \<open>gpt-4\<close>, with the system message followed by the user message
  that carries the problem statement and the instructions; it returns the
  content of the first choice, raises \<open>IndexError\<close> when the response has no
  choice, and raises what the request raised when it fails. Nothing is
  logged.
\<close>

theorem llm_generate_outcome:
  assumes "OpenAI ops api_key (ext w) = (Inr client, b)"
    and "chat_completions_create ops client ''gpt-4'' (chat_messages ps) b = (r, ba)"
  shows "generate_solution_with_openai ops ps api_key w =
    (case r of
       Inl e \<Rightarrow> (Inl e, w\<lparr>ext := ba\<rparr>)
     | Inr response \<Rightarrow>
         (case choices_content ops response of
            [] \<Rightarrow> (Inl IndexError, w\<lparr>ext := ba\<rparr>)
          | content # _ \<Rightarrow> (Inr content, w\<lparr>ext := ba\<rparr>)))"
  using assms
  by (simp add: generate_solution_with_openai_def prog_simps split: sum.splits list.splits)

theorem llm_generate_witness:
  "generate_solution_with_openai (scripted_llm (Inr [Some ''diff --git a/x b/x'', Some ''other'']))
     (JStr ''fix the bug'') ''sk-1'' (init_world Map.empty []) =
   (Inr (Some ''diff --git a/x b/x''),
    \<lparr>environ = Map.empty, logs = [], stdout = [], ext = [''chat:gpt-4:2'']\<rparr>)"
  using llm_generate_outcome
    [where ops = "scripted_llm (Inr [Some ''diff --git a/x b/x'', Some ''other''])"
       and api_key = "''sk-1''" and w = "init_world Map.empty []" and client = "''sk-1''"
       and b = "[]" and ps = "JStr ''fix the bug''"
       and r = "Inr [Some ''diff --git a/x b/x'', Some ''other'']" and ba = "[''chat:gpt-4:2'']"]
  by (simp add: init_world_def chat_messages_def str_nat.simps digit_char_def)

end
