(* ===== verification/Codegen.thy ===== *)
theory Codegen
  imports Llm Routing
begin

text \<open>
  The miner's code-generation endpoint (\<open>src/miner/endpoints/codegen.py\<close>,
  \<open>process_challenge\<close>): under the miner lock, read the challenge, check that
  it is complete and that the key of the language model is configured, clone
  the repository, ask the model for a patch, normalise and validate the
  answer, apply it, and answer with the patch of the working tree.

  The definitions follow the body block by block: \<open>parse_challenge\<close> (reading
  and the completeness check), \<open>require_api_key\<close>, \<open>obtain_solution\<close> (the
  model's answer, normalised and validated), \<open>apply_solution\<close> (the inner
  \<open>try\<close>), \<open>solve_challenge\<close> (the body of the outer \<open>try\<close>),
  \<open>handle_challenge\<close> (the outer \<open>try/except/finally\<close>) and
  \<open>process_challenge\<close> (the whole handler with the lock).

  The lock, the request, the git operations and the patch tools are
  collaborators (\<open>codegen_ops\<close>). The values of the challenge are JSON values
  of any type, as \<open>dict.get\<close> returns them.
\<close>

section \<open>Collaborators\<close>

record ('b, 'rq, 'cl, 'rs) codegen_ops =
  lock_acquire :: "('b, unit) extcall"
  lock_release :: "('b, unit) extcall"
  request_json :: "'rq \<Rightarrow> ('b, json) extcall"
  clone_and_checkout_repo :: "json \<Rightarrow> json \<Rightarrow> ('b, string) extcall"
  llm_client :: "('b, 'cl, 'rs) llm_ops"
  apply_patch :: "string \<Rightarrow> string \<Rightarrow> ('b, unit) extcall"
  generate_patch :: "string \<Rightarrow> ('b, string) extcall"

section \<open>String processing\<close>

definition normalise_patch :: "string \<Rightarrow> string" where
  "normalise_patch solution_patch = rstrip solution_patch @ ''\<newline>''"

definition valid_patch_format :: "string \<Rightarrow> bool" where
  "valid_patch_format solution_patch = startswith (strip solution_patch) ''diff --git''"

section \<open>The challenge\<close>

record challenge =
  challenge_id :: json
  problem_statement :: json
  dynamic_checklist :: json
  repository :: json
  commit_hash :: json

definition challenge_of :: "pydict \<Rightarrow> challenge" where
  "challenge_of challenge_data =
     \<lparr>challenge_id = dict_get challenge_data ''challenge_id'',
      problem_statement = dict_get challenge_data ''problem_statement'',
      dynamic_checklist = dict_get challenge_data ''dynamic_checklist'',
      repository = dict_get challenge_data ''repository_name'',
      commit_hash = dict_get challenge_data ''commit_hash''\<rparr>"

definition parse_challenge ::
  "('b, 'rq, 'cl, 'rs) codegen_ops \<Rightarrow> 'rq \<Rightarrow> ('b world, challenge) prog" where
  "parse_challenge ops request =
     bnd (call (request_json ops request)) (\<lambda>challenge_data.
     bnd (dict_method challenge_data ''get'') (\<lambda>d.
     bnd (logger_log INFO (''Received challenge data: '' @ dumps_indent 2 0 challenge_data)) (\<lambda>_.
     if \<not> py_truthy (problem_statement (challenge_of d)) \<or>
        \<not> py_truthy (dynamic_checklist (challenge_of d))
     then raise (HTTPException 400 ''Incomplete problem provided'')
     else ret (challenge_of d))))"

definition api_key_missing :: "('b world, string) prog" where
  "api_key_missing =
     bnd (logger_log ERROR ''OpenAI API key not set in environment'') (\<lambda>_.
     raise (HTTPException 500 ''OpenAI API key not set in environment''))"

definition require_api_key :: "('b world, string) prog" where
  "require_api_key =
     bnd (getenv ''OPENAI_API_KEY'') (\<lambda>api_key.
     case api_key of
       None \<Rightarrow> api_key_missing
     | Some key \<Rightarrow> if key = [] then api_key_missing else ret key)"

section \<open>The solution\<close>

definition obtain_solution ::
  "('b, 'rq, 'cl, 'rs) codegen_ops \<Rightarrow> json \<Rightarrow> string \<Rightarrow> ('b world, string) prog" where
  "obtain_solution ops problem api_key =
     bnd (logger_log INFO ''Generating solution using OpenAI...'') (\<lambda>_.
     bnd (generate_solution_with_openai (llm_client ops) problem api_key) (\<lambda>answer.
     bnd (logger_log INFO (''Generated solution patch: '' @
            (case answer of None \<Rightarrow> ''None'' | Some s \<Rightarrow> s))) (\<lambda>_.
     bnd (case answer of
            None \<Rightarrow> raise (AttributeError ''NoneType'' ''rstrip'')
          | Some s \<Rightarrow> ret (normalise_patch s)) (\<lambda>solution_patch.
     if \<not> valid_patch_format solution_patch
     then bnd (logger_log ERROR (''LLM output is not a valid git diff (patch). Output was: ''
                 @ solution_patch)) (\<lambda>_.
          raise (HTTPException 500 ''LLM did not return a valid git diff (patch).''))
     else ret solution_patch))))"

definition apply_solution ::
  "('b, 'rq, 'cl, 'rs) codegen_ops \<Rightarrow> string \<Rightarrow> string \<Rightarrow> ('b world, unit) prog" where
  "apply_solution ops repo_path solution_patch =
     try_except
       (bnd (call (apply_patch ops repo_path solution_patch)) (\<lambda>_.
        logger_log INFO ''Patch applied successfully.''))
       is_Exception
       (\<lambda>e. bnd (logger_log ERROR (''Failed to apply patch: '' @ str_exn e)) (\<lambda>_.
            raise (HTTPException 500 (''Failed to apply patch: '' @ str_exn e))))"

section \<open>The handler\<close>

definition solve_challenge ::
  "('b, 'rq, 'cl, 'rs) codegen_ops \<Rightarrow> 'rq \<Rightarrow> ('b world, pydict) prog" where
  "solve_challenge ops request =
     bnd (parse_challenge ops request) (\<lambda>c.
     bnd require_api_key (\<lambda>api_key.
     bnd (logger_log INFO (''Cloning repository '' @ py_str (repository c) @ '' at commit ''
            @ py_str (commit_hash c))) (\<lambda>_.
     bnd (call (clone_and_checkout_repo ops (repository c) (commit_hash c))) (\<lambda>repo_path.
     bnd (logger_log INFO (''Repository cloned to '' @ repo_path)) (\<lambda>_.
     bnd (logger_log INFO (''Processing challenge '' @ py_str (challenge_id c)
            @ '' with problem statement '' @ py_str (problem_statement c))) (\<lambda>_.
     bnd (obtain_solution ops (problem_statement c) api_key) (\<lambda>solution_patch.
     bnd (apply_solution ops repo_path solution_patch) (\<lambda>_.
     bnd (call (generate_patch ops repo_path)) (\<lambda>patch.
     bnd (logger_log INFO (''Generated patch:\<newline>'' @ patch)) (\<lambda>_.
     bnd (logger_log INFO (''Responded to challenge '' @ py_str (challenge_id c))) (\<lambda>_.
     ret [(''challenge_id'', challenge_id c), (''patch'', JStr patch)])))))))))))"

definition challenge_failed :: "exn \<Rightarrow> ('b world, pydict) prog" where
  "challenge_failed e =
     (if is_HTTPException e then raise e
      else bnd (logger_log ERROR (''Error processing soccer challenge: '' @ str_exn e)) (\<lambda>_.
           bnd (logger_log ERROR ''Full error traceback:'') (\<lambda>_.
           raise (HTTPException 500 (''Challenge processing error: '' @ str_exn e)))))"

definition handle_challenge ::
  "('b, 'rq, 'cl, 'rs) codegen_ops \<Rightarrow> 'rq \<Rightarrow> ('b world, pydict) prog" where
  "handle_challenge ops request =
     try_finally
       (try_except (solve_challenge ops request) is_Exception challenge_failed)
       (logger_log INFO ''Releasing miner lock...'')"

definition with_miner_lock ::
  "('b, 'rq, 'cl, 'rs) codegen_ops \<Rightarrow> ('b world, 'a) prog \<Rightarrow> ('b world, 'a) prog" where
  "with_miner_lock ops body =
     bnd (call (lock_acquire ops)) (\<lambda>_. try_finally body (call (lock_release ops)))"

definition process_challenge ::
  "('b, 'rq, 'cl, 'rs) codegen_ops \<Rightarrow> 'rq \<Rightarrow> 'cfg \<Rightarrow> ('b world, pydict) prog" where
  "process_challenge ops request config =
     bnd (logger_log INFO ''Attempting to acquire miner lock...'') (\<lambda>_.
     with_miner_lock ops
       (bnd (logger_log INFO ''Miner lock acquired, processing challenge...'') (\<lambda>_.
        handle_challenge ops request)))"

lemmas codegen_defs =
  parse_challenge_def api_key_missing_def require_api_key_def obtain_solution_def
  apply_solution_def solve_challenge_def challenge_failed_def handle_challenge_def
  with_miner_lock_def process_challenge_def generate_solution_with_openai_def

section \<open>The route\<close>

datatype codegen_endpoint = Process_challenge

definition codegen_router :: "codegen_endpoint api_router" where
  "codegen_router = add_api_route ''/challenge'' Process_challenge [''codegen''] [] [POST] []"

section \<open>A recording collaborator\<close>

text \<open>
  For the closed instances: the state is the list of the calls made; the
  request is its body; the answers of the repository, of the model and of the
  patch tools are parameters.
\<close>

definition scripted_codegen ::
  "(exn, string) result \<Rightarrow> (exn, string option list) result \<Rightarrow> (exn, unit) result \<Rightarrow>
   (exn, string) result \<Rightarrow> (string list, json, string, string option list) codegen_ops" where
  "scripted_codegen r_clone r_llm r_apply r_patch =
     \<lparr>lock_acquire = (\<lambda>b. (Inr (), b @ [''acquire''])),
      lock_release = (\<lambda>b. (Inr (), b @ [''release''])),
      request_json = (\<lambda>body b. (Inr body, b @ [''json''])),
      clone_and_checkout_repo = (\<lambda>repo commit b. (r_clone, b @ [''clone:'' @ py_str repo])),
      llm_client = scripted_llm r_llm,
      apply_patch = (\<lambda>path patch b. (r_apply, b @ [''apply:'' @ path])),
      generate_patch = (\<lambda>path b. (r_patch, b @ [''diff:'' @ path]))\<rparr>"

lemma scripted_codegen_sel [simp]:
  "lock_acquire (scripted_codegen rc rl ra rp) b = (Inr (), b @ [''acquire''])"
  "lock_release (scripted_codegen rc rl ra rp) b = (Inr (), b @ [''release''])"
  "request_json (scripted_codegen rc rl ra rp) body b = (Inr body, b @ [''json''])"
  "clone_and_checkout_repo (scripted_codegen rc rl ra rp) repo commit b =
     (rc, b @ [''clone:'' @ py_str repo])"
  "llm_client (scripted_codegen rc rl ra rp) = scripted_llm rl"
  "apply_patch (scripted_codegen rc rl ra rp) path patch b = (ra, b @ [''apply:'' @ path])"
  "generate_patch (scripted_codegen rc rl ra rp) path b = (rp, b @ [''diff:'' @ path])"
  by (simp_all add: scripted_codegen_def)

definition example_body :: json where
  "example_body = JDict [(''challenge_id'', JStr ''c1''), (''problem_statement'', JStr ''fix it''),
     (''dynamic_checklist'', JList [JStr ''works'']), (''repository_name'', JStr ''org/repo''),
     (''commit_hash'', JStr ''abc'')]"

definition example_env :: "string \<rightharpoonup> string" where
  "example_env = [''OPENAI_API_KEY'' \<mapsto> ''sk-1'']"

section \<open>What the handler promises\<close>

text \<open>
  The contract of the outer \<open>try/except/finally\<close>, as functions of the result
  of the body: an \<open>HTTPException\<close> and a cancellation pass, any other
  \<open>Exception\<close> becomes status 500 after two error records, and the release
  of the lock is logged in every case. The log lines of the paths through the
  body are \<open>lock_log\<close>, \<open>progress_log\<close> and \<open>success_log\<close>.
\<close>

definition challenge_outcome :: "(exn, pydict) result \<Rightarrow> (exn, pydict) result" where
  "challenge_outcome r =
     (case r of
        Inr response \<Rightarrow> Inr response
      | Inl e \<Rightarrow>
          if is_Exception e \<and> \<not> is_HTTPException e
          then Inl (HTTPException 500 (''Challenge processing error: '' @ str_exn e))
          else Inl e)"

definition challenge_outcome_logs :: "(exn, pydict) result \<Rightarrow> (log_level \<times> string) list" where
  "challenge_outcome_logs r =
     (case r of
        Inr response \<Rightarrow> []
      | Inl e \<Rightarrow>
          if is_Exception e \<and> \<not> is_HTTPException e
          then [(ERROR, ''Error processing soccer challenge: '' @ str_exn e),
                (ERROR, ''Full error traceback:'')]
          else [])
     @ [(INFO, ''Releasing miner lock...'')]"

definition lock_log :: "(log_level \<times> string) list" where
  "lock_log = [(INFO, ''Attempting to acquire miner lock...''),
               (INFO, ''Miner lock acquired, processing challenge...'')]"

definition progress_log :: "pydict \<Rightarrow> string \<Rightarrow> (log_level \<times> string) list" where
  "progress_log d repo_path =
     [(INFO, ''Received challenge data: '' @ dumps_indent 2 0 (JDict d)),
      (INFO, ''Cloning repository '' @ py_str (repository (challenge_of d)) @ '' at commit ''
             @ py_str (commit_hash (challenge_of d))),
      (INFO, ''Repository cloned to '' @ repo_path),
      (INFO, ''Processing challenge '' @ py_str (challenge_id (challenge_of d))
             @ '' with problem statement '' @ py_str (problem_statement (challenge_of d))),
      (INFO, ''Generating solution using OpenAI...'')]"

definition success_log ::
  "pydict \<Rightarrow> string \<Rightarrow> string \<Rightarrow> string \<Rightarrow> (log_level \<times> string) list" where
  "success_log d repo_path answer patch =
     progress_log d repo_path @
     [(INFO, ''Generated solution patch: '' @ answer),
      (INFO, ''Patch applied successfully.''),
      (INFO, ''Generated patch:\<newline>'' @ patch),
      (INFO, ''Responded to challenge '' @ py_str (challenge_id (challenge_of d)))]"

section \<open>Normalising and validating the answer\<close>

lemma strip_normalise_patch: "strip (normalise_patch s) = strip s"
  by (simp add: strip_def normalise_patch_def rstrip_append_space py_simps)

lemma valid_normalise_patch:
  "valid_patch_format (normalise_patch s) \<longleftrightarrow> startswith (lstrip s) ''diff --git''"
  by (simp add: valid_patch_format_def strip_normalise_patch startswith_strip py_isspace_def)

text \<open>
  Claim C22. The answer of the model passes the validation exactly when,
  leading whitespace apart, it starts with \<open>diff --git\<close>. The patch that is
  applied keeps that leading whitespace.
\<close>

theorem codegen_validation:
  "(valid_patch_format (normalise_patch s) \<longleftrightarrow> startswith (lstrip s) ''diff --git'')
   \<and> valid_patch_format (normalise_patch '' diff --git'')
   \<and> normalise_patch '' diff --git'' = '' diff --git\<newline>''"
proof -
  have "normalise_patch '' diff --git'' = '' diff --git\<newline>''"
    by (simp add: normalise_patch_def rstrip_def py_isspace_def)
  moreover have "valid_patch_format (normalise_patch '' diff --git'')"
    by (simp add: valid_normalise_patch lstrip_def startswith_def py_isspace_def)
  ultimately show ?thesis
    by (simp add: valid_normalise_patch)
qed

text \<open>
  Claim C23. Normalising a patch is idempotent; the result ends with a
  newline, and what precedes that newline is the answer without its trailing
  whitespace, so it does not end in whitespace.
\<close>

theorem codegen_normalise_patch:
  "normalise_patch (normalise_patch s) = normalise_patch s
   \<and> last (normalise_patch s) = CHR 0x0A
   \<and> butlast (normalise_patch s) = rstrip s
   \<and> (rstrip s = [] \<or> \<not> py_isspace (last (rstrip s)))"
  using rstrip_last [of s]
  by (auto simp: normalise_patch_def rstrip_append_space py_simps butlast_append)

theorem codegen_normalise_patch_witness:
  "normalise_patch ''diff --git a b  \<newline>\<newline>'' = ''diff --git a b\<newline>''
   \<and> \<not> py_isspace (last (rstrip ''diff --git a b  \<newline>\<newline>''))"
  using codegen_normalise_patch [of "''diff --git a b  \<newline>\<newline>''"]
  by (simp add: normalise_patch_def rstrip_def py_isspace_def)

section \<open>The blocks of the body\<close>

lemma parse_challenge_dict:
  assumes "request_json ops rq (ext w) = (Inr (JDict d), b)"
  shows "parse_challenge ops rq w =
    (if \<not> py_truthy (problem_statement (challenge_of d)) \<or>
        \<not> py_truthy (dynamic_checklist (challenge_of d))
     then Inl (HTTPException 400 ''Incomplete problem provided'')
     else Inr (challenge_of d),
     w\<lparr>ext := b, logs := logs w @
       [(INFO, ''Received challenge data: '' @ dumps_indent 2 0 (JDict d))]\<rparr>)"
  using assms by (simp add: parse_challenge_def prog_simps)

lemma parse_challenge_not_dict:
  assumes "request_json ops rq (ext w) = (Inr j, b)" and "py_type_name j \<noteq> ''dict''"
  shows "parse_challenge ops rq w = (Inl (AttributeError (py_type_name j) ''get''), w\<lparr>ext := b\<rparr>)"
  using assms by (cases j) (simp_all add: parse_challenge_def dict_method_def prog_simps)

lemma parse_challenge_fails:
  assumes "request_json ops rq (ext w) = (Inl e, b)"
  shows "parse_challenge ops rq w = (Inl e, w\<lparr>ext := b\<rparr>)"
  using assms by (simp add: parse_challenge_def prog_simps)

lemma require_api_key_set:
  "environ w ''OPENAI_API_KEY'' = Some key \<Longrightarrow> key \<noteq> [] \<Longrightarrow> require_api_key w = (Inr key, w)"
  by (simp add: require_api_key_def prog_simps)

lemma require_api_key_unset:
  "environ w ''OPENAI_API_KEY'' = None \<or> environ w ''OPENAI_API_KEY'' = Some [] \<Longrightarrow>
   require_api_key w =
     (Inl (HTTPException 500 ''OpenAI API key not set in environment''),
      w\<lparr>logs := logs w @ [(ERROR, ''OpenAI API key not set in environment'')]\<rparr>)"
  by (auto simp: require_api_key_def api_key_missing_def prog_simps)

lemma apply_solution_result:
  assumes "apply_patch ops repo_path patch (ext w) = (r, b)"
  shows "apply_solution ops repo_path patch w =
    (case r of
       Inr _ \<Rightarrow> (Inr (), w\<lparr>ext := b, logs := logs w @ [(INFO, ''Patch applied successfully.'')]\<rparr>)
     | Inl e \<Rightarrow>
         if is_Exception e
         then (Inl (HTTPException 500 (''Failed to apply patch: '' @ str_exn e)),
               w\<lparr>ext := b, logs := logs w @ [(ERROR, ''Failed to apply patch: '' @ str_exn e)]\<rparr>)
         else (Inl e, w\<lparr>ext := b\<rparr>))"
  using assms by (simp add: apply_solution_def prog_simps split: sum.splits)

lemma handle_challenge_result:
  assumes "solve_challenge ops rq w = (r, w')"
  shows "handle_challenge ops rq w =
    (challenge_outcome r, w'\<lparr>logs := logs w' @ challenge_outcome_logs r\<rparr>)"
  using assms
  by (cases r)
    (auto simp: handle_challenge_def challenge_failed_def challenge_outcome_def
      challenge_outcome_logs_def prog_simps is_HTTPException_imp_Exception)

lemma process_challenge_result:
  assumes "lock_acquire ops (ext w) = (Inr (), ba)"
    and "solve_challenge ops rq (w\<lparr>ext := ba, logs := logs w @ lock_log\<rparr>) = (r, w')"
    and "lock_release ops (ext w') = (Inr (), bb)"
  shows "process_challenge ops rq cfg w =
    (challenge_outcome r, w'\<lparr>ext := bb, logs := logs w' @ challenge_outcome_logs r\<rparr>)"
proof -
  have "handle_challenge ops rq (w\<lparr>ext := ba, logs := logs w @ lock_log\<rparr>) =
      (challenge_outcome r, w'\<lparr>logs := logs w' @ challenge_outcome_logs r\<rparr>)"
    using assms(2) by (rule handle_challenge_result)
  with assms(1,3) show ?thesis
    by (simp add: process_challenge_def with_miner_lock_def prog_simps lock_log_def)
qed

lemma process_challenge_outcome:
  assumes "lock_acquire ops (ext w) = (Inr (), ba)"
    and "solve_challenge ops rq (w\<lparr>ext := ba, logs := logs w @ lock_log\<rparr>) =
           (r, w\<lparr>ext := bb, logs := logs w @ lock_log @ ls\<rparr>)"
    and "lock_release ops bb = (Inr (), bc)"
  shows "process_challenge ops rq cfg w =
    (challenge_outcome r,
     w\<lparr>ext := bc, logs := logs w @ lock_log @ ls @ challenge_outcome_logs r\<rparr>)"
proof -
  let ?w' = "w\<lparr>ext := bb, logs := logs w @ lock_log @ ls\<rparr>"
  from assms(3) have "lock_release ops (ext ?w') = (Inr (), bc)"
    by simp
  from process_challenge_result [OF assms(1,2) this] show ?thesis
    by simp
qed

lemma challenge_outcome_simps [simp]:
  "challenge_outcome (Inr x) = Inr x"
  "challenge_outcome (Inl (HTTPException c detail)) = Inl (HTTPException c detail)"
  "challenge_outcome (Inl CancelledError) = Inl CancelledError"
  "challenge_outcome_logs (Inr x) = [(INFO, ''Releasing miner lock...'')]"
  "challenge_outcome_logs (Inl (HTTPException c detail)) = [(INFO, ''Releasing miner lock...'')]"
  "challenge_outcome_logs (Inl CancelledError) = [(INFO, ''Releasing miner lock...'')]"
  by (simp_all add: challenge_outcome_def challenge_outcome_logs_def)

section \<open>The paths through the body\<close>

lemma solve_challenge_parse_error:
  assumes "parse_challenge ops rq w = (Inl e, w')"
  shows "solve_challenge ops rq w = (Inl e, w')"
  using assms by (simp add: solve_challenge_def prog_simps)

lemma solve_challenge_incomplete:
  assumes "request_json ops rq (ext w) = (Inr (JDict d), ba)"
    and "\<not> py_truthy (problem_statement (challenge_of d)) \<or>
         \<not> py_truthy (dynamic_checklist (challenge_of d))"
  shows "solve_challenge ops rq w =
    (Inl (HTTPException 400 ''Incomplete problem provided''),
     w\<lparr>ext := ba, logs := logs w @
       [(INFO, ''Received challenge data: '' @ dumps_indent 2 0 (JDict d))]\<rparr>)"
  using assms by (intro solve_challenge_parse_error) (auto simp: parse_challenge_dict)

lemma solve_challenge_not_dict:
  assumes "request_json ops rq (ext w) = (Inr j, ba)" and "py_type_name j \<noteq> ''dict''"
  shows "solve_challenge ops rq w = (Inl (AttributeError (py_type_name j) ''get''), w\<lparr>ext := ba\<rparr>)"
  using assms by (intro solve_challenge_parse_error) (simp add: parse_challenge_not_dict)

lemma solve_challenge_key_unset:
  assumes "request_json ops rq (ext w) = (Inr (JDict d), ba)"
    and "py_truthy (problem_statement (challenge_of d))"
    and "py_truthy (dynamic_checklist (challenge_of d))"
    and "environ w ''OPENAI_API_KEY'' = None \<or> environ w ''OPENAI_API_KEY'' = Some []"
  shows "solve_challenge ops rq w =
    (Inl (HTTPException 500 ''OpenAI API key not set in environment''),
     w\<lparr>ext := ba, logs := logs w @
       [(INFO, ''Received challenge data: '' @ dumps_indent 2 0 (JDict d)),
        (ERROR, ''OpenAI API key not set in environment'')]\<rparr>)"
proof -
  let ?w' = "w\<lparr>ext := ba, logs := logs w @
       [(INFO, ''Received challenge data: '' @ dumps_indent 2 0 (JDict d))]\<rparr>"
  from assms(1-3) have "parse_challenge ops rq w = (Inr (challenge_of d), ?w')"
    by (simp add: parse_challenge_dict)
  moreover from assms(4)
  have "environ ?w' ''OPENAI_API_KEY'' = None \<or> environ ?w' ''OPENAI_API_KEY'' = Some []"
    by simp
  ultimately show ?thesis
    by (simp add: solve_challenge_def bnd_def require_api_key_unset)
qed

lemma solve_challenge_invalid_answer:
  assumes "request_json ops rq (ext w) = (Inr (JDict d), ba)"
    and "py_truthy (problem_statement (challenge_of d))"
    and "py_truthy (dynamic_checklist (challenge_of d))"
    and "environ w ''OPENAI_API_KEY'' = Some key" and "key \<noteq> []"
    and "clone_and_checkout_repo ops (repository (challenge_of d)) (commit_hash (challenge_of d)) ba
           = (Inr repo_path, bb)"
    and "OpenAI (llm_client ops) key bb = (Inr client, bc)"
    and "chat_completions_create (llm_client ops) client ''gpt-4''
           (chat_messages (problem_statement (challenge_of d))) bc = (Inr response, bd)"
    and "choices_content (llm_client ops) response = Some answer # rest"
    and "\<not> startswith (lstrip answer) ''diff --git''"
  shows "solve_challenge ops rq w =
    (Inl (HTTPException 500 ''LLM did not return a valid git diff (patch).''),
     w\<lparr>ext := bd, logs := logs w @ progress_log d repo_path @
       [(INFO, ''Generated solution patch: '' @ answer),
        (ERROR, ''LLM output is not a valid git diff (patch). Output was: ''
                @ normalise_patch answer)]\<rparr>)"
  using assms
  by (simp add: codegen_defs prog_simps valid_normalise_patch progress_log_def)

lemma solve_challenge_apply_fails:
  assumes "request_json ops rq (ext w) = (Inr (JDict d), ba)"
    and "py_truthy (problem_statement (challenge_of d))"
    and "py_truthy (dynamic_checklist (challenge_of d))"
    and "environ w ''OPENAI_API_KEY'' = Some key" and "key \<noteq> []"
    and "clone_and_checkout_repo ops (repository (challenge_of d)) (commit_hash (challenge_of d)) ba
           = (Inr repo_path, bb)"
    and "OpenAI (llm_client ops) key bb = (Inr client, bc)"
    and "chat_completions_create (llm_client ops) client ''gpt-4''
           (chat_messages (problem_statement (challenge_of d))) bc = (Inr response, bd)"
    and "choices_content (llm_client ops) response = Some answer # rest"
    and "startswith (lstrip answer) ''diff --git''"
    and "apply_patch ops repo_path (normalise_patch answer) bd = (Inl e, be)"
    and "is_Exception e"
  shows "solve_challenge ops rq w =
    (Inl (HTTPException 500 (''Failed to apply patch: '' @ str_exn e)),
     w\<lparr>ext := be, logs := logs w @ progress_log d repo_path @
       [(INFO, ''Generated solution patch: '' @ answer),
        (ERROR, ''Failed to apply patch: '' @ str_exn e)]\<rparr>)"
  using assms
  by (simp add: codegen_defs prog_simps valid_normalise_patch progress_log_def)

lemma solve_challenge_success:
  assumes "request_json ops rq (ext w) = (Inr (JDict d), ba)"
    and "py_truthy (problem_statement (challenge_of d))"
    and "py_truthy (dynamic_checklist (challenge_of d))"
    and "environ w ''OPENAI_API_KEY'' = Some key" and "key \<noteq> []"
    and "clone_and_checkout_repo ops (repository (challenge_of d)) (commit_hash (challenge_of d)) ba
           = (Inr repo_path, bb)"
    and "OpenAI (llm_client ops) key bb = (Inr client, bc)"
    and "chat_completions_create (llm_client ops) client ''gpt-4''
           (chat_messages (problem_statement (challenge_of d))) bc = (Inr response, bd)"
    and "choices_content (llm_client ops) response = Some answer # rest"
    and "startswith (lstrip answer) ''diff --git''"
    and "apply_patch ops repo_path (normalise_patch answer) bd = (Inr (), be)"
    and "generate_patch ops repo_path be = (Inr patch, bf)"
  shows "solve_challenge ops rq w =
    (Inr [(''challenge_id'', challenge_id (challenge_of d)), (''patch'', JStr patch)],
     w\<lparr>ext := bf, logs := logs w @ success_log d repo_path answer patch\<rparr>)"
  using assms
  by (simp add: codegen_defs prog_simps valid_normalise_patch success_log_def progress_log_def)

section \<open>The handler on each path\<close>

text \<open>
  Claim C18. When every collaborator succeeds, the challenge is complete, the key
  is configured and the answer of the model starts with \<open>diff --git\<close>
  (leading whitespace apart), the handler acquires the lock, reads the
  request, clones, asks the model once, applies the normalised answer,
  generates the patch of the working tree and releases the lock, in this
  order; it answers with the challenge id and that patch, and logs the lines
  of \<open>lock_log\<close> and \<open>success_log\<close> and the release.
\<close>

theorem codegen_success:
  assumes "lock_acquire ops (ext w) = (Inr (), b_lock)"
    and "request_json ops rq b_lock = (Inr (JDict d), b_json)"
    and "py_truthy (problem_statement (challenge_of d))"
    and "py_truthy (dynamic_checklist (challenge_of d))"
    and "environ w ''OPENAI_API_KEY'' = Some key" and "key \<noteq> []"
    and "clone_and_checkout_repo ops (repository (challenge_of d)) (commit_hash (challenge_of d))
           b_json = (Inr repo_path, b_clone)"
    and "OpenAI (llm_client ops) key b_clone = (Inr client, b_client)"
    and "chat_completions_create (llm_client ops) client ''gpt-4''
           (chat_messages (problem_statement (challenge_of d))) b_client = (Inr response, b_chat)"
    and "choices_content (llm_client ops) response = Some answer # rest"
    and "startswith (lstrip answer) ''diff --git''"
    and "apply_patch ops repo_path (normalise_patch answer) b_chat = (Inr (), b_apply)"
    and "generate_patch ops repo_path b_apply = (Inr patch, b_patch)"
    and "lock_release ops b_patch = (Inr (), b_rel)"
  shows "process_challenge ops rq cfg w =
    (Inr [(''challenge_id'', challenge_id (challenge_of d)), (''patch'', JStr patch)],
     w\<lparr>ext := b_rel, logs := logs w @ lock_log @ success_log d repo_path answer patch
        @ [(INFO, ''Releasing miner lock...'')]\<rparr>)"
proof -
  let ?w = "w\<lparr>ext := b_lock, logs := logs w @ lock_log\<rparr>"
  have "solve_challenge ops rq ?w =
    (Inr [(''challenge_id'', challenge_id (challenge_of d)), (''patch'', JStr patch)],
     w\<lparr>ext := b_patch, logs := logs w @ lock_log @ success_log d repo_path answer patch\<rparr>)"
    using solve_challenge_success [of ops rq ?w, OF _ assms(3,4) _ assms(6)] assms(2,5,7-13)
    by simp
  from process_challenge_outcome [OF assms(1) this assms(14)] show ?thesis
    by simp
qed

theorem codegen_success_witness:
  "fst (process_challenge
      (scripted_codegen (Inr ''/tmp/repo'') (Inr [Some ''  diff --git a/x b/x  '']) (Inr ())
         (Inr ''diff --git a/x b/x\<newline>+1\<newline>''))
      example_body () (init_world example_env [])) =
     Inr [(''challenge_id'', JStr ''c1''), (''patch'', JStr ''diff --git a/x b/x\<newline>+1\<newline>'')]
   \<and> ext (snd (process_challenge
      (scripted_codegen (Inr ''/tmp/repo'') (Inr [Some ''  diff --git a/x b/x  '']) (Inr ())
         (Inr ''diff --git a/x b/x\<newline>+1\<newline>''))
      example_body () (init_world example_env []))) =
     [''acquire'', ''json'', ''clone:org/repo'', ''chat:gpt-4:2'', ''apply:/tmp/repo'',
      ''diff:/tmp/repo'', ''release'']"
  using codegen_success
    [where ops = "scripted_codegen (Inr ''/tmp/repo'') (Inr [Some ''  diff --git a/x b/x  ''])
         (Inr ()) (Inr ''diff --git a/x b/x\<newline>+1\<newline>'')"
       and w = "init_world example_env []" and rq = example_body and cfg = "()"
       and d = "[(''challenge_id'', JStr ''c1''), (''problem_statement'', JStr ''fix it''),
           (''dynamic_checklist'', JList [JStr ''works'']), (''repository_name'', JStr ''org/repo''),
           (''commit_hash'', JStr ''abc'')]"
       and key = "''sk-1''" and client = "''sk-1''" and repo_path = "''/tmp/repo''"
       and response = "[Some ''  diff --git a/x b/x  '']" and answer = "''  diff --git a/x b/x  ''"
       and rest = "[]" and patch = "''diff --git a/x b/x\<newline>+1\<newline>''"
       and b_lock = "[''acquire'']" and b_json = "[''acquire'', ''json'']"
       and b_clone = "[''acquire'', ''json'', ''clone:org/repo'']"
       and b_client = "[''acquire'', ''json'', ''clone:org/repo'']"
       and b_chat = "[''acquire'', ''json'', ''clone:org/repo'', ''chat:gpt-4:2'']"
       and b_apply = "[''acquire'', ''json'', ''clone:org/repo'', ''chat:gpt-4:2'', ''apply:/tmp/repo'']"
       and b_patch = "[''acquire'', ''json'', ''clone:org/repo'', ''chat:gpt-4:2'', ''apply:/tmp/repo'',
           ''diff:/tmp/repo'']"
       and b_rel = "[''acquire'', ''json'', ''clone:org/repo'', ''chat:gpt-4:2'', ''apply:/tmp/repo'',
           ''diff:/tmp/repo'', ''release'']"]
  by (simp add: example_body_def example_env_def challenge_of_def dict_get_def
      lstrip_def startswith_def py_isspace_def str_nat.simps digit_char_def chat_messages_def)

text \<open>
  Claim C19. A challenge whose problem statement or checklist is missing or
  empty is refused with status 400 after the request has been read and
  logged: nothing is cloned, the model is not asked, and the lock is
  released.
\<close>

theorem codegen_incomplete_is_400:
  assumes "lock_acquire ops (ext w) = (Inr (), b_lock)"
    and "request_json ops rq b_lock = (Inr (JDict d), b_json)"
    and "\<not> py_truthy (problem_statement (challenge_of d)) \<or>
         \<not> py_truthy (dynamic_checklist (challenge_of d))"
    and "lock_release ops b_json = (Inr (), b_rel)"
  shows "process_challenge ops rq cfg w =
    (Inl (HTTPException 400 ''Incomplete problem provided''),
     w\<lparr>ext := b_rel, logs := logs w @ lock_log @
       [(INFO, ''Received challenge data: '' @ dumps_indent 2 0 (JDict d)),
        (INFO, ''Releasing miner lock...'')]\<rparr>)"
proof -
  let ?w = "w\<lparr>ext := b_lock, logs := logs w @ lock_log\<rparr>"
  have "solve_challenge ops rq ?w =
    (Inl (HTTPException 400 ''Incomplete problem provided''),
     w\<lparr>ext := b_json, logs := logs w @ lock_log @
       [(INFO, ''Received challenge data: '' @ dumps_indent 2 0 (JDict d))]\<rparr>)"
    using solve_challenge_incomplete [of ops rq ?w, OF _ assms(3)] assms(2)
    by simp
  from process_challenge_outcome [OF assms(1) this assms(4)] show ?thesis
    by simp
qed

theorem codegen_incomplete_witness:
  "fst (process_challenge (scripted_codegen (Inr ''/tmp/repo'') (Inr []) (Inr ()) (Inr ''p''))
      (JDict [(''problem_statement'', JStr ''fix it''), (''dynamic_checklist'', JList [])]) ()
      (init_world example_env [])) = Inl (HTTPException 400 ''Incomplete problem provided'')
   \<and> ext (snd (process_challenge (scripted_codegen (Inr ''/tmp/repo'') (Inr []) (Inr ()) (Inr ''p''))
      (JDict [(''problem_statement'', JStr ''fix it''), (''dynamic_checklist'', JList [])]) ()
      (init_world example_env []))) = [''acquire'', ''json'', ''release'']"
  using codegen_incomplete_is_400
    [where ops = "scripted_codegen (Inr ''/tmp/repo'') (Inr []) (Inr ()) (Inr ''p'')"
       and w = "init_world example_env []" and cfg = "()"
       and rq = "JDict [(''problem_statement'', JStr ''fix it''), (''dynamic_checklist'', JList [])]"
       and d = "[(''problem_statement'', JStr ''fix it''), (''dynamic_checklist'', JList [])]"
       and b_lock = "[''acquire'']" and b_json = "[''acquire'', ''json'']"
       and b_rel = "[''acquire'', ''json'', ''release'']"]
  by (simp add: challenge_of_def dict_get_def)

text \<open>
  Claim C20. Once the lock has been acquired, the last thing the handler does
  to its collaborators is to release it, on every path: whatever the release
  establishes (\<open>Q\<close>) holds of the collaborators' state when the handler
  ends, whether it returns, fails or is cancelled.
\<close>

theorem codegen_lock_released:
  assumes "\<And>b. Q (snd (lock_release ops b))" and "is_ok (fst (lock_acquire ops (ext w)))"
  shows "Q (ext (snd (process_challenge ops rq cfg w)))"
proof -
  obtain u b where acq: "lock_acquire ops (ext w) = (Inr u, b)"
    using assms(2) by (cases "lock_acquire ops (ext w)") (auto simp: is_ok_iff)
  then have "ext (snd (process_challenge ops rq cfg w)) =
    ext (snd (try_finally
      (bnd (logger_log INFO ''Miner lock acquired, processing challenge...'') (\<lambda>_.
        handle_challenge ops rq))
      (call (lock_release ops))
      (w\<lparr>logs := logs w @ [(INFO, ''Attempting to acquire miner lock...'')], ext := b\<rparr>)))"
    by (simp add: process_challenge_def with_miner_lock_def bnd_def logger_log_def call_def)
  then show ?thesis
    by (simp only: try_finally_call_ext assms(1))
qed

theorem codegen_lock_released_witness:
  "last (ext (snd (process_challenge
      (scripted_codegen (Inl (OtherError ''no network'')) (Inr []) (Inr ()) (Inr ''p''))
      example_body () (init_world example_env [])))) = ''release''"
  using codegen_lock_released
    [where Q = "\<lambda>b. last b = ''release''" and w = "init_world example_env []"
       and ops = "scripted_codegen (Inl (OtherError ''no network'')) (Inr []) (Inr ()) (Inr ''p'')"]
  by simp

text \<open>
  Claim C21. If waiting for the lock and releasing it raise no \<open>Exception\<close>,
  every \<open>Exception\<close> that leaves the handler is an \<open>HTTPException\<close>.
\<close>

theorem codegen_raises_http_only:
  assumes "\<And>b e. fst (lock_acquire ops b) = Inl e \<Longrightarrow> \<not> is_Exception e"
    and "\<And>b e. fst (lock_release ops b) = Inl e \<Longrightarrow> \<not> is_Exception e"
  shows "raises_only (\<lambda>e. is_HTTPException e \<or> \<not> is_Exception e) (process_challenge ops rq cfg)"
  unfolding process_challenge_def with_miner_lock_def handle_challenge_def challenge_failed_def
  by (intro raises_intros raises_only_call) (simp_all add: assms)

theorem codegen_raises_witness:
  "raises_only (\<lambda>e. is_HTTPException e \<or> \<not> is_Exception e)
     (process_challenge
        (scripted_codegen (Inl (OtherError ''no network'')) (Inr []) (Inr ()) (Inr ''p''))
        example_body ())"
  by (rule codegen_raises_http_only) simp_all

text \<open>
  Claim C24. When the key of the language model is unset or empty, a complete
  challenge is refused with status 500 and an error record; nothing is
  cloned and the model is not asked.
\<close>

theorem codegen_key_unset:
  assumes "lock_acquire ops (ext w) = (Inr (), b_lock)"
    and "request_json ops rq b_lock = (Inr (JDict d), b_json)"
    and "py_truthy (problem_statement (challenge_of d))"
    and "py_truthy (dynamic_checklist (challenge_of d))"
    and "environ w ''OPENAI_API_KEY'' = None \<or> environ w ''OPENAI_API_KEY'' = Some []"
    and "lock_release ops b_json = (Inr (), b_rel)"
  shows "process_challenge ops rq cfg w =
    (Inl (HTTPException 500 ''OpenAI API key not set in environment''),
     w\<lparr>ext := b_rel, logs := logs w @ lock_log @
       [(INFO, ''Received challenge data: '' @ dumps_indent 2 0 (JDict d)),
        (ERROR, ''OpenAI API key not set in environment''),
        (INFO, ''Releasing miner lock...'')]\<rparr>)"
proof -
  let ?w = "w\<lparr>ext := b_lock, logs := logs w @ lock_log\<rparr>"
  have "solve_challenge ops rq ?w =
    (Inl (HTTPException 500 ''OpenAI API key not set in environment''),
     w\<lparr>ext := b_json, logs := logs w @ lock_log @
       [(INFO, ''Received challenge data: '' @ dumps_indent 2 0 (JDict d)),
        (ERROR, ''OpenAI API key not set in environment'')]\<rparr>)"
    using solve_challenge_key_unset [of ops rq ?w, OF _ assms(3,4)] assms(2,5)
    by simp
  from process_challenge_outcome [OF assms(1) this assms(6)] show ?thesis
    by simp
qed

theorem codegen_key_unset_witness:
  "fst (process_challenge (scripted_codegen (Inr ''/tmp/repo'') (Inr []) (Inr ()) (Inr ''p''))
      example_body () (init_world [''OPENAI_API_KEY'' \<mapsto> []] [])) =
     Inl (HTTPException 500 ''OpenAI API key not set in environment'')
   \<and> ext (snd (process_challenge (scripted_codegen (Inr ''/tmp/repo'') (Inr []) (Inr ()) (Inr ''p''))
      example_body () (init_world [''OPENAI_API_KEY'' \<mapsto> []] []))) =
     [''acquire'', ''json'', ''release'']"
  using codegen_key_unset
    [where ops = "scripted_codegen (Inr ''/tmp/repo'') (Inr []) (Inr ()) (Inr ''p'')"
       and w = "init_world [''OPENAI_API_KEY'' \<mapsto> []] []" and cfg = "()" and rq = example_body
       and d = "[(''challenge_id'', JStr ''c1''), (''problem_statement'', JStr ''fix it''),
           (''dynamic_checklist'', JList [JStr ''works'']), (''repository_name'', JStr ''org/repo''),
           (''commit_hash'', JStr ''abc'')]"
       and b_lock = "[''acquire'']" and b_json = "[''acquire'', ''json'']"
       and b_rel = "[''acquire'', ''json'', ''release'']"]
  by (simp add: example_body_def challenge_of_def dict_get_def)

text \<open>
  Claim C25. An answer of the model that does not start with \<open>diff --git\<close>
  (leading whitespace apart) is refused with status 500 and logged in its
  normalised form; no patch is applied and none is generated.
\<close>

theorem codegen_invalid_answer:
  assumes "lock_acquire ops (ext w) = (Inr (), b_lock)"
    and "request_json ops rq b_lock = (Inr (JDict d), b_json)"
    and "py_truthy (problem_statement (challenge_of d))"
    and "py_truthy (dynamic_checklist (challenge_of d))"
    and "environ w ''OPENAI_API_KEY'' = Some key" and "key \<noteq> []"
    and "clone_and_checkout_repo ops (repository (challenge_of d)) (commit_hash (challenge_of d))
           b_json = (Inr repo_path, b_clone)"
    and "OpenAI (llm_client ops) key b_clone = (Inr client, b_client)"
    and "chat_completions_create (llm_client ops) client ''gpt-4''
           (chat_messages (problem_statement (challenge_of d))) b_client = (Inr response, b_chat)"
    and "choices_content (llm_client ops) response = Some answer # rest"
    and "\<not> startswith (lstrip answer) ''diff --git''"
    and "lock_release ops b_chat = (Inr (), b_rel)"
  shows "process_challenge ops rq cfg w =
    (Inl (HTTPException 500 ''LLM did not return a valid git diff (patch).''),
     w\<lparr>ext := b_rel, logs := logs w @ lock_log @ progress_log d repo_path @
       [(INFO, ''Generated solution patch: '' @ answer),
        (ERROR, ''LLM output is not a valid git diff (patch). Output was: ''
                @ normalise_patch answer),
        (INFO, ''Releasing miner lock...'')]\<rparr>)"
proof -
  let ?w = "w\<lparr>ext := b_lock, logs := logs w @ lock_log\<rparr>"
  have "solve_challenge ops rq ?w =
    (Inl (HTTPException 500 ''LLM did not return a valid git diff (patch).''),
     w\<lparr>ext := b_chat, logs := logs w @ lock_log @ (progress_log d repo_path @
       [(INFO, ''Generated solution patch: '' @ answer),
        (ERROR, ''LLM output is not a valid git diff (patch). Output was: ''
                @ normalise_patch answer)])\<rparr>)"
    using solve_challenge_invalid_answer [of ops rq ?w, OF _ assms(3,4) _ assms(6)] assms(2,5,7-11)
    by simp
  from process_challenge_outcome [OF assms(1) this assms(12)] show ?thesis
    by simp
qed

theorem codegen_invalid_answer_witness:
  "fst (process_challenge
      (scripted_codegen (Inr ''/tmp/repo'') (Inr [Some ''Here is the patch'']) (Inr ()) (Inr ''p''))
      example_body () (init_world example_env [])) =
     Inl (HTTPException 500 ''LLM did not return a valid git diff (patch).'')
   \<and> ext (snd (process_challenge
      (scripted_codegen (Inr ''/tmp/repo'') (Inr [Some ''Here is the patch'']) (Inr ()) (Inr ''p''))
      example_body () (init_world example_env []))) =
     [''acquire'', ''json'', ''clone:org/repo'', ''chat:gpt-4:2'', ''release'']"
  using codegen_invalid_answer
    [where ops = "scripted_codegen (Inr ''/tmp/repo'') (Inr [Some ''Here is the patch'']) (Inr ())
         (Inr ''p'')"
       and w = "init_world example_env []" and rq = example_body and cfg = "()"
       and d = "[(''challenge_id'', JStr ''c1''), (''problem_statement'', JStr ''fix it''),
           (''dynamic_checklist'', JList [JStr ''works'']), (''repository_name'', JStr ''org/repo''),
           (''commit_hash'', JStr ''abc'')]"
       and key = "''sk-1''" and client = "''sk-1''" and repo_path = "''/tmp/repo''"
       and response = "[Some ''Here is the patch'']" and answer = "''Here is the patch''"
       and rest = "[]"
       and b_lock = "[''acquire'']" and b_json = "[''acquire'', ''json'']"
       and b_clone = "[''acquire'', ''json'', ''clone:org/repo'']"
       and b_client = "[''acquire'', ''json'', ''clone:org/repo'']"
       and b_chat = "[''acquire'', ''json'', ''clone:org/repo'', ''chat:gpt-4:2'']"
       and b_rel = "[''acquire'', ''json'', ''clone:org/repo'', ''chat:gpt-4:2'', ''release'']"]
  by (simp add: example_body_def example_env_def challenge_of_def dict_get_def
      lstrip_def startswith_def py_isspace_def str_nat.simps digit_char_def chat_messages_def)

text \<open>
  Claim C26. When applying the patch raises an \<open>Exception\<close>, the caller
  receives status 500 whose detail is \<open>Failed to apply patch:\<close> and the
  text of the exception; the outer handler does not wrap it again, and no
  patch is generated.
\<close>

theorem codegen_apply_failure:
  assumes "lock_acquire ops (ext w) = (Inr (), b_lock)"
    and "request_json ops rq b_lock = (Inr (JDict d), b_json)"
    and "py_truthy (problem_statement (challenge_of d))"
    and "py_truthy (dynamic_checklist (challenge_of d))"
    and "environ w ''OPENAI_API_KEY'' = Some key" and "key \<noteq> []"
    and "clone_and_checkout_repo ops (repository (challenge_of d)) (commit_hash (challenge_of d))
           b_json = (Inr repo_path, b_clone)"
    and "OpenAI (llm_client ops) key b_clone = (Inr client, b_client)"
    and "chat_completions_create (llm_client ops) client ''gpt-4''
           (chat_messages (problem_statement (challenge_of d))) b_client = (Inr response, b_chat)"
    and "choices_content (llm_client ops) response = Some answer # rest"
    and "startswith (lstrip answer) ''diff --git''"
    and "apply_patch ops repo_path (normalise_patch answer) b_chat = (Inl e, b_apply)"
    and "is_Exception e"
    and "lock_release ops b_apply = (Inr (), b_rel)"
  shows "process_challenge ops rq cfg w =
    (Inl (HTTPException 500 (''Failed to apply patch: '' @ str_exn e)),
     w\<lparr>ext := b_rel, logs := logs w @ lock_log @ progress_log d repo_path @
       [(INFO, ''Generated solution patch: '' @ answer),
        (ERROR, ''Failed to apply patch: '' @ str_exn e),
        (INFO, ''Releasing miner lock...'')]\<rparr>)"
proof -
  let ?w = "w\<lparr>ext := b_lock, logs := logs w @ lock_log\<rparr>"
  have "solve_challenge ops rq ?w =
    (Inl (HTTPException 500 (''Failed to apply patch: '' @ str_exn e)),
     w\<lparr>ext := b_apply, logs := logs w @ lock_log @ (progress_log d repo_path @
       [(INFO, ''Generated solution patch: '' @ answer),
        (ERROR, ''Failed to apply patch: '' @ str_exn e)])\<rparr>)"
    using solve_challenge_apply_fails [of ops rq ?w, OF _ assms(3,4) _ assms(6)]
      assms(2,5,7-13)
    by simp
  from process_challenge_outcome [OF assms(1) this assms(14)] show ?thesis
    by simp
qed

theorem codegen_apply_failure_witness:
  "fst (process_challenge
      (scripted_codegen (Inr ''/tmp/repo'') (Inr [Some ''diff --git a/x b/x''])
         (Inl (OtherError ''corrupt patch at line 3'')) (Inr ''p''))
      example_body () (init_world example_env [])) =
     Inl (HTTPException 500 ''Failed to apply patch: corrupt patch at line 3'')
   \<and> ext (snd (process_challenge
      (scripted_codegen (Inr ''/tmp/repo'') (Inr [Some ''diff --git a/x b/x''])
         (Inl (OtherError ''corrupt patch at line 3'')) (Inr ''p''))
      example_body () (init_world example_env []))) =
     [''acquire'', ''json'', ''clone:org/repo'', ''chat:gpt-4:2'', ''apply:/tmp/repo'', ''release'']"
  using codegen_apply_failure
    [where ops = "scripted_codegen (Inr ''/tmp/repo'') (Inr [Some ''diff --git a/x b/x''])
         (Inl (OtherError ''corrupt patch at line 3'')) (Inr ''p'')"
       and w = "init_world example_env []" and rq = example_body and cfg = "()"
       and d = "[(''challenge_id'', JStr ''c1''), (''problem_statement'', JStr ''fix it''),
           (''dynamic_checklist'', JList [JStr ''works'']), (''repository_name'', JStr ''org/repo''),
           (''commit_hash'', JStr ''abc'')]"
       and key = "''sk-1''" and client = "''sk-1''" and repo_path = "''/tmp/repo''"
       and response = "[Some ''diff --git a/x b/x'']" and answer = "''diff --git a/x b/x''"
       and rest = "[]" and e = "OtherError ''corrupt patch at line 3''"
       and b_lock = "[''acquire'']" and b_json = "[''acquire'', ''json'']"
       and b_clone = "[''acquire'', ''json'', ''clone:org/repo'']"
       and b_client = "[''acquire'', ''json'', ''clone:org/repo'']"
       and b_chat = "[''acquire'', ''json'', ''clone:org/repo'', ''chat:gpt-4:2'']"
       and b_apply = "[''acquire'', ''json'', ''clone:org/repo'', ''chat:gpt-4:2'', ''apply:/tmp/repo'']"
       and b_rel = "[''acquire'', ''json'', ''clone:org/repo'', ''chat:gpt-4:2'', ''apply:/tmp/repo'',
           ''release'']"]
  by (simp add: example_body_def example_env_def challenge_of_def dict_get_def
      lstrip_def startswith_def py_isspace_def str_nat.simps digit_char_def chat_messages_def)

text \<open>
  Claim C27. An \<open>Exception\<close> of the body that is not an \<open>HTTPException\<close>
  (a failing collaborator, or a request body that is not an object) is logged
  twice and becomes status 500 with the text of the exception in its detail;
  the lock is released.
\<close>

theorem codegen_unexpected_error_is_500:
  assumes "lock_acquire ops (ext w) = (Inr (), b_lock)"
    and "solve_challenge ops rq (w\<lparr>ext := b_lock, logs := logs w @ lock_log\<rparr>) =
           (Inl e, w\<lparr>ext := b_body, logs := logs w @ lock_log @ ls\<rparr>)"
    and "is_Exception e" and "\<not> is_HTTPException e"
    and "lock_release ops b_body = (Inr (), b_rel)"
  shows "process_challenge ops rq cfg w =
    (Inl (HTTPException 500 (''Challenge processing error: '' @ str_exn e)),
     w\<lparr>ext := b_rel, logs := logs w @ lock_log @ ls @
       [(ERROR, ''Error processing soccer challenge: '' @ str_exn e),
        (ERROR, ''Full error traceback:''),
        (INFO, ''Releasing miner lock...'')]\<rparr>)"
  using process_challenge_outcome [OF assms(1,2,5)] assms(3,4)
  by (simp add: challenge_outcome_def challenge_outcome_logs_def)

theorem codegen_unexpected_error_witness:
  "process_challenge (scripted_codegen (Inr ''/tmp/repo'') (Inr []) (Inr ()) (Inr ''p''))
      (JList []) () (init_world example_env []) =
   (Inl (HTTPException 500
          (''Challenge processing error: 'list' object has no attribute 'get'' @ [CHR 0x27])),
    \<lparr>environ = example_env,
      logs = lock_log @
        [(ERROR, ''Error processing soccer challenge: 'list' object has no attribute 'get'' @ [CHR 0x27]),
         (ERROR, ''Full error traceback:''), (INFO, ''Releasing miner lock...'')],
      stdout = [], ext = [''acquire'', ''json'', ''release'']\<rparr>)"
  using codegen_unexpected_error_is_500
    [where ops = "scripted_codegen (Inr ''/tmp/repo'') (Inr []) (Inr ()) (Inr ''p'')"
       and w = "init_world example_env []" and cfg = "()" and rq = "JList []"
       and e = "AttributeError ''list'' ''get''" and ls = "[]"
       and b_lock = "[''acquire'']" and b_body = "[''acquire'', ''json'']"
       and b_rel = "[''acquire'', ''json'', ''release'']"]
  by (simp add: solve_challenge_not_dict init_world_def)

end
