(* ===== verification/CiRegression.thy ===== *)
theory CiRegression
  imports Json Routing
begin

text \<open>
  The miner's CI-regression endpoint
  (\<open>src/miner/endpoints/ci_regression.py\<close>,
  \<open>process_ci_regression_challenge\<close>): clone the repository, copy it to a
  fresh directory under \<open>repos/\<close>, write the configuration of the external
  coding agent, run the agent as a subprocess with a timeout, and answer with
  the patch of the clone.

  The definitions follow the steps of the body: \<open>prepare_repo\<close> (steps 1 and
  2 up to the clean-up of the root directory), \<open>report_workspace\<close> (the
  relative path and the printed report), \<open>swe_config\<close> and
  \<open>write_swe_config\<close> (step 3), \<open>run_swe_agent\<close> (step 4, the \<open>try\<close> with
  its two \<open>except\<close> clauses) and the handler (steps 5 and 6).

  \<open>os.path.join\<close> and \<open>os.path.basename\<close> are functions on strings (POSIX
  paths). The file system, the working directory, \<open>os.path.relpath\<close>,
  \<open>uuid.uuid4\<close>, the temporary file and \<open>subprocess.run\<close> are collaborators
  (\<open>ci_ops\<close>): each use is a call that may fail, and the theorems hold for
  every implementation.
\<close>

section \<open>Data\<close>

record GeneratedRegressionProblem =
  challenge_id :: string
  repository_url :: string
  commit_hash :: "string option"
  problem_statement :: string
  context_file_paths :: "string list option"

record CompletedProcess =
  returncode :: int
  proc_stdout :: string
  proc_stderr :: string

text \<open>
  The configuration is a nested mapping whose leaves are strings and one
  decimal number; \<open>YNum m k\<close> is \<open>m / 10 ^ k\<close>.
\<close>

datatype yaml = YStr string | YNum int nat | YMap "(string \<times> yaml) list"

record workspace =
  repo_path :: string
  repos_dir :: string
  repo_name :: string
  target_path :: string

section \<open>Collaborators\<close>

record 'b ci_ops =
  clone_and_checkout_repo :: "string \<Rightarrow> string option \<Rightarrow> ('b, string) extcall"
  generate_patch :: "string \<Rightarrow> ('b, string) extcall"
  getcwd :: "('b, string) extcall"
  relpath :: "string \<Rightarrow> string \<Rightarrow> ('b, string) extcall"
  makedirs :: "string \<Rightarrow> ('b, unit) extcall"
  uuid4 :: "('b, string) extcall"
  path_exists :: "string \<Rightarrow> ('b, bool) extcall"
  rmtree :: "string \<Rightarrow> ('b, unit) extcall"
  copytree :: "string \<Rightarrow> string \<Rightarrow> ('b, unit) extcall"
  listdir :: "string \<Rightarrow> ('b, string list) extcall"
  write_yaml_tempfile :: "yaml \<Rightarrow> ('b, string) extcall"
  subprocess_run :: "string list \<Rightarrow> nat \<Rightarrow> string \<Rightarrow> ('b, CompletedProcess) extcall"

section \<open>Paths and texts\<close>

definition os_path_join :: "string \<Rightarrow> string \<Rightarrow> string" where
  "os_path_join a b =
     (if startswith b ''/'' then b
      else if a = [] \<or> last a = CHR ''/'' then a @ b
      else a @ ''/'' @ b)"

definition os_path_basename :: "string \<Rightarrow> string" where
  "os_path_basename p = rev (takeWhile (\<lambda>c. c \<noteq> CHR ''/'') (rev p))"

definition repr_optional_str :: "string option \<Rightarrow> string" where
  "repr_optional_str x = (case x of None \<Rightarrow> ''None'' | Some s \<Rightarrow> py_repr_str s)"

definition repr_str_list :: "string list \<Rightarrow> string" where
  "repr_str_list xs = py_repr (JList (map JStr xs))"

definition payload_str :: "GeneratedRegressionProblem \<Rightarrow> string" where
  "payload_str payload =
     py_join '' ''
       [''challenge_id='' @ py_repr_str (challenge_id payload),
        ''repository_url='' @ py_repr_str (repository_url payload),
        ''commit_hash='' @ repr_optional_str (commit_hash payload),
        ''problem_statement='' @ py_repr_str (problem_statement payload),
        ''context_file_paths='' @
          (case context_file_paths payload of None \<Rightarrow> ''None'' | Some xs \<Rightarrow> repr_str_list xs)]"

section \<open>Steps 1 and 2: the clone and its copy\<close>

definition prepare_repo ::
  "'b ci_ops \<Rightarrow> GeneratedRegressionProblem \<Rightarrow> ('b world, workspace) prog" where
  "prepare_repo ops payload =
     bnd (call (clone_and_checkout_repo ops (repository_url payload) (commit_hash payload)))
       (\<lambda>repo_path.
     bnd (print_line (''Cloned repository to: '' @ repo_path)) (\<lambda>_.
     bnd (call (getcwd ops)) (\<lambda>cwd.
     bnd (call (makedirs ops (os_path_join cwd ''repos''))) (\<lambda>_.
     bnd (call (uuid4 ops)) (\<lambda>u.
     let ws = \<lparr>repo_path = repo_path, repos_dir = os_path_join cwd ''repos'',
                repo_name = os_path_basename repo_path @ ''_'' @ take 8 u,
                target_path = os_path_join (os_path_join cwd ''repos'')
                  (os_path_basename repo_path @ ''_'' @ take 8 u)\<rparr> in
     bnd (call (path_exists ops (target_path ws))) (\<lambda>target_exists.
     bnd (if target_exists then call (rmtree ops (target_path ws)) else ret ()) (\<lambda>_.
     bnd (call (copytree ops repo_path (target_path ws))) (\<lambda>_.
     bnd (call (path_exists ops (''/'' @ repo_name ws))) (\<lambda>root_exists.
     bnd (if root_exists then call (rmtree ops (''/'' @ repo_name ws)) else ret ()) (\<lambda>_.
     ret ws))))))))))"

definition report_workspace :: "'b ci_ops \<Rightarrow> workspace \<Rightarrow> ('b world, string) prog" where
  "report_workspace ops ws =
     bnd (call (getcwd ops)) (\<lambda>cwd.
     bnd (call (relpath ops (target_path ws) cwd)) (\<lambda>relative_repo_path.
     bnd (print_line (''repo_path: '' @ repo_path ws)) (\<lambda>_.
     bnd (print_line (''repo_name: '' @ repo_name ws)) (\<lambda>_.
     bnd (print_line (''target_path: '' @ target_path ws)) (\<lambda>_.
     bnd (print_line (''relative_repo_path: '' @ relative_repo_path)) (\<lambda>_.
     bnd (call (getcwd ops)) (\<lambda>cwd.
     bnd (print_line (''Current working directory: '' @ cwd)) (\<lambda>_.
     bnd (call (getcwd ops)) (\<lambda>cwd.
     bnd (call (listdir ops cwd)) (\<lambda>names.
     bnd (print_line (''Contents of working directory: '' @ repr_str_list names)) (\<lambda>_.
     bnd (call (listdir ops (repos_dir ws))) (\<lambda>names.
     bnd (print_line (''Contents of repos directory: '' @ repr_str_list names)) (\<lambda>_.
     ret relative_repo_path)))))))))))))"

section \<open>Step 3: the configuration of the agent\<close>

definition swe_config :: "string \<Rightarrow> string \<Rightarrow> yaml" where
  "swe_config relative_repo_path problem =
     YMap [(''agent'', YMap [(''model'', YMap [(''name'', YStr ''claude-3-7-sonnet-20250219''),
                                              (''per_instance_cost_limit'', YNum 300 2)])]),
           (''env'', YMap [(''repo'', YMap [(''path'', YStr relative_repo_path)]),
                          (''deployment'', YMap [(''type'', YStr ''local'')])]),
           (''problem_statement'', YMap [(''text'', YStr problem)])]"

definition write_swe_config :: "'b ci_ops \<Rightarrow> yaml \<Rightarrow> ('b world, string) prog" where
  "write_swe_config ops config =
     bnd (call (write_yaml_tempfile ops config)) (\<lambda>swe_config_path.
     bnd (print_line (''Generated SWE-agent config at: '' @ swe_config_path)) (\<lambda>_.
     ret swe_config_path))"

section \<open>Step 4: running the agent\<close>

definition agent_failed :: "exn \<Rightarrow> ('b world, unit) prog" where
  "agent_failed e =
     (case e of
        TimeoutExpired cmd t \<Rightarrow>
          raise (HTTPException 500
            ''SWE-agent timed out (cost cap reached or infinite loop prevented)'')
      | _ \<Rightarrow> raise (HTTPException 500 (''Error running SWE-agent: '' @ str_exn e)))"

definition run_swe_agent :: "'b ci_ops \<Rightarrow> string \<Rightarrow> ('b world, unit) prog" where
  "run_swe_agent ops swe_config_path =
     try_except
       (bnd (call (getcwd ops)) (\<lambda>cwd.
        bnd (call (subprocess_run ops [''sweagent'', ''run'', ''--config'', swe_config_path]
               1200 cwd)) (\<lambda>result.
        bnd (print_line (''SWE-agent stdout: '' @ proc_stdout result)) (\<lambda>_.
        bnd (print_line (''SWE-agent stderr: '' @ proc_stderr result)) (\<lambda>_.
        if returncode result \<noteq> 0
        then raise (HTTPException 500 (''SWE-agent failed: '' @ proc_stderr result))
        else ret ())))))
       is_Exception agent_failed"

section \<open>The handler\<close>

definition process_ci_regression_challenge ::
  "'b ci_ops \<Rightarrow> GeneratedRegressionProblem \<Rightarrow> ('b world, pydict) prog" where
  "process_ci_regression_challenge ops payload =
     bnd (print_line (''Received CI regression challenge: '' @ payload_str payload)) (\<lambda>_.
     bnd (prepare_repo ops payload) (\<lambda>ws.
     bnd (report_workspace ops ws) (\<lambda>relative_repo_path.
     bnd (getenv ''ANTHROPIC_API_KEY'') (\<lambda>anthropic_api_key.
     if anthropic_api_key = None \<or> anthropic_api_key = Some []
     then raise (HTTPException 500 ''Anthropic API key not set in environment'')
     else
     bnd (write_swe_config ops (swe_config relative_repo_path (problem_statement payload)))
       (\<lambda>swe_config_path.
     bnd (run_swe_agent ops swe_config_path) (\<lambda>_.
     bnd (call (generate_patch ops (repo_path ws))) (\<lambda>patch.
     ret [(''challenge_id'', JStr (challenge_id payload)), (''patch'', JStr patch)])))))))"

lemmas ci_defs =
  prepare_repo_def report_workspace_def write_swe_config_def run_swe_agent_def
  agent_failed_def process_ci_regression_challenge_def

section \<open>The route\<close>

datatype ci_regression_endpoint = Process_ci_regression_challenge

definition ci_regression_router :: "ci_regression_endpoint api_router" where
  "ci_regression_router =
     add_api_route ''/challenge'' Process_ci_regression_challenge [] [] [POST] []"

section \<open>A recording collaborator\<close>

text \<open>
  For the closed instances: the state is the list of the calls that change
  the file system or start a process; the working directory is \<open>/app\<close>, the
  clone is \<open>/clones/repo\<close>, and the configuration is recorded by the path of
  the repository it names.
\<close>

fun yaml_get :: "yaml \<Rightarrow> string list \<Rightarrow> yaml option" where
  "yaml_get y [] = Some y"
| "yaml_get (YMap kvs) (k # ks) = (case map_of kvs k of None \<Rightarrow> None | Some y \<Rightarrow> yaml_get y ks)"
| "yaml_get y (k # ks) = None"

definition config_repo_path :: "yaml \<Rightarrow> string" where
  "config_repo_path config =
     (case yaml_get config [''env'', ''repo'', ''path''] of Some (YStr p) \<Rightarrow> p | _ \<Rightarrow> [])"

definition scripted_ci ::
  "(string \<Rightarrow> bool) \<Rightarrow> (exn, CompletedProcess) result \<Rightarrow> (exn, string) result \<Rightarrow>
   string list ci_ops" where
  "scripted_ci exists r_run r_patch =
     \<lparr>clone_and_checkout_repo = (\<lambda>url commit b. (Inr ''/clones/repo'', b @ [''clone:'' @ url])),
      generate_patch = (\<lambda>path b. (r_patch, b @ [''diff:'' @ path])),
      getcwd = (\<lambda>b. (Inr ''/app'', b)),
      relpath = (\<lambda>path start b. (Inr (drop (Suc (length start)) path), b)),
      makedirs = (\<lambda>path b. (Inr (), b @ [''makedirs:'' @ path])),
      uuid4 = (\<lambda>b. (Inr ''1234abcd-0000-4000-8000-000000000000'', b)),
      path_exists = (\<lambda>path b. (Inr (exists path), b)),
      rmtree = (\<lambda>path b. (Inr (), b @ [''rmtree:'' @ path])),
      copytree = (\<lambda>src dst b. (Inr (), b @ [''copytree:'' @ src @ ''->'' @ dst])),
      listdir = (\<lambda>path b. (Inr [''repos''], b)),
      write_yaml_tempfile = (\<lambda>config b. (Inr ''/tmp/swe.yaml'', b @ [''config:'' @ config_repo_path config])),
      subprocess_run = (\<lambda>cmd t cwd b. (r_run, b @ [''run:'' @ py_join '' '' cmd]))\<rparr>"

lemma scripted_ci_sel [simp]:
  "clone_and_checkout_repo (scripted_ci ex rr rp) url commit b =
     (Inr ''/clones/repo'', b @ [''clone:'' @ url])"
  "generate_patch (scripted_ci ex rr rp) path b = (rp, b @ [''diff:'' @ path])"
  "getcwd (scripted_ci ex rr rp) b = (Inr ''/app'', b)"
  "relpath (scripted_ci ex rr rp) path start b = (Inr (drop (Suc (length start)) path), b)"
  "makedirs (scripted_ci ex rr rp) path b = (Inr (), b @ [''makedirs:'' @ path])"
  "uuid4 (scripted_ci ex rr rp) b = (Inr ''1234abcd-0000-4000-8000-000000000000'', b)"
  "path_exists (scripted_ci ex rr rp) path b = (Inr (ex path), b)"
  "rmtree (scripted_ci ex rr rp) path b = (Inr (), b @ [''rmtree:'' @ path])"
  "copytree (scripted_ci ex rr rp) src dst b = (Inr (), b @ [''copytree:'' @ src @ ''->'' @ dst])"
  "listdir (scripted_ci ex rr rp) path b = (Inr [''repos''], b)"
  "write_yaml_tempfile (scripted_ci ex rr rp) config b =
     (Inr ''/tmp/swe.yaml'', b @ [''config:'' @ config_repo_path config])"
  "subprocess_run (scripted_ci ex rr rp) cmd t cwd b = (rr, b @ [''run:'' @ py_join '' '' cmd])"
  by (simp_all add: scripted_ci_def)

definition example_payload :: GeneratedRegressionProblem where
  "example_payload = \<lparr>challenge_id = ''c1'', repository_url = ''https://git.example/repo'',
     commit_hash = None, problem_statement = ''fix the regression'', context_file_paths = None\<rparr>"

definition example_workspace :: workspace where
  "example_workspace = \<lparr>repo_path = ''/clones/repo'', repos_dir = ''/app/repos'',
     repo_name = ''repo_1234abcd'', target_path = ''/app/repos/repo_1234abcd''\<rparr>"

definition agent_error :: "exn \<Rightarrow> exn" where
  "agent_error e =
     (case e of
        TimeoutExpired cmd t \<Rightarrow>
          HTTPException 500 ''SWE-agent timed out (cost cap reached or infinite loop prevented)''
      | _ \<Rightarrow> HTTPException 500 (''Error running SWE-agent: '' @ str_exn e))"

definition received_line :: "GeneratedRegressionProblem \<Rightarrow> string" where
  "received_line payload = ''Received CI regression challenge: '' @ payload_str payload"

section \<open>Paths\<close>

lemma basename_no_slash: "CHR ''/'' \<notin> set (os_path_basename p)"
  using set_takeWhileD [of "CHR ''/''" "\<lambda>c. c \<noteq> CHR ''/''" "rev p"]
  by (auto simp: os_path_basename_def)

lemma takeWhile_no_slash:
  "CHR ''/'' \<notin> set n \<Longrightarrow> takeWhile (\<lambda>c. c \<noteq> CHR ''/'') (rev n @ CHR ''/'' # xs) = rev n"
  by (subst takeWhile_append2) auto

lemma basename_append_slash:
  "CHR ''/'' \<notin> set n \<Longrightarrow> os_path_basename (d @ CHR ''/'' # n) = n"
  by (simp add: os_path_basename_def takeWhile_no_slash)

lemma basename_plain: "CHR ''/'' \<notin> set n \<Longrightarrow> os_path_basename n = n"
  using basename_append_slash [of n "[]"]
  by (simp add: os_path_basename_def takeWhile_tail)

lemma basename_join: "CHR ''/'' \<notin> set n \<Longrightarrow> os_path_basename (os_path_join d n) = n"
proof -
  assume n: "CHR ''/'' \<notin> set n"
  then have ns: "\<not> startswith n ''/''"
    by (cases n) (auto simp: startswith_def)
  show ?thesis
  proof (cases "d = []")
    case True
    with n ns show ?thesis
      by (simp add: os_path_join_def basename_plain)
  next
    case False
    show ?thesis
    proof (cases "last d = CHR ''/''")
      case True
      with False obtain d' where d: "d = d' @ ''/''"
        by (metis append_butlast_last_id)
      from n have "os_path_basename (d' @ CHR ''/'' # n) = n"
        by (rule basename_append_slash)
      with ns d show ?thesis
        by (simp add: os_path_join_def)
    next
      case False
      with n ns \<open>d \<noteq> []\<close> show ?thesis
        by (simp add: os_path_join_def basename_append_slash)
    qed
  qed
qed

lemma copy_differs_from_clone:
  assumes "CHR ''/'' \<notin> set uid"
  shows "os_path_join d (os_path_basename rp @ CHR ''_'' # uid) \<noteq> rp"
proof
  assume "os_path_join d (os_path_basename rp @ CHR ''_'' # uid) = rp"
  then have "os_path_basename (os_path_join d (os_path_basename rp @ CHR ''_'' # uid)) =
      os_path_basename rp"
    by simp
  moreover have "CHR ''/'' \<notin> set (os_path_basename rp @ CHR ''_'' # uid)"
    using assms basename_no_slash [of rp] by simp
  ultimately have "os_path_basename rp @ CHR ''_'' # uid = os_path_basename rp"
    using basename_join [of "os_path_basename rp @ CHR ''_'' # uid" d] by simp
  then show False
    by simp
qed

lemma workspace_paths:
  assumes "CHR ''/'' \<notin> set uid"
  shows "os_path_join d (os_path_basename rp @ CHR ''_'' # uid) \<noteq> rp"
    and "os_path_basename (os_path_join d (os_path_basename rp @ CHR ''_'' # uid)) =
         os_path_basename rp @ CHR ''_'' # uid"
proof -
  show "os_path_join d (os_path_basename rp @ CHR ''_'' # uid) \<noteq> rp"
    using assms by (rule copy_differs_from_clone)
  have "CHR ''/'' \<notin> set (os_path_basename rp @ CHR ''_'' # uid)"
    using assms basename_no_slash [of rp] by simp
  then show "os_path_basename (os_path_join d (os_path_basename rp @ CHR ''_'' # uid)) =
         os_path_basename rp @ CHR ''_'' # uid"
    by (rule basename_join)
qed

section \<open>The steps\<close>

lemma agent_failed_raises: "agent_failed e = raise (agent_error e)"
  by (cases e) (simp_all add: agent_failed_def agent_error_def)

lemma prepare_repo_example:
  "prepare_repo (scripted_ci (\<lambda>p. p = ''/repo_1234abcd'') rr rp) example_payload
     \<lparr>environ = env, logs = [], stdout = [received_line example_payload], ext = []\<rparr> =
   (Inr example_workspace,
    \<lparr>environ = env, logs = [],
      stdout = [received_line example_payload, ''Cloned repository to: /clones/repo''],
      ext = [''clone:https://git.example/repo'', ''makedirs:/app/repos'',
             ''copytree:/clones/repo->/app/repos/repo_1234abcd'', ''rmtree:/repo_1234abcd'']\<rparr>)"
  by (simp add: prepare_repo_def prog_simps example_payload_def example_workspace_def
      os_path_join_def os_path_basename_def startswith_def Let_def)

text \<open>The workspace the handler computes from the clone, the working directory and the identifier.\<close>

definition workspace_of :: "string \<Rightarrow> string \<Rightarrow> string \<Rightarrow> workspace" where
  "workspace_of cwd rp u =
     \<lparr>repo_path = rp, repos_dir = os_path_join cwd ''repos'',
      repo_name = os_path_basename rp @ ''_'' @ take 8 u,
      target_path = os_path_join (os_path_join cwd ''repos'')
        (os_path_basename rp @ ''_'' @ take 8 u)\<rparr>"

text \<open>
  Claim C32. The clone and its copy, when every call succeeds: the
  repository is cloned, \<open>repos\<close> is created under the working directory, the
  identifier is drawn, and the clone is copied to the target only after a
  directory that already exists there has been removed; then the directory
  of the copy's name under the root is removed if it exists. The calls
  happen in this order, the removals only where the test found something,
  and the only line printed is the path of the clone.
\<close>

theorem ci_prepare_repo_outcome:
  assumes "clone_and_checkout_repo ops (repository_url payload) (commit_hash payload) (ext w) =
           (Inr rp, ba)"
    and "getcwd ops ba = (Inr cwd, bb)"
    and "makedirs ops (os_path_join cwd ''repos'') bb = (Inr (), bc)"
    and "uuid4 ops bc = (Inr u, bd)"
    and "ws = workspace_of cwd rp u"
    and "path_exists ops (target_path ws) bd = (Inr target_exists, be)"
    and "(if target_exists then rmtree ops (target_path ws) be else (Inr (), be)) = (Inr (), bf)"
    and "copytree ops rp (target_path ws) bf = (Inr (), bg)"
    and "path_exists ops (''/'' @ repo_name ws) bg = (Inr root_exists, bh)"
    and "(if root_exists then rmtree ops (''/'' @ repo_name ws) bh else (Inr (), bh)) =
           (Inr (), bi)"
  shows "prepare_repo ops payload w =
    (Inr ws, w\<lparr>ext := bi, stdout := stdout w @ [''Cloned repository to: '' @ rp]\<rparr>)"
  using assms
  by (simp add: prepare_repo_def workspace_of_def prog_simps Let_def split: if_splits)

theorem ci_prepare_repo_witness:
  "prepare_repo (scripted_ci (\<lambda>p. p = ''/app/repos/repo_1234abcd'') (Inl IndexError) (Inr ''p''))
     example_payload (init_world Map.empty []) =
   (Inr example_workspace,
    \<lparr>environ = Map.empty, logs = [], stdout = [''Cloned repository to: /clones/repo''],
      ext = [''clone:https://git.example/repo'', ''makedirs:/app/repos'',
             ''rmtree:/app/repos/repo_1234abcd'',
             ''copytree:/clones/repo->/app/repos/repo_1234abcd'']\<rparr>)"
  using ci_prepare_repo_outcome
    [where ops = "scripted_ci (\<lambda>p. p = ''/app/repos/repo_1234abcd'') (Inl IndexError) (Inr ''p'')"
       and payload = example_payload and w = "init_world Map.empty []"
       and rp = "''/clones/repo''" and cwd = "''/app''"
       and u = "''1234abcd-0000-4000-8000-000000000000''" and ws = example_workspace
       and target_exists = True and root_exists = False
       and ba = "[''clone:https://git.example/repo'']"
       and bb = "[''clone:https://git.example/repo'']"
       and bc = "[''clone:https://git.example/repo'', ''makedirs:/app/repos'']"
       and bd = "[''clone:https://git.example/repo'', ''makedirs:/app/repos'']"
       and be = "[''clone:https://git.example/repo'', ''makedirs:/app/repos'']"
       and bf = "[''clone:https://git.example/repo'', ''makedirs:/app/repos'',
             ''rmtree:/app/repos/repo_1234abcd'']"
       and bg = "[''clone:https://git.example/repo'', ''makedirs:/app/repos'',
             ''rmtree:/app/repos/repo_1234abcd'',
             ''copytree:/clones/repo->/app/repos/repo_1234abcd'']"
       and bh = "[''clone:https://git.example/repo'', ''makedirs:/app/repos'',
             ''rmtree:/app/repos/repo_1234abcd'',
             ''copytree:/clones/repo->/app/repos/repo_1234abcd'']"
       and bi = "[''clone:https://git.example/repo'', ''makedirs:/app/repos'',
             ''rmtree:/app/repos/repo_1234abcd'',
             ''copytree:/clones/repo->/app/repos/repo_1234abcd'']"]
  by (simp add: init_world_def example_payload_def example_workspace_def workspace_of_def
      os_path_join_def os_path_basename_def startswith_def)

lemma report_workspace_example:
  "report_workspace (scripted_ci ex rr rp) example_workspace
     \<lparr>environ = env, logs = [], stdout = out, ext = b\<rparr> =
   (Inr ''repos/repo_1234abcd'',
    \<lparr>environ = env, logs = [],
      stdout = out @ [''repo_path: /clones/repo'', ''repo_name: repo_1234abcd'',
        ''target_path: /app/repos/repo_1234abcd'', ''relative_repo_path: repos/repo_1234abcd'',
        ''Current working directory: /app'', ''Contents of working directory: ['repos']'',
        ''Contents of repos directory: ['repos']''],
      ext = b\<rparr>)"
  by (simp add: report_workspace_def prog_simps example_workspace_def repr_str_list_def
      py_repr_str_def py_repr_char_def py_isprintable_def Let_def)

text \<open>
  Claim C28. Running the agent: a timeout becomes status 500 with the
  text about the cost cap; any other \<open>Exception\<close> of the subprocess call becomes
  status 500 with \<open>Error running SWE-agent:\<close> and its text; a cancellation
  propagates; a non-zero return code raises status 500 \<open>SWE-agent failed: ...\<close>
  inside the \<open>try\<close>, which the last \<open>except\<close> clause catches and wraps again,
  so the caller reads \<open>Error running SWE-agent: 500: SWE-agent failed: ...\<close>;
  with return code 0 the two output lines are printed and the step returns.
\<close>

theorem ci_agent_outcome:
  assumes "getcwd ops (ext w) = (Inr cwd, ba)"
    and "subprocess_run ops [''sweagent'', ''run'', ''--config'', path] 1200 cwd ba = (r, bb)"
  shows "run_swe_agent ops path w =
    (case r of
       Inl e \<Rightarrow> (Inl (if is_Exception e then agent_error e else e), w\<lparr>ext := bb\<rparr>)
     | Inr result \<Rightarrow>
         (if returncode result \<noteq> 0
          then Inl (HTTPException 500
                 (''Error running SWE-agent: 500: SWE-agent failed: '' @ proc_stderr result))
          else Inr (),
          w\<lparr>ext := bb, stdout := stdout w @
            [''SWE-agent stdout: '' @ proc_stdout result,
             ''SWE-agent stderr: '' @ proc_stderr result]\<rparr>))"
  using assms
  by (simp add: run_swe_agent_def agent_failed_raises agent_error_def prog_simps
      str_nat.simps digit_char_def split: sum.splits)

theorem ci_agent_outcome_witness:
  "run_swe_agent
     (scripted_ci (\<lambda>p. False)
        (Inr \<lparr>returncode = 2, proc_stdout = ''out'', proc_stderr = ''no such model''\<rparr>) (Inr ''p''))
     ''/tmp/swe.yaml'' (init_world Map.empty []) =
   (Inl (HTTPException 500 ''Error running SWE-agent: 500: SWE-agent failed: no such model''),
    \<lparr>environ = Map.empty, logs = [],
      stdout = [''SWE-agent stdout: out'', ''SWE-agent stderr: no such model''],
      ext = [''run:sweagent run --config /tmp/swe.yaml'']\<rparr>)"
  using ci_agent_outcome
    [where ops = "scripted_ci (\<lambda>p. False)
        (Inr \<lparr>returncode = 2, proc_stdout = ''out'', proc_stderr = ''no such model''\<rparr>) (Inr ''p'')"
       and w = "init_world Map.empty []" and path = "''/tmp/swe.yaml''" and cwd = "''/app''"
       and ba = "[]" and bb = "[''run:sweagent run --config /tmp/swe.yaml'']"
       and r = "Inr \<lparr>returncode = 2, proc_stdout = ''out'', proc_stderr = ''no such model''\<rparr>"]
  by (simp add: init_world_def)

text \<open>
  Claim C29. When the workspace is prepared and reported, the key is
  configured, the configuration is written and the agent exits with code 0,
  the handler answers with the challenge id and the patch that
  \<open>generate_patch\<close> computes for \<open>repo_path\<close>, the clone, whereas the
  configuration it wrote points the agent at the relative path of the copy.
\<close>

theorem ci_success:
  assumes "prepare_repo ops payload (w\<lparr>stdout := stdout w @ [received_line payload]\<rparr>) = (Inr ws, wa)"
    and "report_workspace ops ws wa = (Inr rel, wb)"
    and "environ wb ''ANTHROPIC_API_KEY'' = Some key" and "key \<noteq> []"
    and "write_yaml_tempfile ops (swe_config rel (problem_statement payload)) (ext wb) =
           (Inr path, bc)"
    and "getcwd ops bc = (Inr cwd, bd)"
    and "subprocess_run ops [''sweagent'', ''run'', ''--config'', path] 1200 cwd bd =
           (Inr result, be)"
    and "returncode result = 0"
    and "generate_patch ops (repo_path ws) be = (Inr patch, bf)"
  shows "process_ci_regression_challenge ops payload w =
    (Inr [(''challenge_id'', JStr (challenge_id payload)), (''patch'', JStr patch)],
     wb\<lparr>ext := bf, stdout := stdout wb @
       [''Generated SWE-agent config at: '' @ path,
        ''SWE-agent stdout: '' @ proc_stdout result,
        ''SWE-agent stderr: '' @ proc_stderr result]\<rparr>)"
  using assms
  by (simp add: process_ci_regression_challenge_def write_swe_config_def run_swe_agent_def
      prog_simps received_line_def)

theorem ci_success_witness:
  "fst (process_ci_regression_challenge
      (scripted_ci (\<lambda>p. p = ''/repo_1234abcd'')
         (Inr \<lparr>returncode = 0, proc_stdout = ''done'', proc_stderr = []\<rparr>) (Inr ''diff --git a b''))
      example_payload (init_world [''ANTHROPIC_API_KEY'' \<mapsto> ''k''] [])) =
     Inr [(''challenge_id'', JStr ''c1''), (''patch'', JStr ''diff --git a b'')]
   \<and> ext (snd (process_ci_regression_challenge
      (scripted_ci (\<lambda>p. p = ''/repo_1234abcd'')
         (Inr \<lparr>returncode = 0, proc_stdout = ''done'', proc_stderr = []\<rparr>) (Inr ''diff --git a b''))
      example_payload (init_world [''ANTHROPIC_API_KEY'' \<mapsto> ''k''] []))) =
     [''clone:https://git.example/repo'', ''makedirs:/app/repos'',
      ''copytree:/clones/repo->/app/repos/repo_1234abcd'', ''rmtree:/repo_1234abcd'',
      ''config:repos/repo_1234abcd'', ''run:sweagent run --config /tmp/swe.yaml'',
      ''diff:/clones/repo'']"
  using ci_success
    [where ops = "scripted_ci (\<lambda>p. p = ''/repo_1234abcd'')
         (Inr \<lparr>returncode = 0, proc_stdout = ''done'', proc_stderr = []\<rparr>) (Inr ''diff --git a b'')"
       and payload = example_payload and w = "init_world [''ANTHROPIC_API_KEY'' \<mapsto> ''k''] []"
       and ws = example_workspace and rel = "''repos/repo_1234abcd''" and key = "''k''"
       and wa = "\<lparr>environ = [''ANTHROPIC_API_KEY'' \<mapsto> ''k''], logs = [],
           stdout = [received_line example_payload, ''Cloned repository to: /clones/repo''],
           ext = [''clone:https://git.example/repo'', ''makedirs:/app/repos'',
             ''copytree:/clones/repo->/app/repos/repo_1234abcd'', ''rmtree:/repo_1234abcd'']\<rparr>"
       and wb = "\<lparr>environ = [''ANTHROPIC_API_KEY'' \<mapsto> ''k''], logs = [],
           stdout = [received_line example_payload, ''Cloned repository to: /clones/repo'']
             @ [''repo_path: /clones/repo'', ''repo_name: repo_1234abcd'',
        ''target_path: /app/repos/repo_1234abcd'', ''relative_repo_path: repos/repo_1234abcd'',
        ''Current working directory: /app'', ''Contents of working directory: ['repos']'',
        ''Contents of repos directory: ['repos']''],
           ext = [''clone:https://git.example/repo'', ''makedirs:/app/repos'',
             ''copytree:/clones/repo->/app/repos/repo_1234abcd'', ''rmtree:/repo_1234abcd'']\<rparr>"
       and path = "''/tmp/swe.yaml''" and cwd = "''/app''"
       and result = "\<lparr>returncode = 0, proc_stdout = ''done'', proc_stderr = []\<rparr>"
       and patch = "''diff --git a b''"
       and bc = "[''clone:https://git.example/repo'', ''makedirs:/app/repos'',
             ''copytree:/clones/repo->/app/repos/repo_1234abcd'', ''rmtree:/repo_1234abcd'',
             ''config:repos/repo_1234abcd'']"
       and bd = "[''clone:https://git.example/repo'', ''makedirs:/app/repos'',
             ''copytree:/clones/repo->/app/repos/repo_1234abcd'', ''rmtree:/repo_1234abcd'',
             ''config:repos/repo_1234abcd'']"
       and be = "[''clone:https://git.example/repo'', ''makedirs:/app/repos'',
             ''copytree:/clones/repo->/app/repos/repo_1234abcd'', ''rmtree:/repo_1234abcd'',
             ''config:repos/repo_1234abcd'', ''run:sweagent run --config /tmp/swe.yaml'']"
       and bf = "[''clone:https://git.example/repo'', ''makedirs:/app/repos'',
             ''copytree:/clones/repo->/app/repos/repo_1234abcd'', ''rmtree:/repo_1234abcd'',
             ''config:repos/repo_1234abcd'', ''run:sweagent run --config /tmp/swe.yaml'',
             ''diff:/clones/repo'']"]
  by (simp add: init_world_def prepare_repo_example report_workspace_example
      example_payload_def [THEN arg_cong [of _ _ challenge_id]]
      example_payload_def [THEN arg_cong [of _ _ problem_statement]]
      example_workspace_def [THEN arg_cong [of _ _ repo_path]]
      swe_config_def config_repo_path_def)

text \<open>
  Claim C30. If the first eight characters of the identifier hold no
  slash, the directory the handler copies the clone to (and configures the
  agent with) is never the clone itself: it lies in the \<open>repos\<close> directory and
  its base name is the clone's base name, an underscore and the identifier.
\<close>

theorem ci_copy_is_not_the_clone:
  assumes "\<And>b u. fst (uuid4 ops b) = Inr u \<Longrightarrow> CHR ''/'' \<notin> set (take 8 u)"
  shows "ensures (\<lambda>ws. target_path ws \<noteq> repo_path ws
           \<and> os_path_basename (target_path ws) = repo_name ws
           \<and> target_path ws = os_path_join (repos_dir ws) (repo_name ws))
         (prepare_repo ops payload)"
  unfolding prepare_repo_def Let_def
  by (intro ensures_bnd_call ensures_bnd ensures_ret)
    (auto simp: workspace_paths dest!: assms)

theorem ci_copy_witness:
  "ensures (\<lambda>ws. target_path ws \<noteq> repo_path ws
           \<and> os_path_basename (target_path ws) = repo_name ws
           \<and> target_path ws = os_path_join (repos_dir ws) (repo_name ws))
     (prepare_repo (scripted_ci (\<lambda>p. False) (Inl IndexError) (Inr ''p'')) example_payload)"
  by (rule ci_copy_is_not_the_clone) simp

text \<open>
  Claim C31. The key of the agent's model is checked only after the
  repository has been cloned and copied: when it is unset or empty the
  handler raises status 500 and leaves the collaborators as the copy and the
  report left them; nothing is removed.
\<close>

theorem ci_missing_key_after_copy:
  assumes "prepare_repo ops payload (w\<lparr>stdout := stdout w @ [received_line payload]\<rparr>) = (Inr ws, wa)"
    and "report_workspace ops ws wa = (Inr rel, wb)"
    and "environ wb ''ANTHROPIC_API_KEY'' = None \<or> environ wb ''ANTHROPIC_API_KEY'' = Some []"
  shows "process_ci_regression_challenge ops payload w =
    (Inl (HTTPException 500 ''Anthropic API key not set in environment''), wb)"
  using assms
  by (auto simp: process_ci_regression_challenge_def prog_simps received_line_def)

theorem ci_missing_key_witness:
  "process_ci_regression_challenge (scripted_ci (\<lambda>p. p = ''/repo_1234abcd'') (Inl IndexError) (Inr ''p''))
      example_payload (init_world Map.empty []) =
   (Inl (HTTPException 500 ''Anthropic API key not set in environment''),
    \<lparr>environ = Map.empty, logs = [],
      stdout = [received_line example_payload, ''Cloned repository to: /clones/repo'',
        ''repo_path: /clones/repo'', ''repo_name: repo_1234abcd'',
        ''target_path: /app/repos/repo_1234abcd'', ''relative_repo_path: repos/repo_1234abcd'',
        ''Current working directory: /app'', ''Contents of working directory: ['repos']'',
        ''Contents of repos directory: ['repos']''],
      ext = [''clone:https://git.example/repo'', ''makedirs:/app/repos'',
             ''copytree:/clones/repo->/app/repos/repo_1234abcd'', ''rmtree:/repo_1234abcd'']\<rparr>)"
  using ci_missing_key_after_copy
    [where ops = "scripted_ci (\<lambda>p. p = ''/repo_1234abcd'') (Inl IndexError) (Inr ''p'')"
       and payload = example_payload and w = "init_world Map.empty []"
       and ws = example_workspace and rel = "''repos/repo_1234abcd''"
       and wa = "\<lparr>environ = Map.empty, logs = [],
           stdout = [received_line example_payload, ''Cloned repository to: /clones/repo''],
           ext = [''clone:https://git.example/repo'', ''makedirs:/app/repos'',
             ''copytree:/clones/repo->/app/repos/repo_1234abcd'', ''rmtree:/repo_1234abcd'']\<rparr>"
       and wb = "\<lparr>environ = Map.empty, logs = [],
           stdout = [received_line example_payload, ''Cloned repository to: /clones/repo'']
             @ [''repo_path: /clones/repo'', ''repo_name: repo_1234abcd'',
        ''target_path: /app/repos/repo_1234abcd'', ''relative_repo_path: repos/repo_1234abcd'',
        ''Current working directory: /app'', ''Contents of working directory: ['repos']'',
        ''Contents of repos directory: ['repos']''],
           ext = [''clone:https://git.example/repo'', ''makedirs:/app/repos'',
             ''copytree:/clones/repo->/app/repos/repo_1234abcd'', ''rmtree:/repo_1234abcd'']\<rparr>"]
  by (simp add: init_world_def prepare_repo_example report_workspace_example)

end
