(* ===== verification/MinerApp.thy ===== *)
theory MinerApp
  imports Codegen CiRegression
begin

text \<open>
  The assembly of the miner application (\<open>src/miner/main.py\<close>): an
  application with one dependency override, on which the routers of the
  code-generation endpoint, of the availability endpoint and of the
  CI-regression endpoint are mounted in this order.

  The availability router is not under \<open>src/\<close>: it is a parameter, generic in
  the type of its endpoints, and the theorem holds for every such router.
  The routes the framework adds for its own documentation are left out.
\<close>

section \<open>Data\<close>

datatype 'av miner_endpoint =
    Codegen_endpoint codegen_endpoint
  | Availability_endpoint 'av
  | Ci_regression_endpoint ci_regression_endpoint

datatype dependency_key = Config | Get_config

datatype override = Config_object

record 'av fastapi_app =
  app_routes :: "'av miner_endpoint api_router"
  dependency_overrides :: "dependency_key \<rightharpoonup> override"

section \<open>The application\<close>

definition FastAPI :: "'av fastapi_app" where
  "FastAPI = \<lparr>app_routes = [], dependency_overrides = Map.empty\<rparr>"

definition app_include_router ::
  "'e api_router \<Rightarrow> string \<Rightarrow> string list \<Rightarrow> ('e \<Rightarrow> 'av miner_endpoint) \<Rightarrow>
   'av fastapi_app \<Rightarrow> 'av fastapi_app" where
  "app_include_router router pfx tags emb a =
     a\<lparr>app_routes := include_router router pfx tags emb (app_routes a)\<rparr>"

definition app :: "'av api_router \<Rightarrow> 'av fastapi_app" where
  "app availability_router =
     app_include_router ci_regression_router ''/ci_regression'' [''ci_regression'']
       Ci_regression_endpoint
     (app_include_router availability_router [] [''availability''] Availability_endpoint
     (app_include_router codegen_router ''/codegen'' [''codegen''] Codegen_endpoint
     (FastAPI\<lparr>dependency_overrides := [Config \<mapsto> Config_object]\<rparr>)))"

section \<open>The routes the application serves\<close>

text \<open>The two challenge routes as they are mounted.\<close>

definition codegen_route :: "'av miner_endpoint api_route" where
  "codegen_route =
     \<lparr>route_path = ''/codegen/challenge'', route_endpoint = Codegen_endpoint Process_challenge,
      route_tags = [''codegen'', ''codegen''], route_dependencies = [], route_methods = [POST]\<rparr>"

definition ci_regression_route :: "'av miner_endpoint api_route" where
  "ci_regression_route =
     \<lparr>route_path = ''/ci_regression/challenge'',
      route_endpoint = Ci_regression_endpoint Process_ci_regression_challenge,
      route_tags = [''ci_regression''], route_dependencies = [], route_methods = [POST]\<rparr>"

definition mount_availability :: "'av api_route \<Rightarrow> 'av miner_endpoint api_route" where
  "mount_availability = mount [] [''availability''] Availability_endpoint"

lemma app_routes_app:
  "app_routes (app av) = codegen_route # map mount_availability av @ [ci_regression_route]"
  by (simp add: app_def app_include_router_def include_router_def FastAPI_def codegen_router_def
      ci_regression_router_def add_api_route_def mount_def codegen_route_def
      ci_regression_route_def mount_availability_def)

lemma app_dependency_overrides: "dependency_overrides (app av) = [Config \<mapsto> Config_object]"
  by (simp add: app_def app_include_router_def FastAPI_def)

lemma serves_mount_availability [simp]: "serves m p (mount_availability r) = serves m p r"
  using serves_mount [of m "[]" p] by (simp add: mount_availability_def)

lemma find_serves_availability:
  "find (serves m p) (map mount_availability av) = map_option mount_availability (find (serves m p) av)"
  by (simp add: find_map comp_def)

lemma serves_challenge_routes:
  "serves m p codegen_route \<longleftrightarrow> m = POST \<and> p = ''/codegen/challenge''"
  "serves m p ci_regression_route \<longleftrightarrow> m = POST \<and> p = ''/ci_regression/challenge''"
  by (auto simp: serves_def codegen_route_def ci_regression_route_def)

text \<open>
  Claim C39. Which handler answers a challenge, for every availability
  router. The code-generation router is mounted first: \<open>POST
  /codegen/challenge\<close> always reaches \<open>process_challenge\<close>, on a route that
  carries no request verification and its tag twice. The CI-regression
  router is mounted last: \<open>POST /ci_regression/challenge\<close> reaches
  \<open>process_ci_regression_challenge\<close> only if no route of the availability
  router answers that path and method; otherwise the first such route of the
  availability router serves the request.
\<close>

theorem miner_app_resolution:
  "resolve (app_routes (app av)) POST ''/codegen/challenge'' = Served codegen_route
   \<and> resolve (app_routes (app av)) POST ''/ci_regression/challenge'' =
       (case find (serves POST ''/ci_regression/challenge'') av of
          Some r \<Rightarrow> Served (mount_availability r)
        | None \<Rightarrow> Served ci_regression_route)
   \<and> route_dependencies codegen_route = []
   \<and> route_dependencies ci_regression_route = []"
proof (intro conjI)
  show "resolve (app_routes (app av)) POST ''/codegen/challenge'' = Served codegen_route"
    unfolding resolve_Served_iff by (simp add: app_routes_app serves_challenge_routes)
  have "find (serves POST ''/ci_regression/challenge'') (app_routes (app av)) =
       Some (case find (serves POST ''/ci_regression/challenge'') av of
               Some r \<Rightarrow> mount_availability r
             | None \<Rightarrow> ci_regression_route)"
    by (simp add: app_routes_app find_append find_serves_availability serves_challenge_routes
        split: option.splits)
  then show "resolve (app_routes (app av)) POST ''/ci_regression/challenge'' =
       (case find (serves POST ''/ci_regression/challenge'') av of
          Some r \<Rightarrow> Served (mount_availability r)
        | None \<Rightarrow> Served ci_regression_route)"
    by (cases "find (serves POST ''/ci_regression/challenge'') av")
      (simp_all add: resolve_Served_iff)
qed (simp_all add: codegen_route_def ci_regression_route_def)

end
