(* ===== verification/Logging.thy ===== *)
theory Logging
  imports Effects
begin

text \<open>
  The logger set-up of the platform API
  (\<open>src/api/src/utils/logging_utils.py\<close>): the filter that stamps every
  record, the configuration done when the module is imported, and
  \<open>get_logger\<close>.

  The state is the registry of the logging library: the root logger, the
  named loggers, and a counter from which every new filter and handler takes
  its identity (the library compares them by identity). \<open>getLogger\<close>,
  \<open>addFilter\<close>, \<open>addHandler\<close> and \<open>basicConfig\<close> are the library's
  operations as the module uses them; \<open>setup_process_logging\<close> is not under
  \<open>src/\<close> and is a parameter.
\<close>

section \<open>The registry\<close>

definition levelno :: "log_level \<Rightarrow> nat" where
  "levelno l = (case l of DEBUG \<Rightarrow> 10 | INFO \<Rightarrow> 20 | WARNING \<Rightarrow> 30 | ERROR \<Rightarrow> 40 | CRITICAL \<Rightarrow> 50)"

datatype handler_class = StreamHandler | FileHandler | DatadogLogHandler | OtherHandler

fun is_StreamHandler :: "handler_class \<Rightarrow> bool" where
  "is_StreamHandler StreamHandler = True"
| "is_StreamHandler FileHandler = True"
| "is_StreamHandler _ = False"

record log_handler =
  handler_id :: nat
  handler_class :: handler_class
  handler_level :: nat
  handler_format :: "string option"

datatype filter_class = TimestampFilter | OtherFilter

record log_filter =
  filter_id :: nat
  filter_class :: filter_class

record py_logger =
  logger_level :: nat
  logger_filters :: "log_filter list"
  logger_handlers :: "log_handler list"

record logging_state =
  root_logger :: py_logger
  named_loggers :: "string \<rightharpoonup> py_logger"
  next_id :: nat

record 't log_record =
  record_level :: log_level
  record_message :: string
  record_timestamp :: "'t option"

definition new_logger :: py_logger where
  "new_logger = \<lparr>logger_level = 0, logger_filters = [], logger_handlers = []\<rparr>"

definition the_logger :: "logging_state \<Rightarrow> string \<Rightarrow> py_logger" where
  "the_logger st name = (case named_loggers st name of Some l \<Rightarrow> l | None \<Rightarrow> new_logger)"

definition getLogger :: "string \<Rightarrow> logging_state \<Rightarrow> logging_state" where
  "getLogger name st =
     (case named_loggers st name of
        Some l \<Rightarrow> st
      | None \<Rightarrow> st\<lparr>named_loggers := (named_loggers st)(name \<mapsto> new_logger)\<rparr>)"

definition addFilter :: "string \<Rightarrow> log_filter \<Rightarrow> logging_state \<Rightarrow> logging_state" where
  "addFilter name f st =
     (let l = the_logger st name in
      if filter_id f \<in> filter_id ` set (logger_filters l) then st
      else st\<lparr>named_loggers :=
        (named_loggers st)(name \<mapsto> l\<lparr>logger_filters := logger_filters l @ [f]\<rparr>)\<rparr>)"

definition addHandler :: "string \<Rightarrow> log_handler \<Rightarrow> logging_state \<Rightarrow> logging_state" where
  "addHandler name h st =
     (let l = the_logger st name in
      if handler_id h \<in> handler_id ` set (logger_handlers l) then st
      else st\<lparr>named_loggers :=
        (named_loggers st)(name \<mapsto> l\<lparr>logger_handlers := logger_handlers l @ [h]\<rparr>)\<rparr>)"

definition basicConfig :: "nat \<Rightarrow> string \<Rightarrow> logging_state \<Rightarrow> logging_state" where
  "basicConfig level fmt st =
     (if logger_handlers (root_logger st) = []
      then st\<lparr>root_logger := (root_logger st)
                 \<lparr>logger_level := level,
                  logger_handlers := [\<lparr>handler_id = next_id st, handler_class = StreamHandler,
                                        handler_level = 0, handler_format = Some fmt\<rparr>]\<rparr>,
              next_id := Suc (next_id st)\<rparr>
      else st)"

section \<open>The module\<close>

definition TimestampFilter_filter :: "'t \<Rightarrow> 't log_record \<Rightarrow> bool \<times> 't log_record" where
  "TimestampFilter_filter now record = (True, record\<lparr>record_timestamp := Some now\<rparr>)"

definition quiet_stream_handlers :: "logging_state \<Rightarrow> logging_state" where
  "quiet_stream_handlers st =
     st\<lparr>root_logger := (root_logger st)\<lparr>logger_handlers :=
        map (\<lambda>handler. if is_StreamHandler (handler_class handler)
                        then handler\<lparr>handler_level := levelno INFO\<rparr> else handler)
          (logger_handlers (root_logger st))\<rparr>\<rparr>"

definition module_init :: "string \<Rightarrow> logging_state \<Rightarrow> logging_state" where
  "module_init module_name st =
     getLogger module_name
       (quiet_stream_handlers
          (basicConfig (levelno DEBUG) ''%(asctime)s - %(name)s - %(levelname)s - %(message)s'' st))"

definition get_logger ::
  "(string \<Rightarrow> logging_state \<Rightarrow> logging_state) \<Rightarrow> string \<Rightarrow> logging_state \<Rightarrow> logging_state" where
  "get_logger setup_process_logging name st =
     (let st = getLogger name st;
          st = addFilter name \<lparr>filter_id = next_id st, filter_class = TimestampFilter\<rparr>
                 (st\<lparr>next_id := Suc (next_id st)\<rparr>);
          st = setup_process_logging name st;
          st = addHandler name
                 \<lparr>handler_id = next_id st, handler_class = DatadogLogHandler, handler_level = 0,
                  handler_format = None\<rparr>
                 (st\<lparr>next_id := Suc (next_id st)\<rparr>)
      in st)"

section \<open>Well-formed registries\<close>

definition fresh_ids :: "logging_state \<Rightarrow> bool" where
  "fresh_ids st \<longleftrightarrow>
     list_all (\<lambda>h. handler_id h < next_id st) (logger_handlers (root_logger st)) \<and>
     (\<forall>l \<in> ran (named_loggers st).
        list_all (\<lambda>f. filter_id f < next_id st) (logger_filters l) \<and>
        list_all (\<lambda>h. handler_id h < next_id st) (logger_handlers l))"

definition shipped :: "logging_state \<Rightarrow> string \<Rightarrow> nat" where
  "shipped st name =
     length (filter (\<lambda>h. handler_class h = DatadogLogHandler) (logger_handlers (the_logger st name)))"

definition stamped :: "logging_state \<Rightarrow> string \<Rightarrow> nat" where
  "stamped st name =
     length (filter (\<lambda>f. filter_class f = TimestampFilter) (logger_filters (the_logger st name)))"

definition empty_registry :: logging_state where
  "empty_registry = \<lparr>root_logger = new_logger, named_loggers = Map.empty, next_id = 0\<rparr>"


section \<open>The library's operations\<close>

lemma the_logger_getLogger [simp]: "the_logger (getLogger name st) n = the_logger st n"
  by (simp add: the_logger_def getLogger_def split: option.splits)

lemma next_id_getLogger [simp]: "next_id (getLogger name st) = next_id st"
  by (simp add: getLogger_def split: option.splits)

lemma root_logger_getLogger [simp]: "root_logger (getLogger name st) = root_logger st"
  by (simp add: getLogger_def split: option.splits)

lemma getLogger_registers: "named_loggers (getLogger name st) name \<noteq> None"
  by (simp add: getLogger_def split: option.splits)

lemma getLogger_idem: "getLogger name (getLogger name st) = getLogger name st"
  by (simp add: getLogger_def split: option.splits)

lemma the_logger_next_id [simp]: "the_logger (st\<lparr>next_id := k\<rparr>) n = the_logger st n"
  by (simp add: the_logger_def)

lemma the_logger_addFilter:
  "the_logger (addFilter name f st) n =
     (if n = name \<and> filter_id f \<notin> filter_id ` set (logger_filters (the_logger st name))
      then (the_logger st name)\<lparr>logger_filters := logger_filters (the_logger st name) @ [f]\<rparr>
      else the_logger st n)"
  by (simp add: addFilter_def Let_def the_logger_def)

lemma the_logger_addHandler:
  "the_logger (addHandler name h st) n =
     (if n = name \<and> handler_id h \<notin> handler_id ` set (logger_handlers (the_logger st name))
      then (the_logger st name)\<lparr>logger_handlers := logger_handlers (the_logger st name) @ [h]\<rparr>
      else the_logger st n)"
  by (simp add: addHandler_def Let_def the_logger_def)

lemma next_id_addFilter [simp]: "next_id (addFilter name f st) = next_id st"
  by (simp add: addFilter_def Let_def)

lemma next_id_addHandler [simp]: "next_id (addHandler name h st) = next_id st"
  by (simp add: addHandler_def Let_def)

lemma root_logger_addFilter [simp]: "root_logger (addFilter name f st) = root_logger st"
  by (simp add: addFilter_def Let_def)

lemma root_logger_addHandler [simp]: "root_logger (addHandler name h st) = root_logger st"
  by (simp add: addHandler_def Let_def)

section \<open>Fresh identities\<close>

lemma fresh_idsD:
  assumes "fresh_ids st"
  shows "list_all (\<lambda>f. filter_id f < next_id st) (logger_filters (the_logger st n))"
    and "list_all (\<lambda>h. handler_id h < next_id st) (logger_handlers (the_logger st n))"
  using assms by (auto simp: fresh_ids_def the_logger_def new_logger_def ran_def split: option.splits)

lemma fresh_idsI:
  assumes "list_all (\<lambda>h. handler_id h < next_id st) (logger_handlers (root_logger st))"
    and "\<And>n. list_all (\<lambda>f. filter_id f < next_id st) (logger_filters (the_logger st n))"
    and "\<And>n. list_all (\<lambda>h. handler_id h < next_id st) (logger_handlers (the_logger st n))"
  shows "fresh_ids st"
  unfolding fresh_ids_def
proof (intro conjI ballI)
  fix l assume "l \<in> ran (named_loggers st)"
  then obtain n where "named_loggers st n = Some l" by (auto simp: ran_def)
  then have "the_logger st n = l" by (simp add: the_logger_def)
  with assms(2) [of n] assms(3) [of n]
  show "list_all (\<lambda>f. filter_id f < next_id st) (logger_filters l)"
    and "list_all (\<lambda>h. handler_id h < next_id st) (logger_handlers l)" by simp_all
qed (rule assms(1))

lemma fresh_ids_root: "fresh_ids st \<Longrightarrow>
    list_all (\<lambda>h. handler_id h < next_id st) (logger_handlers (root_logger st))"
  by (simp add: fresh_ids_def)

lemma list_all_less_Suc: "list_all (\<lambda>x. f x < (k::nat)) xs \<Longrightarrow> list_all (\<lambda>x. f x < Suc k) xs"
  by (induction xs) auto

lemma fresh_ids_empty_registry: "fresh_ids empty_registry"
  by (simp add: fresh_ids_def empty_registry_def new_logger_def)

lemma fresh_ids_getLogger: "fresh_ids st \<Longrightarrow> fresh_ids (getLogger name st)"
  by (intro fresh_idsI) (simp_all add: fresh_idsD fresh_ids_root)

lemma fresh_ids_add_fresh_filter:
  assumes "fresh_ids st" and "filter_id f = next_id st"
  shows "fresh_ids (addFilter name f (st\<lparr>next_id := Suc (next_id st)\<rparr>))"
  using fresh_idsD [OF assms(1)] fresh_ids_root [OF assms(1)] assms(2)
  by (intro fresh_idsI) (simp_all add: the_logger_addFilter list_all_less_Suc)

lemma fresh_ids_add_fresh_handler:
  assumes "fresh_ids st" and "handler_id h = next_id st"
  shows "fresh_ids (addHandler name h (st\<lparr>next_id := Suc (next_id st)\<rparr>))"
  using fresh_idsD [OF assms(1)] fresh_ids_root [OF assms(1)] assms(2)
  by (intro fresh_idsI) (simp_all add: the_logger_addHandler list_all_less_Suc)

lemma fresh_ids_basicConfig: "fresh_ids st \<Longrightarrow> fresh_ids (basicConfig level fmt st)"
  by (auto simp: fresh_ids_def basicConfig_def intro: list_all_less_Suc)

lemma fresh_ids_quiet_stream_handlers:
  "fresh_ids st \<Longrightarrow> fresh_ids (quiet_stream_handlers st)"
  by (auto simp: fresh_ids_def quiet_stream_handlers_def list_all_iff)

lemma fresh_ids_module_init: "fresh_ids st \<Longrightarrow> fresh_ids (module_init name st)"
  by (simp add: module_init_def fresh_ids_getLogger fresh_ids_quiet_stream_handlers
      fresh_ids_basicConfig)

section \<open>The configuration at import\<close>

lemma module_init_stream_handlers:
  "list_all (\<lambda>h. is_StreamHandler (handler_class h) \<longrightarrow> handler_level h = levelno INFO)
     (logger_handlers (root_logger (module_init name st)))"
  by (auto simp: module_init_def quiet_stream_handlers_def list_all_iff)

lemma module_init_unconfigured:
  assumes "logger_handlers (root_logger st) = []"
  shows "root_logger (module_init name st) =
     (root_logger st)\<lparr>logger_level := levelno DEBUG,
       logger_handlers := [\<lparr>handler_id = next_id st, handler_class = StreamHandler,
         handler_level = levelno INFO,
         handler_format = Some ''%(asctime)s - %(name)s - %(levelname)s - %(message)s''\<rparr>]\<rparr>"
  using assms by (simp add: module_init_def quiet_stream_handlers_def basicConfig_def)

lemma module_init_configured:
  assumes "logger_handlers (root_logger st) \<noteq> []"
  shows "logger_level (root_logger (module_init name st)) = logger_level (root_logger st)"
    and "map handler_format (logger_handlers (root_logger (module_init name st))) =
         map handler_format (logger_handlers (root_logger st))"
  using assms by (simp_all add: module_init_def quiet_stream_handlers_def basicConfig_def comp_def)

section \<open>\<open>get_logger\<close>\<close>

definition leaves_logger :: "(string \<Rightarrow> logging_state \<Rightarrow> logging_state) \<Rightarrow> string \<Rightarrow> bool" where
  "leaves_logger setup name \<longleftrightarrow>
     (\<forall>st. (fresh_ids st \<longrightarrow> fresh_ids (setup name st))
         \<and> stamped (setup name st) name = stamped st name
         \<and> shipped (setup name st) name = shipped st name)"

lemma get_logger_step:
  assumes "leaves_logger setup name" and "fresh_ids st"
  shows "fresh_ids (get_logger setup name st)"
    and "stamped (get_logger setup name st) name = Suc (stamped st name)"
    and "shipped (get_logger setup name st) name = Suc (shipped st name)"
proof -
  define sa where "sa = getLogger name st"
  define f where "f = \<lparr>filter_id = next_id sa, filter_class = TimestampFilter\<rparr>"
  define sb where "sb = addFilter name f (sa\<lparr>next_id := Suc (next_id sa)\<rparr>)"
  define sc where "sc = setup name sb"
  define h where "h = \<lparr>handler_id = next_id sc, handler_class = DatadogLogHandler,
    handler_level = 0, handler_format = None\<rparr>"
  have res: "get_logger setup name st = addHandler name h (sc\<lparr>next_id := Suc (next_id sc)\<rparr>)"
    by (simp add: get_logger_def Let_def sa_def sb_def sc_def h_def f_def)
  have fa: "fresh_ids sa" using assms(2) by (simp add: sa_def fresh_ids_getLogger)
  then have fb: "fresh_ids sb"
    unfolding sb_def by (rule fresh_ids_add_fresh_filter) (simp add: f_def)
  then have fc: "fresh_ids sc" using assms(1) by (simp add: sc_def leaves_logger_def)
  show "fresh_ids (get_logger setup name st)"
    unfolding res by (rule fresh_ids_add_fresh_handler [OF fc]) (simp add: h_def)
  have "filter_id f \<notin> filter_id ` set (logger_filters (the_logger sa name))"
    using fresh_idsD(1) [OF fa, of name] by (auto simp: list_all_iff f_def)
  then have "stamped sb name = Suc (stamped st name)"
    by (simp add: stamped_def sb_def the_logger_addFilter sa_def f_def)
  moreover have "stamped sc name = stamped sb name" "shipped sc name = shipped sb name"
    using assms(1) by (simp_all add: sc_def leaves_logger_def)
  moreover have "shipped sb name = shipped st name"
    by (simp add: shipped_def sb_def the_logger_addFilter sa_def)
  moreover have fresh: "handler_id h \<notin> handler_id ` set (logger_handlers (the_logger sc name))"
    using fresh_idsD(2) [OF fc, of name] by (auto simp: list_all_iff h_def)
  ultimately show "stamped (get_logger setup name st) name = Suc (stamped st name)"
    and "shipped (get_logger setup name st) name = Suc (shipped st name)"
    by (simp_all add: res stamped_def shipped_def the_logger_addHandler h_def)
qed

text \<open>
  Claim C38. \<open>get_logger\<close> is not idempotent: as long as the process set-up
  adds no timestamp filter and no Datadog handler of its own, every call adds one
  more timestamp filter and one more Datadog handler to the logger of that
  name, so that after \<open>n\<close> calls each record of the logger is stamped \<open>n\<close>
  more times and shipped \<open>n\<close> more times than before.
\<close>

theorem logging_get_logger_accumulates:
  assumes "leaves_logger setup name" and "fresh_ids st"
  shows "stamped ((get_logger setup name ^^ n) st) name = stamped st name + n
       \<and> shipped ((get_logger setup name ^^ n) st) name = shipped st name + n
       \<and> fresh_ids ((get_logger setup name ^^ n) st)"
  by (induction n) (simp_all add: assms get_logger_step)

theorem logging_get_logger_witness:
  "shipped ((get_logger (\<lambda>name st. st) ''api'' ^^ 3) empty_registry) ''api'' = 3
   \<and> stamped ((get_logger (\<lambda>name st. st) ''api'' ^^ 3) empty_registry) ''api'' = 3"
  using logging_get_logger_accumulates [of "\<lambda>name st. st" "''api''" empty_registry 3]
  by (simp add: leaves_logger_def fresh_ids_empty_registry)
    (simp add: shipped_def stamped_def the_logger_def empty_registry_def new_logger_def)

lemma TimestampFilter_passes:
  "fst (TimestampFilter_filter now r) \<and>
   record_timestamp (snd (TimestampFilter_filter now r)) = Some now \<and>
   record_message (snd (TimestampFilter_filter now r)) = record_message r \<and>
   record_level (snd (TimestampFilter_filter now r)) = record_level r"
  by (simp add: TimestampFilter_filter_def)

end
