(* ===== verification/Spec2Isabelle.thy ===== *)
theory Spec2Isabelle
  imports Platform MinerApp Logging
begin

text \<open>
  \<^bold>\<open>A verification development for the validator-coordination platform and
  its miner.\<close>

  \<^bold>\<open>The program.\<close> The repository has two processes. The \<^emph>\<open>platform API\<close>
  coordinates validators: a websocket handler hands each validator its next
  evaluation (\<open>src/api/src/socket/handlers/handle_get_next_evaluation.py\<close>),
  and the scoring endpoints (\<open>src/api/src/endpoints/scoring.py\<close>) compute the
  top agent, broadcast it to all validators on a timer, and carry the
  administrative operations (ban an agent, approve a version, re-evaluate the
  approved agents) behind a password. The \<^emph>\<open>miner\<close> answers challenges
  (\<open>src/miner/endpoints/codegen.py\<close>, \<open>ci_regression.py\<close>) by producing a git
  patch with the help of a language model (\<open>src/miner/utils/llm.py\<close>). The
  state machine of agent versions, the registry of websocket connections, the
  consensus query and the database are described by the specification but
  their code is not under \<open>src/\<close>; the handlers only call them. They are
  modelled from the specification, in theories of their own, and the
  handlers are run on them in theory \<open>Platform\<close>.

  \<^bold>\<open>The theories\<close>, in import order:
  \<^item> \<open>Prelude\<close>: fact collections (\<open>prog_simps\<close>, \<open>py_simps\<close>), the result
    type, generic lemmas on sums and lists.
  \<^item> \<open>PyStr\<close>: the Python string builtins the sources call (\<open>isspace\<close>,
    \<open>rstrip\<close>, \<open>strip\<close>, \<open>startswith\<close>, \<open>join\<close>, \<open>str\<close> of an int) on
    strings of 8-bit characters.
  \<^item> \<open>Effects\<close>: exceptions as a datatype, the world a handler acts on, and the
    combinators that translate Python's statement sequencing, \<open>raise\<close>,
    \<open>try/except\<close>, \<open>try/finally\<close>, logging, \<open>os.getenv\<close> and calls to external
    collaborators; the predicates \<open>raises_only\<close> and \<open>ensures\<close> with their
    closure rules.
  \<^item> \<open>Json\<close>: JSON values, dictionaries, \<open>d[k]\<close> with \<open>KeyError\<close>, \<open>d.get(k)\<close>,
    truthiness, \<open>repr\<close>, \<open>str\<close>, \<open>json.dumps\<close> with and without \<open>indent\<close>.
  \<^item> \<open>Routing\<close>: routers as lists of routes, \<open>add_api_route\<close>,
    \<open>include_router\<close>, and the resolution of a request against a router
    (\<open>resolve\<close>: the first route with the path and the method serves it).
  \<^item> \<open>Logging\<close>: \<open>logging_utils.py\<close>: the registry of the logging library
    as a record, \<open>TimestampFilter\<close>, the configuration done when the module
    is imported (\<open>module_init\<close>) and \<open>get_logger\<close>.
  \<^item> \<open>Dispatch\<close>: \<open>handle_get_next_evaluation\<close>, statement by statement, log
    lines included.
  \<^item> \<open>Scoring\<close>: \<open>scoring.py\<close>: \<open>weight_receiving_agent\<close>,
    \<open>tell_validators_to_set_weights\<close>, \<open>run_weight_setting_loop\<close>,
    \<open>trigger_weight_set\<close>, \<open>ban_agent\<close>, \<open>approve_version\<close>,
    \<open>re_eval_approved\<close>, the table \<open>routes\<close> and the loop that builds the
    router from it (\<open>add_scoring_routes\<close>).
  \<^item> \<open>AgentStateMachine\<close>, \<open>ConnectionRegistry\<close>, \<open>ConsensusEngine\<close>,
    \<open>Persistence\<close>: the components of sections 3 to 6 of the specification:
    the transition table as an inductive relation and the operations of the
    state machine with its step relation \<open>sm_step\<close>; \<open>register\<close>,
    \<open>deregister\<close>, \<open>send_to\<close> and \<open>broadcast\<close>; the algorithm \<open>top_agent\<close>;
    the query \<open>list_pending_evaluation\<close> with its assignment.
  \<^item> \<open>Platform\<close>: the state of these components, the collaborators of the
    handlers implemented by them (\<open>platform_scoring_ops\<close>,
    \<open>platform_dispatch_ops\<close>), and the runs of administrative requests
    (\<open>admin_run\<close>, an inductive relation over \<open>serve\<close>).
  \<^item> \<open>Llm\<close>: \<open>llm.py\<close>: the prompt and \<open>generate_solution_with_openai\<close>.
  \<^item> \<open>Codegen\<close>: \<open>codegen.py\<close>: \<open>process_challenge\<close> in the blocks of its
    body, and the router.
  \<^item> \<open>CiRegression\<close>: \<open>ci_regression.py\<close>:
    \<open>process_ci_regression_challenge\<close> in its steps (\<open>prepare_repo\<close>,
    \<open>report_workspace\<close>, \<open>write_swe_config\<close>, \<open>run_swe_agent\<close>), the
    request model, \<open>os.path.join\<close> and \<open>os.path.basename\<close>, and the router.
  \<^item> \<open>MinerApp\<close>: \<open>main.py\<close>: the application, its dependency override and
    the three mounted routers, for any availability router.
  \<^item> \<open>Spec2Isabelle\<close> (this theory): the header and the properties that span
    components.

  \<^bold>\<open>How the model corresponds to the code.\<close> Every handler is a definition
  of the same name whose right-hand side follows the Python body line by line:
  \<open>bnd\<close> is one statement after another, \<open>try_except m is_Exception h\<close> is
  \<open>try: m except Exception as e: h\<close>, \<open>try_finally\<close> is \<open>try/finally\<close>,
  \<open>logger_log\<close> appends the formatted record to the world's log, \<open>getenv\<close>
  reads the environment, \<open>call\<close> runs an operation of a collaborator on the
  collaborators' state. A handler applied to a world returns the pair of its
  result (\<open>Inl\<close> an exception, \<open>Inr\<close> the returned value) and the world after.
  The collaborators a handler calls are the fields of an operations record
  (\<open>dispatch_ops\<close>, \<open>scoring_ops\<close>, \<open>llm_ops\<close>, \<open>codegen_ops\<close>,
  \<open>ci_ops\<close>); the theorems quantify over that record, so they hold for any
  database, any websocket, any lock, any repository, any file system and any
  language model, failing ones included. \<open>CancelledError\<close> stands for the
  exceptions that derive from \<open>BaseException\<close> only, which
  \<open>except Exception\<close> does not catch. The closed instances of the theorems
  run the handlers on recording collaborators (\<open>scripted_ops\<close>,
  \<open>scripted_scoring\<close>, \<open>scripted_llm\<close>, \<open>scripted_codegen\<close>,
  \<open>scripted_ci\<close>) whose state is the list of the calls made on them.

  \<^bold>\<open>What the lemmas show.\<close> For each handler: its result and final world on
  every path (success, each collaborator failing, each guard rejecting), the
  set of exceptions it can raise and the shape of its replies. For the
  dispatch handler, that "no evaluation available" ends in the error reply,
  and that every frame it sends is printable ASCII. For the scoring
  endpoints, that a wrong password changes nothing, that the weight loop
  ends at the first failing iteration, and that the router built from any
  route table serves a request by the first entry that answers it, behind
  the request verification. For the miner, that the lock is released on
  every path, that every failure is an \<open>HTTPException\<close>, what the validation
  of the model's answer accepts, the order in which the CI-regression handler
  clones, cleans and copies, that it computes its patch from the clone while
  the agent works on a copy that is never the clone, and which handler the
  application resolves a challenge to, for every availability router. For
  the components of the specification: that every step of the state machine
  moves the statuses along the transition table (extended by the edge from
  \<open>rejected\<close> to \<open>banned\<close>), that re-evaluation is idempotent, that a
  broadcast isolates closed channels, what the consensus algorithm
  guarantees of its choice, with the two examples of section 8, and that an
  evaluation is handed out once. For the handlers on these components
  (\<open>Platform\<close>): that a ban bans every version of the agent and nothing
  else, that a second re-evaluation request finds nothing, that the weight
  loop is never ended by a closed channel, that two requests for work never
  receive the same evaluation, and that no sequence of administrative
  requests takes a status off the table. For the logger set-up, that the identities of filters
  and handlers stay fresh, what the configuration at import does to a
  configured and to an unconfigured root logger, and that every call of
  \<open>get_logger\<close> adds a filter and a handler.

  \<^bold>\<open>Bounds and fuel.\<close> Strings are lists of 8-bit characters (code points
  0..255); Python ints are \<open>int\<close> or \<open>nat\<close> and never wrap; floats are not
  modelled. \<open>run_weight_setting_loop\<close> is a \<open>while True\<close> loop: the model
  takes the number of iterations observed as fuel and answers \<open>None\<close> while
  the loop is still running; the theorems about it hold for every amount of
  fuel, so no bound is assumed. Every other definition is total without fuel.
  Scores are rational numbers, creation times natural numbers; the band of
  the consensus algorithm is \<open>s_max * 97 / 100 \<le> s\<close>, which reads "within
  3% of the best score" for scores that are not negative (\<open>wf_scores\<close>).

  \<^bold>\<open>Assumptions on the libraries.\<close> The behaviour of the Python and
  framework functions the sources call is written out in \<open>PyStr\<close>, \<open>Json\<close>,
  \<open>Effects\<close>, \<open>Routing\<close> and the first part of \<open>Logging\<close>; it is assumed,
  not derived from code under \<open>src/\<close>. In particular: \<open>str\<close> of an
  \<open>HTTPException\<close> is its status, a colon and its detail (as the framework
  prints it since it defines \<open>__str__\<close>); \<open>model_dump(mode='json')\<close> of an
  agent version or of the top agent is a pure function that does not raise;
  the ids of an evaluation are strings already, so \<open>str\<close> of them is the
  identity; \<open>WebSocketManager.get_instance()\<close> is folded into the send
  operation; the temporary file, \<open>yaml.dump\<close> and the file's name are one
  operation that returns the path; \<open>logging.basicConfig\<close> does nothing when
  the root logger already has a handler; a request is served by the first
  route that matches it, and every registered path is a literal.

  \<^bold>\<open>Choices where the specification is silent or at odds with itself.\<close>
  \<open>ban_agent\<close> bans "regardless of current state" although the table has a
  ban edge from the non-terminal states only: the model bans a rejected
  version too and \<open>move\<close> names the extra edge. \<open>approve_version\<close> on a
  missing version fails with \<open>InvalidTransition\<close>, as its own paragraph says
  (the general rule would give \<open>NotFound\<close>); where it moves a version is a
  parameter (\<open>policy\<close>), checked against the table. A ban of an agent
  without versions fails with \<open>NotFound\<close>. The affected set of a
  re-evaluation is returned with the new status. A send on a registered but
  closed channel fails with \<open>NotConnected\<close>. The aggregate score is the
  mean of the latest score of each validator. Requests are served one after
  the other; the interleavings of section 5 are not modelled.

  \<^bold>\<open>Not modelled.\<close> The handlers see logging as appending a record; the
  registry of \<open>Logging\<close> and the world of \<open>Effects\<close> are not connected,
  propagation of a record to the ancestors of a logger is left out, and
  \<open>setup_process_logging\<close> is a parameter. HTTP authentication, the logging
  back ends, the scheduling of coroutines (each handler runs alone, so the miner
  lock is a collaborator that is acquired and released), \<open>os.path.relpath\<close>,
  the resolution of the dependency overrides of the miner application, the
  routes the framework adds for its documentation, and the third-party
  services are outside the model; the handlers' calls to them are
  parameters. Tracebacks are not part of a log record, and the text of the
  request model is the one its library prints. The constant
  \<open>HELLO_WORLD_DIFF\<close> of \<open>codegen.py\<close> is used by no handler and is left out.
\<close>

section \<open>Properties that span components\<close>

text \<open>
  A websocket that refuses every frame that is not printable ASCII, in front
  of the given one.
\<close>

definition printable_frames_only ::
  "('b, 'ws, 'ag) dispatch_ops \<Rightarrow> ('b, 'ws, 'ag) dispatch_ops" where
  "printable_frames_only ops =
     ops\<lparr>send_text := \<lambda>ws frame b.
       if list_all ascii_printable frame then send_text ops ws frame b
       else (Inl (OtherError ''frame is not printable ASCII''), b)\<rparr>"

lemma evaluation_message_printable_frames_only [simp]:
  "evaluation_message (printable_frames_only ops) = evaluation_message ops"
  by (simp add: fun_eq_iff evaluation_message_def printable_frames_only_def
      cong: option.case_cong)

text \<open>
  Claim C8. Every frame the dispatch handler puts on the websocket consists of
  printable ASCII characters only, whatever the evaluation and the dump of
  the agent version hold, because \<open>json.dumps\<close> escapes every other
  character: behind a websocket that refuses any other frame the handler
  behaves exactly as without it, on every path and in every world.
\<close>

theorem dispatch_sends_printable_frames:
  "handle_get_next_evaluation (printable_frames_only ops) ws hk rj w =
   handle_get_next_evaluation ops ws hk rj w"
proof -
  have send: "send_text (printable_frames_only ops) ws (dumps j) = send_text ops ws (dumps j)"
    for j
    by (simp add: printable_frames_only_def dumps_printable)
  have query: "get_next_evaluation_for_validator (printable_frames_only ops) =
      get_next_evaluation_for_validator ops"
    and lookup: "get_agent_by_version_id (printable_frames_only ops) = get_agent_by_version_id ops"
    by (simp_all add: printable_frames_only_def)
  have "build_socket_message (printable_frames_only ops) hk evaluation =
      build_socket_message ops hk evaluation" for evaluation
    by (simp add: build_socket_message_def lookup cong: option.case_cong)
  then have "get_next_evaluation_body (printable_frames_only ops) ws hk =
      get_next_evaluation_body ops ws hk"
    by (simp add: get_next_evaluation_body_def send query del: dumps.simps)
  then show ?thesis
    by (simp add: handle_get_next_evaluation_def)
qed

end
